theory Spec2Isabelle
  imports Main "HOL-Library.Word"
begin

unbundle bit_operations_syntax

section \<open>Python values used by the program\<close>

text \<open>
  Python strings are modelled as \<open>string\<close>, read as the UTF-8 bytes of the text (so
  \<open>data.encode("utf-8")\<close> is the identity on the model).  \<open>Optional[str]\<close> is
  \<open>string option\<close>, \<open>datetime\<close> is an abstract instant.
\<close>

type_synonym datetime = nat

text \<open>\<open>x or d\<close> for \<open>x: Optional[str]\<close>: \<open>None\<close> and the empty string are both falsy.\<close>

definition py_or :: "string option \<Rightarrow> string \<Rightarrow> string" where
  "py_or x d = (case x of None \<Rightarrow> d | Some s \<Rightarrow> if s = [] then d else s)"

text \<open>\<open>s or d\<close> for \<open>s: str\<close>.\<close>

definition str_or :: "string \<Rightarrow> string \<Rightarrow> string" where
  "str_or s d = (if s = [] then d else s)"

text \<open>Truthiness of an \<open>Optional[str]\<close> (\<open>if customer.email:\<close>).\<close>

definition truthy :: "string option \<Rightarrow> bool" where
  "truthy x = (case x of None \<Rightarrow> False | Some s \<Rightarrow> s \<noteq> [])"

text \<open>\<open>sep.join(parts)\<close>.\<close>

fun join :: "string \<Rightarrow> string list \<Rightarrow> string" where
  "join sep [] = []"
| "join sep [x] = x"
| "join sep (x # y # ys) = x @ sep @ join sep (y # ys)"

text \<open>\<open>str(n)\<close> for a Python \<open>int\<close>: decimal digits, a leading minus sign when negative.\<close>

definition digit_char :: "nat \<Rightarrow> char" where
  "digit_char d = ''0123456789'' ! (d mod 10)"

fun str_nat :: "nat \<Rightarrow> string" where
  "str_nat n = (if n < 10 then [digit_char n] else str_nat (n div 10) @ [digit_char (n mod 10)])"

declare str_nat.simps [simp del]

definition str_int :: "int \<Rightarrow> string" where
  "str_int i = (if i < 0 then CHR ''-'' # str_nat (nat (- i)) else str_nat (nat i))"

text \<open>
  \<open>s[:n]\<close>: the first \<open>n\<close> characters.  A character of the UTF-8 text is a lead byte
  followed by its continuation bytes (those from 128 to 191).
\<close>

definition is_continuation :: "char \<Rightarrow> bool" where
  "is_continuation c = (let b = (of_char c :: nat) in 128 \<le> b \<and> b \<le> 191)"

fun str_take :: "nat \<Rightarrow> string \<Rightarrow> string" where
  "str_take n [] = []"
| "str_take n (c # cs) =
     (if is_continuation c then c # str_take n cs
      else (case n of 0 \<Rightarrow> [] | Suc m \<Rightarrow> c # str_take m cs))"

text \<open>
  Lower-casing and stripping restricted to the ASCII range (letters \<open>A\<close>--\<open>Z\<close>; the
  whitespace characters tab, line feed, vertical tab, form feed, carriage return, the
  separators 28--31 and space).  They are not Python's \<open>str.lower\<close> and \<open>str.strip\<close>,
  which know all of Unicode and are parameters below; they serve in the examples.
\<close>

definition ascii_lower :: "char \<Rightarrow> char" where
  "ascii_lower c = (let n = (of_char c :: nat) in if 65 \<le> n \<and> n \<le> 90 then char_of (n + 32) else c)"

definition str_lower :: "string \<Rightarrow> string" where
  "str_lower s = map ascii_lower s"

definition is_space :: "char \<Rightarrow> bool" where
  "is_space c = (let n = (of_char c :: nat) in (9 \<le> n \<and> n \<le> 13) \<or> (28 \<le> n \<and> n \<le> 32))"

definition str_strip :: "string \<Rightarrow> string" where
  "str_strip s = rev (dropWhile is_space (rev (dropWhile is_space s)))"

text \<open>
  Python floats are kept symbolic: a value records the expression that produced it.
  Whether \<open>float(s)\<close> raises \<open>ValueError\<close> for a string \<open>s\<close>, and whether the
  resulting number is positive, are given by the interpreter (see \<open>interpreter\<close> below).
\<close>

datatype pyfloat =
    FloatOfStr string
  | FloatOfInt int
  | FloatNeg pyfloat
  | FloatZero
  | FloatOne

text \<open>
  \<open>float(n)\<close> for an \<open>int\<close> raises \<open>OverflowError\<close> when \<open>n\<close> rounds beyond the
  largest double.
\<close>

definition float_of_int_overflows :: "int \<Rightarrow> bool" where
  "float_of_int_overflows n = (\<bar>n\<bar> \<ge> 2 ^ 1024 - 2 ^ 970)"

text \<open>
  Exceptions, each with its message.  \<open>XeroAPIError\<close> stands for the class and its
  subclasses (\<open>XeroRateLimitError\<close>, \<open>XeroAuthError\<close>), which the engine's handlers catch
  as one; \<open>OtherException\<close> is any other \<open>Exception\<close>, raised by an adapter or by SQLite.
\<close>

datatype exn =
    XeroAPIError string
  | ValueError string
  | OverflowError string
  | ValidationError string
  | OtherException string

text \<open>\<open>str(e)\<close>: the message.\<close>

fun str_exn :: "exn \<Rightarrow> string" where
  "str_exn (XeroAPIError m) = m"
| "str_exn (ValueError m) = m"
| "str_exn (OverflowError m) = m"
| "str_exn (ValidationError m) = m"
| "str_exn (OtherException m) = m"

text \<open>
  What the interpreter and its libraries provide, taken as parameters: \<open>float(s)\<close>
  (\<open>py_float_error s\<close> is \<open>None\<close> when it returns a number, and the message of the
  \<open>ValueError\<close> when it raises), the sign of that number, \<open>str.lower\<close>, \<open>str.strip\<close>,
  and the message of the \<open>ValidationError\<close> that pydantic raises for a \<open>SyncMapping\<close>
  whose \<open>xero_id\<close> is \<open>None\<close>.
\<close>

record interpreter =
  py_float_error :: "string \<Rightarrow> string option"
  py_float_positive :: "string \<Rightarrow> bool"
  py_lower :: "string \<Rightarrow> string"
  py_strip :: "string \<Rightarrow> string"
  py_validation_error :: string

section \<open>SHA-256 (\<open>hashlib.sha256(...).hexdigest()\<close>)\<close>

type_synonym w32 = "32 word"

definition rotr :: "nat \<Rightarrow> w32 \<Rightarrow> w32" where
  "rotr n x = (drop_bit n x) OR (push_bit (32 - n) x)"

definition Ch :: "w32 \<Rightarrow> w32 \<Rightarrow> w32 \<Rightarrow> w32" where
  "Ch x y z = (x AND y) XOR (NOT x AND z)"

definition Maj :: "w32 \<Rightarrow> w32 \<Rightarrow> w32 \<Rightarrow> w32" where
  "Maj x y z = (x AND y) XOR (x AND z) XOR (y AND z)"

definition bsig0 :: "w32 \<Rightarrow> w32" where
  "bsig0 x = rotr 2 x XOR rotr 13 x XOR rotr 22 x"

definition bsig1 :: "w32 \<Rightarrow> w32" where
  "bsig1 x = rotr 6 x XOR rotr 11 x XOR rotr 25 x"

definition ssig0 :: "w32 \<Rightarrow> w32" where
  "ssig0 x = rotr 7 x XOR rotr 18 x XOR drop_bit 3 x"

definition ssig1 :: "w32 \<Rightarrow> w32" where
  "ssig1 x = rotr 17 x XOR rotr 19 x XOR drop_bit 10 x"

text \<open>
  The constants of the standard are the first 32 bits of the fractional parts of the cube
  roots (round constants) and of the square roots (initial state) of the first primes;
  they are computed here from that definition.  \<open>int_root k n\<close> is the integer part of
  the \<open>k\<close>-th root of \<open>n\<close>, for \<open>n\<close> below \<open>2 ^ (40 * k)\<close>.
\<close>

definition int_root :: "nat \<Rightarrow> nat \<Rightarrow> nat" where
  "int_root k n = foldl (\<lambda>r i. if (r + 2 ^ i) ^ k \<le> n then r + 2 ^ i else r) 0 (rev [0 ..< 40])"

definition first_primes :: "nat list" where
  "first_primes = filter (\<lambda>n. list_all (\<lambda>d. n mod d \<noteq> 0) [2 ..< n]) [2 ..< 312]"

definition sha256_K :: "w32 list" where
  "sha256_K = map (\<lambda>p. of_nat (int_root 3 (p * 2 ^ 96))) first_primes"

type_synonym sha256_state = "w32 \<times> w32 \<times> w32 \<times> w32 \<times> w32 \<times> w32 \<times> w32 \<times> w32"

definition sha256_H0 :: sha256_state where
  "sha256_H0 =
     (let h = (\<lambda>i. of_nat (int_root 2 (first_primes ! i * 2 ^ 64)))
      in (h 0, h 1, h 2, h 3, h 4, h 5, h 6, h 7))"

text \<open>Padding: the byte 128, zeros up to 56 modulo 64, the bit length on eight bytes.\<close>

definition sha256_pad :: "nat list \<Rightarrow> nat list" where
  "sha256_pad bs =
     (let n = length bs; bits = 8 * n
      in bs @ [128] @ replicate ((119 - n mod 64) mod 64) 0
            @ map (\<lambda>i. (bits div 256 ^ (7 - i)) mod 256) [0 ..< 8])"

fun be_words :: "nat \<Rightarrow> nat list \<Rightarrow> w32 list" where
  "be_words 0 bs = []"
| "be_words (Suc k) bs =
     of_nat (foldl (\<lambda>acc b. acc * 256 + b) 0 (take 4 bs)) # be_words k (drop 4 bs)"

fun blocks16 :: "nat \<Rightarrow> w32 list \<Rightarrow> w32 list list" where
  "blocks16 0 ws = []"
| "blocks16 (Suc k) ws = take 16 ws # blocks16 k (drop 16 ws)"

fun schedule :: "nat \<Rightarrow> w32 list \<Rightarrow> w32 list" where
  "schedule 0 ws = ws"
| "schedule (Suc k) ws =
     (let n = length ws
      in schedule k
           (ws @ [ssig1 (ws ! (n - 2)) + ws ! (n - 7) + ssig0 (ws ! (n - 15)) + ws ! (n - 16)]))"

fun sha256_round :: "sha256_state \<Rightarrow> w32 \<times> w32 \<Rightarrow> sha256_state" where
  "sha256_round (a, b, c, d, e, f, g, h) (k, w) =
     (let t1 = h + bsig1 e + Ch e f g + k + w;
          t2 = bsig0 a + Maj a b c
      in (t1 + t2, a, b, c, d + t1, e, f, g))"

fun sha256_add :: "sha256_state \<Rightarrow> sha256_state \<Rightarrow> sha256_state" where
  "sha256_add (a, b, c, d, e, f, g, h) (a', b', c', d', e', f', g', h') =
     (a + a', b + b', c + c', d + d', e + e', f + f', g + g', h + h')"

definition sha256_compress :: "sha256_state \<Rightarrow> w32 list \<Rightarrow> sha256_state" where
  "sha256_compress st block =
     sha256_add st (foldl sha256_round st (zip sha256_K (schedule 48 block)))"

definition sha256_words :: "nat list \<Rightarrow> w32 list" where
  "sha256_words bs =
     (let padded = sha256_pad bs;
          ws = be_words (length padded div 4) padded
      in (case foldl sha256_compress sha256_H0 (blocks16 (length ws div 16) ws) of
            (a, b, c, d, e, f, g, h) \<Rightarrow> [a, b, c, d, e, f, g, h]))"

definition hex_digit :: "nat \<Rightarrow> char" where
  "hex_digit n = ''0123456789abcdef'' ! (n mod 16)"

definition hex_word :: "w32 \<Rightarrow> string" where
  "hex_word w = map (\<lambda>i. hex_digit (unat (drop_bit (4 * (7 - i)) w))) [0 ..< 8]"

definition sha256_hexdigest :: "string \<Rightarrow> string" where
  "sha256_hexdigest s = concat (map hex_word (sha256_words (map of_char s)))"

section \<open>Source entities (\<open>models.py\<close>)\<close>

text \<open>
  The pydantic models, with the fields the checksum functions, the conversion helpers and
  the engine read.  Field names carry a prefix per class, since a field name is a constant.
\<close>

record ShopifyAddress =
  a_address1 :: "string option"
  a_address2 :: "string option"
  a_city :: "string option"
  a_province :: "string option"
  a_country :: "string option"
  a_zip :: "string option"
  a_phone :: "string option"

record ShopifyCustomer =
  c_id :: int
  c_email :: "string option"
  c_first_name :: "string option"
  c_last_name :: "string option"
  c_phone :: "string option"
  c_updated_at :: "datetime option"
  c_default_address :: "ShopifyAddress option"

record ShopifyProductVariant =
  v_price :: string
  v_sku :: "string option"

record ShopifyProduct =
  p_id :: int
  p_title :: string
  p_vendor :: "string option"
  p_product_type :: "string option"
  p_updated_at :: "datetime option"
  p_variants :: "ShopifyProductVariant list"

record ShopifyLineItem =
  li_title :: string
  li_quantity :: int
  li_sku :: "string option"
  li_price :: string

record ShopifyOrder =
  o_id :: int
  o_order_number :: int
  o_email :: "string option"
  o_created_at :: "datetime option"
  o_updated_at :: "datetime option"
  o_currency :: string
  o_total_price :: string
  o_subtotal_price :: string
  o_total_tax :: string
  o_total_discounts :: string
  o_financial_status :: "string option"
  o_customer :: "ShopifyCustomer option"
  o_line_items :: "ShopifyLineItem list"

text \<open>\<open>ShopifyProduct.primary_variant\<close>: \<open>self.variants[0] if self.variants else None\<close>.\<close>

definition primary_variant :: "ShopifyProduct \<Rightarrow> ShopifyProductVariant option" where
  "primary_variant product = (case p_variants product of [] \<Rightarrow> None | v # _ \<Rightarrow> Some v)"

text \<open>\<open>ShopifyCustomer.full_name\<close>.\<close>

definition full_name :: "ShopifyCustomer \<Rightarrow> string" where
  "full_name customer =
     str_or (join '' '' (map (\<lambda>p. py_or p []) (filter truthy [c_first_name customer, c_last_name customer])))
            ''Unknown''"

section \<open>Checksums (\<open>checksums.py\<close>)\<close>

text \<open>
  Each checksum is the SHA-256 hex digest of a pipe-joined string; the string itself
  (the local variable \<open>data\<close> of the source) is a definition of its own.
\<close>

definition customer_address_parts :: "ShopifyCustomer \<Rightarrow> string list" where
  "customer_address_parts customer =
     (case c_default_address customer of
        None \<Rightarrow> []
      | Some addr \<Rightarrow>
          [py_or (a_address1 addr) [], py_or (a_address2 addr) [], py_or (a_city addr) [],
           py_or (a_province addr) [], py_or (a_zip addr) [], py_or (a_country addr) []])"

definition customer_phone :: "ShopifyCustomer \<Rightarrow> string" where
  "customer_phone customer =
     (let phone = py_or (c_phone customer) []
      in if phone = [] then
           (case c_default_address customer of
              None \<Rightarrow> phone
            | Some addr \<Rightarrow> py_or (a_phone addr) [])
         else phone)"

definition customer_checksum_data :: "ShopifyCustomer \<Rightarrow> string" where
  "customer_checksum_data customer =
     join ''|'' ([py_or (c_email customer) [], py_or (c_first_name customer) [],
                  py_or (c_last_name customer) [], customer_phone customer]
                 @ customer_address_parts customer)"

definition calculate_customer_checksum :: "ShopifyCustomer \<Rightarrow> string" where
  "calculate_customer_checksum customer = sha256_hexdigest (customer_checksum_data customer)"

definition product_checksum_data :: "ShopifyProduct \<Rightarrow> string" where
  "product_checksum_data product =
     (let variant = primary_variant product
      in join ''|'' [str_or (p_title product) [], py_or (p_vendor product) [],
                     py_or (p_product_type product) [],
                     (case variant of Some v \<Rightarrow> v_price v | None \<Rightarrow> []),
                     (case variant of Some v \<Rightarrow> py_or (v_sku v) [] | None \<Rightarrow> [])])"

definition calculate_product_checksum :: "ShopifyProduct \<Rightarrow> string" where
  "calculate_product_checksum product = sha256_hexdigest (product_checksum_data product)"

definition line_item_data :: "ShopifyLineItem \<Rightarrow> string" where
  "line_item_data item = li_title item @ '':'' @ str_int (li_quantity item) @ '':'' @ li_price item"

definition order_checksum_data :: "ShopifyOrder \<Rightarrow> string" where
  "order_checksum_data order =
     join ''|'' [str_int (o_order_number order),
                 str_or (o_total_price order) ''0.00'',
                 str_or (o_subtotal_price order) ''0.00'',
                 str_or (o_total_tax order) ''0.00'',
                 py_or (o_financial_status order) [],
                 py_or (o_email order) [],
                 join '';'' (map line_item_data (o_line_items order))]"

definition calculate_order_checksum :: "ShopifyOrder \<Rightarrow> string" where
  "calculate_order_checksum order = sha256_hexdigest (order_checksum_data order)"

definition has_changed :: "string option \<Rightarrow> string \<Rightarrow> bool" where
  "has_changed old_checksum new_checksum =
     (case old_checksum of None \<Rightarrow> True | Some old \<Rightarrow> old \<noteq> new_checksum)"

section \<open>Destination entities and conversion helpers (\<open>models.py\<close>, \<open>constants.py\<close>)\<close>

record XeroAddress =
  xa_AddressType :: string
  xa_AddressLine1 :: "string option"
  xa_AddressLine2 :: "string option"
  xa_City :: "string option"
  xa_Region :: "string option"
  xa_PostalCode :: "string option"
  xa_Country :: "string option"

record XeroPhone =
  xp_PhoneType :: string
  xp_PhoneNumber :: "string option"

record XeroContact =
  xc_ContactID :: "string option"
  xc_ContactStatus :: string
  xc_Name :: string
  xc_FirstName :: "string option"
  xc_LastName :: "string option"
  xc_EmailAddress :: "string option"
  xc_Addresses :: "XeroAddress list"
  xc_Phones :: "XeroPhone list"
  xc_IsCustomer :: bool
  xc_IsSupplier :: bool

record SalesDetails =
  sd_UnitPrice :: pyfloat
  sd_AccountCode :: string
  sd_TaxType :: string

record PurchaseDetails =
  pd_AccountCode :: string
  pd_TaxType :: string

record XeroItem =
  xi_ItemID :: "string option"
  xi_Code :: string
  xi_Name :: string
  xi_Description :: "string option"
  xi_PurchaseDetails :: "PurchaseDetails option"
  xi_SalesDetails :: "SalesDetails option"
  xi_IsSold :: bool
  xi_IsPurchased :: bool

record XeroLineItem =
  xl_Description :: string
  xl_Quantity :: pyfloat
  xl_UnitAmount :: pyfloat
  xl_AccountCode :: string
  xl_ItemCode :: "string option"
  xl_TaxType :: string

record XeroInvoice =
  xv_InvoiceID :: "string option"
  xv_Reference :: "string option"
  xv_Type :: string
  xv_Status :: string
  xv_ContactID :: "string option"
  xv_LineItems :: "XeroLineItem list"
  xv_Date :: "datetime option"
  xv_DueDate :: "datetime option"
  xv_CurrencyCode :: string

record GLCodeMapping =
  sales_account :: string
  purchase_account :: string
  description :: string

definition CATEGORY_GL_MAPPING :: "(string \<times> GLCodeMapping) list" where
  "CATEGORY_GL_MAPPING =
     [(''wax melts'',
         \<lparr>sales_account = ''206'', purchase_account = ''310'', description = ''Sales - Wax Melts''\<rparr>),
      (''essential oil collection'',
         \<lparr>sales_account = ''201'', purchase_account = ''310'',
          description = ''Sales - Essential Oil Collection''\<rparr>),
      (''limited edition melts'',
         \<lparr>sales_account = ''202'', purchase_account = ''310'',
          description = ''Sales - Limited Edition Melts''\<rparr>),
      (''starter pack & gift boxes'',
         \<lparr>sales_account = ''203'', purchase_account = ''310'',
          description = ''Sales - Starter Pack & Gift Boxes''\<rparr>),
      (''starter packs'',
         \<lparr>sales_account = ''203'', purchase_account = ''310'',
          description = ''Sales - Starter Pack & Gift Boxes''\<rparr>),
      (''gift boxes'',
         \<lparr>sales_account = ''203'', purchase_account = ''310'',
          description = ''Sales - Starter Pack & Gift Boxes''\<rparr>),
      (''summer pops'',
         \<lparr>sales_account = ''204'', purchase_account = ''310'', description = ''Sales - Summer Pops''\<rparr>),
      (''wax burners'',
         \<lparr>sales_account = ''205'', purchase_account = ''310'', description = ''Sales - Wax Burners''\<rparr>),
      (''burners'',
         \<lparr>sales_account = ''205'', purchase_account = ''310'', description = ''Sales - Wax Burners''\<rparr>)]"

definition DEFAULT_GL_MAPPING :: GLCodeMapping where
  "DEFAULT_GL_MAPPING =
     \<lparr>sales_account = ''200'', purchase_account = ''310'', description = ''General Sales''\<rparr>"

definition get_gl_codes_for_category :: "interpreter \<Rightarrow> string option \<Rightarrow> GLCodeMapping" where
  "get_gl_codes_for_category py category =
     (if \<not> truthy category then DEFAULT_GL_MAPPING
      else (case map_of CATEGORY_GL_MAPPING (py_strip py (py_lower py (the category))) of
              Some codes \<Rightarrow> codes
            | None \<Rightarrow> DEFAULT_GL_MAPPING))"

definition DEFAULT_TAX_TYPE :: string where
  "DEFAULT_TAX_TYPE = ''OUTPUT2''"

definition DEFAULT_PURCHASE_TAX_TYPE :: string where
  "DEFAULT_PURCHASE_TAX_TYPE = ''INPUT2''"

definition INVOICE_REFERENCE_PREFIX :: string where
  "INVOICE_REFERENCE_PREFIX = ''SHOP-''"

definition DEFAULT_LINE_ITEM_ACCOUNT :: string where
  "DEFAULT_LINE_ITEM_ACCOUNT = ''200''"

definition shopify_customer_to_xero_contact :: "ShopifyCustomer \<Rightarrow> XeroContact" where
  "shopify_customer_to_xero_contact customer =
     (let addresses =
            (case c_default_address customer of
               None \<Rightarrow> []
             | Some addr \<Rightarrow>
                 [\<lparr>xa_AddressType = ''POBOX'', xa_AddressLine1 = a_address1 addr,
                   xa_AddressLine2 = a_address2 addr, xa_City = a_city addr,
                   xa_Region = a_province addr, xa_PostalCode = a_zip addr,
                   xa_Country = a_country addr\<rparr>]);
          phone_number =
            (if truthy (c_phone customer) then c_phone customer
             else (case c_default_address customer of
                     None \<Rightarrow> None
                   | Some addr \<Rightarrow> a_phone addr));
          phones =
            (if truthy phone_number
             then [\<lparr>xp_PhoneType = ''DEFAULT'', xp_PhoneNumber = phone_number\<rparr>]
             else []);
          name =
            (if full_name customer = ''Unknown'' \<and> truthy (c_email customer)
             then the (c_email customer)
             else if truthy (c_email customer)
             then full_name customer @ '' ('' @ the (c_email customer) @ '')''
             else full_name customer)
      in \<lparr>xc_ContactID = None, xc_ContactStatus = ''ACTIVE'', xc_Name = name,
          xc_FirstName = c_first_name customer, xc_LastName = c_last_name customer,
          xc_EmailAddress = c_email customer, xc_Addresses = addresses, xc_Phones = phones,
          xc_IsCustomer = True, xc_IsSupplier = False\<rparr>)"

text \<open>
  \<open>shopify_product_to_xero_item\<close>: \<open>None\<close> when the first variant has no SKU;
  \<open>float(variant.price)\<close> raises \<open>ValueError\<close> on a price that is not a number.
\<close>

definition shopify_product_to_xero_item :: "interpreter \<Rightarrow> ShopifyProduct \<Rightarrow> exn + XeroItem option" where
  "shopify_product_to_xero_item py product =
     (case primary_variant product of
        None \<Rightarrow> Inr None
      | Some variant \<Rightarrow>
          if \<not> truthy (v_sku variant) then Inr None
          else
            (let gl_codes = get_gl_codes_for_category py (p_product_type product);
                 bad_price = (if v_price variant \<noteq> [] then py_float_error py (v_price variant)
                              else None)
             in case bad_price of
                  Some message \<Rightarrow> Inl (ValueError message)
                | None \<Rightarrow>
                    (let price = (if v_price variant \<noteq> [] then FloatOfStr (v_price variant)
                                  else FloatZero)
                     in Inr (Some
                          \<lparr>xi_ItemID = None, xi_Code = the (v_sku variant),
                           xi_Name = str_take 50 (p_title product),
                           xi_Description = Some (p_title product),
                           xi_PurchaseDetails =
                             Some \<lparr>pd_AccountCode = purchase_account gl_codes,
                                   pd_TaxType = DEFAULT_PURCHASE_TAX_TYPE\<rparr>,
                           xi_SalesDetails =
                             Some \<lparr>sd_UnitPrice = price, sd_AccountCode = sales_account gl_codes,
                                   sd_TaxType = DEFAULT_TAX_TYPE\<rparr>,
                           xi_IsSold = True, xi_IsPurchased = True\<rparr>))))"

text \<open>The loop over \<open>order.line_items\<close> of \<open>shopify_order_to_xero_invoice\<close>.\<close>

fun invoice_line_items ::
  "interpreter \<Rightarrow> (string \<rightharpoonup> string) \<Rightarrow> ShopifyLineItem list \<Rightarrow> exn + XeroLineItem list" where
  "invoice_line_items py sku_to_gl_code [] = Inr []"
| "invoice_line_items py sku_to_gl_code (item # items) =
     (let account_code =
            (if truthy (li_sku item)
             then (case sku_to_gl_code (the (li_sku item)) of
                     Some code \<Rightarrow> code
                   | None \<Rightarrow> DEFAULT_LINE_ITEM_ACCOUNT)
             else DEFAULT_LINE_ITEM_ACCOUNT);
          bad_price = (if li_price item \<noteq> [] then py_float_error py (li_price item) else None)
      in if float_of_int_overflows (li_quantity item)
         then Inl (OverflowError ''int too large to convert to float'')
         else (case bad_price of
                 Some message \<Rightarrow> Inl (ValueError message)
               | None \<Rightarrow>
                   (case invoice_line_items py sku_to_gl_code items of
                      Inl e \<Rightarrow> Inl e
                    | Inr rest \<Rightarrow>
                        Inr (\<lparr>xl_Description = li_title item,
                              xl_Quantity = FloatOfInt (li_quantity item),
                              xl_UnitAmount = (if li_price item \<noteq> [] then FloatOfStr (li_price item)
                                               else FloatZero),
                              xl_AccountCode = account_code, xl_ItemCode = li_sku item,
                              xl_TaxType = DEFAULT_TAX_TYPE\<rparr> # rest))))"

text \<open>
  \<open>shopify_order_to_xero_invoice\<close>; \<open>now\<close> is the value of \<open>datetime.utcnow()\<close>, read
  when the order has no creation time.
\<close>

definition shopify_order_to_xero_invoice ::
  "interpreter \<Rightarrow> ShopifyOrder \<Rightarrow> string \<Rightarrow> (string \<rightharpoonup> string) \<Rightarrow> datetime \<Rightarrow> exn + XeroInvoice" where
  "shopify_order_to_xero_invoice py order contact_id sku_to_gl_code now =
     (case invoice_line_items py sku_to_gl_code (o_line_items order) of
        Inl e \<Rightarrow> Inl e
      | Inr line_items \<Rightarrow>
          (case (if o_total_discounts order \<noteq> [] then py_float_error py (o_total_discounts order)
                 else None) of
             Some message \<Rightarrow> Inl (ValueError message)
           | None \<Rightarrow>
               (let line_items' =
                      (if o_total_discounts order \<noteq> []
                          \<and> py_float_positive py (o_total_discounts order)
                       then line_items @
                            [\<lparr>xl_Description = ''Discount'', xl_Quantity = FloatOne,
                              xl_UnitAmount = FloatNeg (FloatOfStr (o_total_discounts order)),
                              xl_AccountCode = DEFAULT_LINE_ITEM_ACCOUNT, xl_ItemCode = None,
                              xl_TaxType = DEFAULT_TAX_TYPE\<rparr>]
                       else line_items);
                    reference = INVOICE_REFERENCE_PREFIX @ str_int (o_order_number order);
                    invoice_date = (case o_created_at order of Some d \<Rightarrow> d | None \<Rightarrow> now);
                    status = (if o_financial_status order = Some ''paid'' then ''AUTHORISED''
                              else ''DRAFT'')
                in Inr \<lparr>xv_InvoiceID = None, xv_Reference = Some reference, xv_Type = ''ACCREC'',
                        xv_Status = status, xv_ContactID = Some contact_id,
                        xv_LineItems = line_items', xv_Date = Some invoice_date,
                        xv_DueDate = Some invoice_date,
                        xv_CurrencyCode = str_or (o_currency order) ''GBP''\<rparr>)))"

section \<open>The mapping store (\<open>database.py\<close>)\<close>

record SyncMapping =
  m_shopify_id :: string
  m_xero_id :: string
  m_entity_type :: string
  m_last_synced_at :: "datetime option"
  m_shopify_updated_at :: "datetime option"
  m_checksum :: "string option"

record SyncHistoryEntry =
  h_run_id :: string
  h_started_at :: datetime
  h_completed_at :: "datetime option"
  h_status :: string
  h_entities_processed :: nat
  h_errors :: "string list"

record SyncError =
  e_id :: nat
  e_entity_type :: string
  e_shopify_id :: string
  e_error_message :: string
  e_occurred_at :: datetime
  e_retry_count :: nat

text \<open>
  The three tables.  \<open>sync_mappings\<close> has \<open>shopify_id\<close> as its primary key, so it is a
  map from that key to the other columns of the row; \<open>sync_errors\<close> is the list of its
  rows in insertion order, and \<open>error_seq\<close> is the AUTOINCREMENT counter (the largest row
  id handed out so far).  Every method runs in one transaction; failures of SQLite itself
  (a lock timeout, a full disk) are outside the model.
\<close>

record mapping_row =
  r_xero_id :: string
  r_entity_type :: string
  r_last_synced_at :: "datetime option"
  r_shopify_updated_at :: "datetime option"
  r_checksum :: "string option"

record Database =
  sync_mappings :: "string \<rightharpoonup> mapping_row"
  sync_history :: "SyncHistoryEntry list"
  sync_errors :: "SyncError list"
  error_seq :: nat

definition init_schema :: Database where
  "init_schema = \<lparr>sync_mappings = Map.empty, sync_history = [], sync_errors = [], error_seq = 0\<rparr>"

definition get_mapping :: "Database \<Rightarrow> string \<Rightarrow> SyncMapping option" where
  "get_mapping d shopify_id =
     (case sync_mappings d shopify_id of
        None \<Rightarrow> None
      | Some row \<Rightarrow>
          Some \<lparr>m_shopify_id = shopify_id, m_xero_id = r_xero_id row,
                m_entity_type = r_entity_type row, m_last_synced_at = r_last_synced_at row,
                m_shopify_updated_at = r_shopify_updated_at row, m_checksum = r_checksum row\<rparr>)"

text \<open>
  \<open>INSERT ... ON CONFLICT(shopify_id) DO UPDATE\<close>: on a conflict the row keeps its
  \<open>entity_type\<close>.
\<close>

definition upsert_mapping :: "SyncMapping \<Rightarrow> Database \<Rightarrow> Database" where
  "upsert_mapping mapping d =
     (case sync_mappings d (m_shopify_id mapping) of
        None \<Rightarrow>
          d\<lparr>sync_mappings := (sync_mappings d)(m_shopify_id mapping \<mapsto>
               \<lparr>r_xero_id = m_xero_id mapping, r_entity_type = m_entity_type mapping,
                r_last_synced_at = m_last_synced_at mapping,
                r_shopify_updated_at = m_shopify_updated_at mapping,
                r_checksum = m_checksum mapping\<rparr>)\<rparr>
      | Some row \<Rightarrow>
          d\<lparr>sync_mappings := (sync_mappings d)(m_shopify_id mapping \<mapsto>
               row\<lparr>r_xero_id := m_xero_id mapping,
                   r_last_synced_at := m_last_synced_at mapping,
                   r_shopify_updated_at := m_shopify_updated_at mapping,
                   r_checksum := m_checksum mapping\<rparr>)\<rparr>)"

definition delete_mapping :: "string \<Rightarrow> Database \<Rightarrow> bool \<times> Database" where
  "delete_mapping shopify_id d =
     (sync_mappings d shopify_id \<noteq> None,
      d\<lparr>sync_mappings := (sync_mappings d)(shopify_id := None)\<rparr>)"

text \<open>\<open>run_id\<close> is the primary key of \<open>sync_history\<close>: a second insert of it fails.\<close>

definition start_sync_run :: "string \<Rightarrow> datetime \<Rightarrow> Database \<Rightarrow> exn + Database" where
  "start_sync_run run_id now d =
     (if run_id \<in> set (map h_run_id (sync_history d))
      then Inl (OtherException ''UNIQUE constraint failed: sync_history.run_id'')
      else Inr (d\<lparr>sync_history := sync_history d @
                  [\<lparr>h_run_id = run_id, h_started_at = now, h_completed_at = None,
                    h_status = ''running'', h_entities_processed = 0, h_errors = []\<rparr>]\<rparr>))"

definition complete_sync_run ::
  "string \<Rightarrow> string \<Rightarrow> nat \<Rightarrow> string list \<Rightarrow> datetime \<Rightarrow> Database \<Rightarrow> Database" where
  "complete_sync_run run_id status entities_processed errors now d =
     d\<lparr>sync_history :=
         map (\<lambda>row. if h_run_id row = run_id
                    then row\<lparr>h_completed_at := Some now, h_status := status,
                             h_entities_processed := entities_processed, h_errors := errors\<rparr>
                    else row)
             (sync_history d)\<rparr>"

text \<open>
  \<open>ORDER BY completed_at DESC LIMIT 1\<close> over the successful runs (a NULL sorts last);
  among equal times the earliest row is taken.
\<close>

fun latest_run :: "SyncHistoryEntry list \<Rightarrow> SyncHistoryEntry option" where
  "latest_run [] = None"
| "latest_run (row # rows) =
     (case latest_run rows of
        None \<Rightarrow> Some row
      | Some row' \<Rightarrow>
          (case h_completed_at row' of
             None \<Rightarrow> Some row
           | Some t' \<Rightarrow>
               (case h_completed_at row of
                  None \<Rightarrow> Some row'
                | Some t \<Rightarrow> if t < t' then Some row' else Some row)))"

definition get_last_successful_sync :: "Database \<Rightarrow> SyncHistoryEntry option" where
  "get_last_successful_sync d = latest_run (filter (\<lambda>row. h_status row = ''success'') (sync_history d))"

text \<open>\<open>ORDER BY occurred_at DESC LIMIT 1\<close>; among equal times the earliest row is taken.\<close>

fun latest_error :: "SyncError list \<Rightarrow> SyncError option" where
  "latest_error [] = None"
| "latest_error (row # rows) =
     (case latest_error rows of
        None \<Rightarrow> Some row
      | Some row' \<Rightarrow> if e_occurred_at row < e_occurred_at row' then Some row' else Some row)"

definition record_error :: "string \<Rightarrow> string \<Rightarrow> string \<Rightarrow> datetime \<Rightarrow> Database \<Rightarrow> Database" where
  "record_error entity_type shopify_id error_message now d =
     (case latest_error (filter (\<lambda>row. e_entity_type row = entity_type \<and> e_shopify_id row = shopify_id)
                                (sync_errors d)) of
        Some existing \<Rightarrow>
          d\<lparr>sync_errors :=
              map (\<lambda>row. if e_id row = e_id existing
                         then row\<lparr>e_error_message := error_message, e_occurred_at := now,
                                  e_retry_count := e_retry_count row + 1\<rparr>
                         else row)
                  (sync_errors d)\<rparr>
      | None \<Rightarrow>
          d\<lparr>sync_errors := sync_errors d @
               [\<lparr>e_id = error_seq d + 1, e_entity_type = entity_type, e_shopify_id = shopify_id,
                 e_error_message = error_message, e_occurred_at = now, e_retry_count = 0\<rparr>],
            error_seq := error_seq d + 1\<rparr>)"

definition clear_error :: "string \<Rightarrow> Database \<Rightarrow> bool \<times> Database" where
  "clear_error shopify_id d =
     (\<exists>row \<in> set (sync_errors d). e_shopify_id row = shopify_id,
      d\<lparr>sync_errors := filter (\<lambda>row. e_shopify_id row \<noteq> shopify_id) (sync_errors d)\<rparr>)"

section \<open>The adapters and the world the engine runs in\<close>

text \<open>
  The two remote systems are external: each client is a record of operations over an
  abstract remote state, returning either the exception raised or the value, and the next
  remote state.  Nothing is assumed about what they answer.
\<close>

record 'x XeroClient =
  find_contact_by_email :: "string \<Rightarrow> 'x \<Rightarrow> (exn + XeroContact option) \<times> 'x"
  create_contact :: "XeroContact \<Rightarrow> 'x \<Rightarrow> (exn + XeroContact) \<times> 'x"
  update_contact :: "XeroContact \<Rightarrow> 'x \<Rightarrow> (exn + XeroContact) \<times> 'x"
  find_item_by_code :: "string \<Rightarrow> 'x \<Rightarrow> (exn + XeroItem option) \<times> 'x"
  get_item_by_id :: "string \<Rightarrow> 'x \<Rightarrow> (exn + XeroItem option) \<times> 'x"
  create_item :: "XeroItem \<Rightarrow> 'x \<Rightarrow> (exn + XeroItem) \<times> 'x"
  update_item :: "XeroItem \<Rightarrow> 'x \<Rightarrow> (exn + XeroItem) \<times> 'x"
  find_invoice_by_reference :: "string \<Rightarrow> 'x \<Rightarrow> (exn + XeroInvoice option) \<times> 'x"
  create_invoice :: "XeroInvoice \<Rightarrow> 'x \<Rightarrow> (exn + XeroInvoice) \<times> 'x"

record 's ShopifyClient =
  fetch_all_customers :: "datetime option \<Rightarrow> 's \<Rightarrow> (exn + ShopifyCustomer list) \<times> 's"
  fetch_all_products :: "datetime option \<Rightarrow> 's \<Rightarrow> (exn + ShopifyProduct list) \<times> 's"
  fetch_all_orders :: "datetime option \<Rightarrow> string \<Rightarrow> 's \<Rightarrow> (exn + ShopifyOrder list) \<times> 's"
  update_customer_email_marketing :: "int \<Rightarrow> bool \<Rightarrow> 's \<Rightarrow> (exn + unit) \<times> 's"

text \<open>
  Every call that leaves the process, and the two writes of the run record, are logged,
  each with a flag telling whether the call returned (\<open>True\<close>) or raised.
\<close>

datatype event =
    FindContactByEmail string
  | CreateContact XeroContact
  | UpdateContact XeroContact
  | FindItemByCode string
  | GetItemById string
  | CreateItem XeroItem
  | UpdateItem XeroItem
  | FindInvoiceByReference string
  | CreateInvoice XeroInvoice
  | FetchAllCustomers "datetime option"
  | FetchAllProducts "datetime option"
  | FetchAllOrders "datetime option"
  | UpdateCustomerEmailMarketing int
  | StartSyncRun string
  | CompleteSyncRun string string

text \<open>The calls that create or update a record of the destination.\<close>

fun is_create :: "event \<Rightarrow> bool" where
  "is_create (CreateContact _) = True"
| "is_create (CreateItem _) = True"
| "is_create (CreateInvoice _) = True"
| "is_create _ = False"

fun is_update :: "event \<Rightarrow> bool" where
  "is_update (UpdateContact _) = True"
| "is_update (UpdateItem _) = True"
| "is_update _ = False"

fun is_run_event :: "event \<Rightarrow> bool" where
  "is_run_event (StartSyncRun _) = True"
| "is_run_event (CompleteSyncRun _ _) = True"
| "is_run_event _ = False"

type_synonym call = "event \<times> bool"

definition destination_writes :: "call list \<Rightarrow> call list" where
  "destination_writes calls = filter (\<lambda>c. is_create (fst c) \<or> is_update (fst c)) calls"

text \<open>
  \<open>SyncEngine\<close>: the settings it reads (\<open>dry_run\<close> is \<open>dry_run or settings.dry_run\<close> of the
  constructor), its two clients, and the interpreter it runs on.
\<close>

record ('x, 's) SyncEngine =
  enable_email_marketing :: bool
  dry_run :: bool
  xero :: "'x XeroClient"
  shopify :: "'s ShopifyClient"
  interp :: interpreter

text \<open>
  The state a run acts on: the database, the two remote states, the clock read by
  \<open>datetime.utcnow()\<close>, and the log of calls.
\<close>

record ('x, 's) world =
  db :: Database
  xero_state :: 'x
  shopify_state :: 's
  clock :: datetime
  trace :: "call list"

definition xero_call ::
  "event \<Rightarrow> ('x \<Rightarrow> (exn + 'r) \<times> 'x) \<Rightarrow> ('x, 's) world \<Rightarrow> (exn + 'r) \<times> ('x, 's) world" where
  "xero_call ev f w =
     (case f (xero_state w) of
        (r, x') \<Rightarrow> (r, w\<lparr>xero_state := x', trace := trace w @ [(ev, \<not> isl r)]\<rparr>))"

definition shopify_call ::
  "event \<Rightarrow> ('s \<Rightarrow> (exn + 'r) \<times> 's) \<Rightarrow> ('x, 's) world \<Rightarrow> (exn + 'r) \<times> ('x, 's) world" where
  "shopify_call ev f w =
     (case f (shopify_state w) of
        (r, s') \<Rightarrow> (r, w\<lparr>shopify_state := s', trace := trace w @ [(ev, \<not> isl r)]\<rparr>))"

text \<open>The message of an exception that \<open>except XeroAPIError as e\<close> catches.\<close>

fun xero_api_error :: "exn \<Rightarrow> string option" where
  "xero_api_error (XeroAPIError m) = Some m"
| "xero_api_error _ = None"

text \<open>
  The constructor \<open>SyncMapping(...)\<close>: pydantic rejects a \<open>xero_id\<close> that is \<open>None\<close>.
\<close>

definition new_SyncMapping ::
  "interpreter \<Rightarrow> string \<Rightarrow> string option \<Rightarrow> string \<Rightarrow> datetime \<Rightarrow> datetime option \<Rightarrow> string
     \<Rightarrow> exn + SyncMapping" where
  "new_SyncMapping py shopify_id xero_id entity_type now shopify_updated_at checksum =
     (case xero_id of
        None \<Rightarrow> Inl (ValidationError (py_validation_error py))
      | Some xid \<Rightarrow>
          Inr \<lparr>m_shopify_id = shopify_id, m_xero_id = xid, m_entity_type = entity_type,
               m_last_synced_at = Some now, m_shopify_updated_at = shopify_updated_at,
               m_checksum = Some checksum\<rparr>)"

text \<open>\<open>self.db.upsert_mapping(mapping)\<close> followed by \<open>self.db.clear_error(shopify_id)\<close>.\<close>

definition save_mapping :: "SyncMapping \<Rightarrow> string \<Rightarrow> ('x, 's) world \<Rightarrow> ('x, 's) world" where
  "save_mapping mapping shopify_id w =
     w\<lparr>db := snd (clear_error shopify_id (upsert_mapping mapping (db w)))\<rparr>"

type_synonym outcome = "string \<times> string option"

section \<open>Customers (\<open>sync_engine.py\<close>)\<close>

text \<open>
  \<open>_update_customer_email_marketing\<close> as \<open>_sync_single_customer\<close> calls it: any
  exception is logged and dropped.
\<close>

definition update_email_marketing :: "('x, 's) SyncEngine \<Rightarrow> int \<Rightarrow> ('x, 's) world \<Rightarrow> ('x, 's) world" where
  "update_email_marketing eng customer_id w =
     (if dry_run eng then w
      else snd (shopify_call (UpdateCustomerEmailMarketing customer_id)
                  (update_customer_email_marketing (shopify eng) customer_id True) w))"

text \<open>
  \<open>_create_customer_in_xero\<close>, in its three parts: the search by email, the link to an
  active contact found, the creation of a new contact.
\<close>

definition find_existing_contact ::
  "('x, 's) SyncEngine \<Rightarrow> ShopifyCustomer \<Rightarrow> ('x, 's) world \<Rightarrow> (exn + XeroContact option) \<times> ('x, 's) world" where
  "find_existing_contact eng customer w =
     (if truthy (c_email customer)
      then (case xero_call (FindContactByEmail (the (c_email customer)))
                   (find_contact_by_email (xero eng) (the (c_email customer))) w of
              (Inr found, w') \<Rightarrow> (Inr found, w')
            | (Inl e, w') \<Rightarrow>
                (case xero_api_error e of Some m \<Rightarrow> (Inr None, w') | None \<Rightarrow> (Inl e, w')))
      else (Inr None, w))"

definition link_existing_contact ::
  "('x, 's) SyncEngine \<Rightarrow> ShopifyCustomer \<Rightarrow> string \<Rightarrow> XeroContact \<Rightarrow> ('x, 's) world
     \<Rightarrow> (exn + outcome) \<times> ('x, 's) world" where
  "link_existing_contact eng customer checksum existing_contact w =
     (let shopify_id = str_int (c_id customer)
      in case new_SyncMapping (interp eng) shopify_id (xc_ContactID existing_contact) ''customer'' (clock w)
                (c_updated_at customer) checksum of
           Inl e \<Rightarrow> (Inl e, w)
         | Inr mapping \<Rightarrow>
             (let w1 = save_mapping mapping shopify_id w;
                  xero_contact = (shopify_customer_to_xero_contact customer)
                                   \<lparr>xc_ContactID := xc_ContactID existing_contact\<rparr>
              in if dry_run eng then (Inr (''updated'', None), w1)
                 else (case xero_call (UpdateContact xero_contact)
                              (update_contact (xero eng) xero_contact) w1 of
                         (Inr _, w2) \<Rightarrow> (Inr (''updated'', None), w2)
                       | (Inl e, w2) \<Rightarrow>
                           (case xero_api_error e of
                              Some m \<Rightarrow>
                                (Inr (''skipped'',
                                      Some (''Failed to update existing contact for customer ''
                                            @ shopify_id @ '': '' @ m)), w2)
                            | None \<Rightarrow> (Inl e, w2)))))"

definition create_new_contact ::
  "('x, 's) SyncEngine \<Rightarrow> ShopifyCustomer \<Rightarrow> string \<Rightarrow> ('x, 's) world
     \<Rightarrow> (exn + outcome) \<times> ('x, 's) world" where
  "create_new_contact eng customer checksum w =
     (let shopify_id = str_int (c_id customer);
          xero_contact = shopify_customer_to_xero_contact customer
      in if dry_run eng then (Inr (''created'', None), w)
         else (case xero_call (CreateContact xero_contact)
                      (create_contact (xero eng) xero_contact) w of
                 (Inr created_contact, w1) \<Rightarrow>
                   (case new_SyncMapping (interp eng) shopify_id (xc_ContactID created_contact) ''customer''
                           (clock w1) (c_updated_at customer) checksum of
                      Inl e \<Rightarrow> (Inl e, w1)
                    | Inr mapping \<Rightarrow> (Inr (''created'', None), save_mapping mapping shopify_id w1))
               | (Inl e, w1) \<Rightarrow>
                   (case xero_api_error e of
                      Some m \<Rightarrow>
                        (Inr (''skipped'',
                              Some (''Failed to create contact for customer '' @ shopify_id
                                    @ '': '' @ m)), w1)
                    | None \<Rightarrow> (Inl e, w1))))"

definition create_customer_in_xero ::
  "('x, 's) SyncEngine \<Rightarrow> ShopifyCustomer \<Rightarrow> string \<Rightarrow> ('x, 's) world
     \<Rightarrow> (exn + outcome) \<times> ('x, 's) world" where
  "create_customer_in_xero eng customer checksum w =
     (case find_existing_contact eng customer w of
        (Inl e, w1) \<Rightarrow> (Inl e, w1)
      | (Inr None, w1) \<Rightarrow> create_new_contact eng customer checksum w1
      | (Inr (Some existing_contact), w1) \<Rightarrow>
          if xc_ContactStatus existing_contact = ''ARCHIVED''
          then create_new_contact eng customer checksum w1
          else link_existing_contact eng customer checksum existing_contact w1)"

definition update_customer_in_xero ::
  "('x, 's) SyncEngine \<Rightarrow> ShopifyCustomer \<Rightarrow> SyncMapping \<Rightarrow> string \<Rightarrow> ('x, 's) world
     \<Rightarrow> (exn + outcome) \<times> ('x, 's) world" where
  "update_customer_in_xero eng customer mapping new_checksum w =
     (let shopify_id = str_int (c_id customer);
          xero_contact = (shopify_customer_to_xero_contact customer)
                           \<lparr>xc_ContactID := Some (m_xero_id mapping)\<rparr>
      in if dry_run eng then (Inr (''updated'', None), w)
         else (case xero_call (UpdateContact xero_contact)
                      (update_contact (xero eng) xero_contact) w of
                 (Inr _, w1) \<Rightarrow>
                   (Inr (''updated'', None),
                    save_mapping (mapping\<lparr>m_last_synced_at := Some (clock w1),
                                          m_shopify_updated_at := c_updated_at customer,
                                          m_checksum := Some new_checksum\<rparr>) shopify_id w1)
               | (Inl e, w1) \<Rightarrow>
                   (case xero_api_error e of
                      Some m \<Rightarrow>
                        (Inr (''skipped'',
                              Some (''Failed to update contact for customer '' @ shopify_id
                                    @ '': '' @ m)), w1)
                    | None \<Rightarrow> (Inl e, w1))))"

definition sync_single_customer ::
  "('x, 's) SyncEngine \<Rightarrow> ShopifyCustomer \<Rightarrow> ('x, 's) world \<Rightarrow> (exn + outcome) \<times> ('x, 's) world" where
  "sync_single_customer eng customer w =
     (let shopify_id = str_int (c_id customer);
          new_checksum = calculate_customer_checksum customer;
          w1 = (if enable_email_marketing eng then update_email_marketing eng (c_id customer) w
                else w)
      in case get_mapping (db w1) shopify_id of
           Some mapping \<Rightarrow>
             if \<not> has_changed (m_checksum mapping) new_checksum
             then (Inr (''skipped'', None), w1)
             else update_customer_in_xero eng customer mapping new_checksum w1
         | None \<Rightarrow> create_customer_in_xero eng customer new_checksum w1)"

section \<open>Products\<close>

text \<open>\<open>_create_product_in_xero\<close>: the search by SKU, the link, the creation.\<close>

definition find_existing_item ::
  "('x, 's) SyncEngine \<Rightarrow> XeroItem \<Rightarrow> ('x, 's) world \<Rightarrow> (exn + XeroItem option) \<times> ('x, 's) world" where
  "find_existing_item eng xero_item w =
     (case xero_call (FindItemByCode (xi_Code xero_item))
             (find_item_by_code (xero eng) (xi_Code xero_item)) w of
        (Inr found, w') \<Rightarrow> (Inr found, w')
      | (Inl e, w') \<Rightarrow>
          (case xero_api_error e of Some m \<Rightarrow> (Inr None, w') | None \<Rightarrow> (Inl e, w')))"

definition link_existing_item ::
  "('x, 's) SyncEngine \<Rightarrow> ShopifyProduct \<Rightarrow> XeroItem \<Rightarrow> string \<Rightarrow> XeroItem \<Rightarrow> ('x, 's) world
     \<Rightarrow> (exn + outcome) \<times> ('x, 's) world" where
  "link_existing_item eng product xero_item checksum existing_item w =
     (let shopify_id = str_int (p_id product)
      in case new_SyncMapping (interp eng) shopify_id (xi_ItemID existing_item) ''product'' (clock w)
                (p_updated_at product) checksum of
           Inl e \<Rightarrow> (Inl e, w)
         | Inr mapping \<Rightarrow>
             (let w1 = save_mapping mapping shopify_id w;
                  xero_item' = xero_item\<lparr>xi_ItemID := xi_ItemID existing_item\<rparr>
              in if dry_run eng then (Inr (''updated'', None), w1)
                 else (case xero_call (UpdateItem xero_item')
                              (update_item (xero eng) xero_item') w1 of
                         (Inr _, w2) \<Rightarrow> (Inr (''updated'', None), w2)
                       | (Inl e, w2) \<Rightarrow>
                           (case xero_api_error e of
                              Some m \<Rightarrow>
                                (Inr (''skipped'',
                                      Some (''Failed to update existing item for product ''
                                            @ shopify_id @ '': '' @ m)), w2)
                            | None \<Rightarrow> (Inl e, w2)))))"

definition create_new_item ::
  "('x, 's) SyncEngine \<Rightarrow> ShopifyProduct \<Rightarrow> XeroItem \<Rightarrow> string \<Rightarrow> ('x, 's) world
     \<Rightarrow> (exn + outcome) \<times> ('x, 's) world" where
  "create_new_item eng product xero_item checksum w =
     (let shopify_id = str_int (p_id product)
      in if dry_run eng then (Inr (''created'', None), w)
         else (case xero_call (CreateItem xero_item) (create_item (xero eng) xero_item) w of
                 (Inr created_item, w1) \<Rightarrow>
                   (case new_SyncMapping (interp eng) shopify_id (xi_ItemID created_item) ''product''
                           (clock w1) (p_updated_at product) checksum of
                      Inl e \<Rightarrow> (Inl e, w1)
                    | Inr mapping \<Rightarrow> (Inr (''created'', None), save_mapping mapping shopify_id w1))
               | (Inl e, w1) \<Rightarrow>
                   (case xero_api_error e of
                      Some m \<Rightarrow>
                        (Inr (''skipped'',
                              Some (''Failed to create item for product '' @ shopify_id
                                    @ '': '' @ m)), w1)
                    | None \<Rightarrow> (Inl e, w1))))"

definition create_product_in_xero ::
  "('x, 's) SyncEngine \<Rightarrow> ShopifyProduct \<Rightarrow> XeroItem \<Rightarrow> string \<Rightarrow> ('x, 's) world
     \<Rightarrow> (exn + outcome) \<times> ('x, 's) world" where
  "create_product_in_xero eng product xero_item checksum w =
     (case find_existing_item eng xero_item w of
        (Inl e, w1) \<Rightarrow> (Inl e, w1)
      | (Inr None, w1) \<Rightarrow> create_new_item eng product xero_item checksum w1
      | (Inr (Some existing_item), w1) \<Rightarrow>
          link_existing_item eng product xero_item checksum existing_item w1)"

text \<open>
  \<open>_update_product_in_xero\<close>: the ordinary update, and the branch taken when the item
  stored in Xero has another code (the SKU has changed).  In the latter the mapping object
  gets the new id by assignment, which pydantic does not check; a missing id then fails
  the NOT NULL constraint of \<open>sync_mappings.xero_id\<close>.
\<close>

definition normal_item_update ::
  "('x, 's) SyncEngine \<Rightarrow> ShopifyProduct \<Rightarrow> XeroItem \<Rightarrow> SyncMapping \<Rightarrow> string \<Rightarrow> ('x, 's) world
     \<Rightarrow> (exn + outcome) \<times> ('x, 's) world" where
  "normal_item_update eng product xero_item mapping new_checksum w =
     (let shopify_id = str_int (p_id product);
          xero_item' = xero_item\<lparr>xi_ItemID := Some (m_xero_id mapping)\<rparr>
      in if dry_run eng then (Inr (''updated'', None), w)
         else (case xero_call (UpdateItem xero_item') (update_item (xero eng) xero_item') w of
                 (Inr _, w1) \<Rightarrow>
                   (Inr (''updated'', None),
                    save_mapping (mapping\<lparr>m_last_synced_at := Some (clock w1),
                                          m_shopify_updated_at := p_updated_at product,
                                          m_checksum := Some new_checksum\<rparr>) shopify_id w1)
               | (Inl e, w1) \<Rightarrow>
                   (case xero_api_error e of
                      Some m \<Rightarrow>
                        (Inr (''skipped'',
                              Some (''Failed to update item for product '' @ shopify_id
                                    @ '': '' @ m)), w1)
                    | None \<Rightarrow> (Inl e, w1))))"

definition create_item_after_sku_change ::
  "('x, 's) SyncEngine \<Rightarrow> ShopifyProduct \<Rightarrow> XeroItem \<Rightarrow> SyncMapping \<Rightarrow> string \<Rightarrow> ('x, 's) world
     \<Rightarrow> (exn + outcome) \<times> ('x, 's) world" where
  "create_item_after_sku_change eng product xero_item mapping new_checksum w =
     (let shopify_id = str_int (p_id product)
      in case xero_call (CreateItem xero_item) (create_item (xero eng) xero_item) w of
           (Inr created_item, w1) \<Rightarrow>
             (case xi_ItemID created_item of
                None \<Rightarrow>
                  (Inl (OtherException ''NOT NULL constraint failed: sync_mappings.xero_id''), w1)
              | Some new_id \<Rightarrow>
                  (Inr (''created'', None),
                   save_mapping (mapping\<lparr>m_xero_id := new_id,
                                         m_last_synced_at := Some (clock w1),
                                         m_shopify_updated_at := p_updated_at product,
                                         m_checksum := Some new_checksum\<rparr>) shopify_id w1))
         | (Inl e, w1) \<Rightarrow>
             (case xero_api_error e of
                Some m \<Rightarrow>
                  (Inr (''skipped'', Some (''Failed to create new item after SKU change: '' @ m)),
                   w1)
              | None \<Rightarrow> (Inl e, w1)))"

definition sku_changed ::
  "('x, 's) SyncEngine \<Rightarrow> ShopifyProduct \<Rightarrow> XeroItem \<Rightarrow> SyncMapping \<Rightarrow> string \<Rightarrow> XeroItem
     \<Rightarrow> ('x, 's) world \<Rightarrow> (exn + outcome) \<times> ('x, 's) world" where
  "sku_changed eng product xero_item mapping new_checksum current_xero_item w =
     (if dry_run eng then (Inr (''updated'', None), w)
      else
        (let archived = current_xero_item
               \<lparr>xi_IsSold := False, xi_IsPurchased := False,
                xi_Name := ''[ARCHIVED] '' @ xi_Name current_xero_item\<rparr>
         in case xero_call (UpdateItem archived) (update_item (xero eng) archived) w of
              (Inr _, w1) \<Rightarrow> create_item_after_sku_change eng product xero_item mapping new_checksum w1
            | (Inl e, w1) \<Rightarrow>
                (case xero_api_error e of
                   Some m \<Rightarrow> create_item_after_sku_change eng product xero_item mapping new_checksum w1
                 | None \<Rightarrow> (Inl e, w1))))"

definition update_product_in_xero ::
  "('x, 's) SyncEngine \<Rightarrow> ShopifyProduct \<Rightarrow> XeroItem \<Rightarrow> SyncMapping \<Rightarrow> string \<Rightarrow> ('x, 's) world
     \<Rightarrow> (exn + outcome) \<times> ('x, 's) world" where
  "update_product_in_xero eng product xero_item mapping new_checksum w =
     (case xero_call (GetItemById (m_xero_id mapping))
             (get_item_by_id (xero eng) (m_xero_id mapping)) w of
        (Inr (Some current_xero_item), w1) \<Rightarrow>
          if xi_Code current_xero_item \<noteq> xi_Code xero_item
          then sku_changed eng product xero_item mapping new_checksum current_xero_item w1
          else normal_item_update eng product xero_item mapping new_checksum w1
      | (Inr None, w1) \<Rightarrow> normal_item_update eng product xero_item mapping new_checksum w1
      | (Inl e, w1) \<Rightarrow>
          (case xero_api_error e of
             Some m \<Rightarrow> normal_item_update eng product xero_item mapping new_checksum w1
           | None \<Rightarrow> (Inl e, w1)))"

definition sync_single_product ::
  "('x, 's) SyncEngine \<Rightarrow> ShopifyProduct \<Rightarrow> ('x, 's) world \<Rightarrow> (exn + outcome) \<times> ('x, 's) world" where
  "sync_single_product eng product w =
     (let shopify_id = str_int (p_id product)
      in case shopify_product_to_xero_item (interp eng) product of
           Inl e \<Rightarrow> (Inl e, w)
         | Inr None \<Rightarrow> (Inr (''skipped'', None), w)
         | Inr (Some xero_item) \<Rightarrow>
             (let new_checksum = calculate_product_checksum product
              in case get_mapping (db w) shopify_id of
                   Some mapping \<Rightarrow>
                     if \<not> has_changed (m_checksum mapping) new_checksum
                     then (Inr (''skipped'', None), w)
                     else update_product_in_xero eng product xero_item mapping new_checksum w
                 | None \<Rightarrow> create_product_in_xero eng product xero_item new_checksum w))"

section \<open>Orders\<close>

text \<open>
  \<open>_build_sku_gl_mapping\<close>: a dictionary with one entry per product mapping, keyed by its
  \<open>shopify_id\<close>, all with the default sales account.
\<close>

definition build_sku_gl_mapping :: "Database \<Rightarrow> (string \<rightharpoonup> string)" where
  "build_sku_gl_mapping d =
     (\<lambda>k. case sync_mappings d k of
             Some row \<Rightarrow>
               if r_entity_type row = ''product'' then Some (sales_account DEFAULT_GL_MAPPING)
               else None
           | None \<Rightarrow> None)"

text \<open>
  \<open>_get_customer_contact_id\<close>: the customer's mapping when there is one of type customer,
  else a search by the order's (or the customer's) email.
\<close>

definition get_customer_contact_id ::
  "('x, 's) SyncEngine \<Rightarrow> ShopifyOrder \<Rightarrow> ('x, 's) world \<Rightarrow> (exn + string option) \<times> ('x, 's) world" where
  "get_customer_contact_id eng order w =
     (let by_mapping =
            (case o_customer order of
               None \<Rightarrow> None
             | Some customer \<Rightarrow>
                 if c_id customer = 0 then None
                 else (case get_mapping (db w) (str_int (c_id customer)) of
                         Some mapping \<Rightarrow>
                           if m_entity_type mapping = ''customer'' then Some (m_xero_id mapping)
                           else None
                       | None \<Rightarrow> None))
      in case by_mapping of
           Some xero_id \<Rightarrow> (Inr (Some xero_id), w)
         | None \<Rightarrow>
             (let email = (if truthy (o_email order) then o_email order
                           else (case o_customer order of
                                   None \<Rightarrow> None
                                 | Some customer \<Rightarrow> c_email customer))
              in if truthy email
                 then (case xero_call (FindContactByEmail (the email))
                              (find_contact_by_email (xero eng) (the email)) w of
                         (Inr (Some contact), w1) \<Rightarrow> (Inr (xc_ContactID contact), w1)
                       | (Inr None, w1) \<Rightarrow> (Inr None, w1)
                       | (Inl e, w1) \<Rightarrow>
                           (case xero_api_error e of
                              Some m \<Rightarrow> (Inr None, w1)
                            | None \<Rightarrow> (Inl e, w1)))
                 else (Inr None, w)))"

text \<open>
  \<open>_create_order_in_xero\<close>: the search by reference, the link, and the creation (the
  contact, the conversion, then the call that submits the invoice).
\<close>

definition find_existing_invoice ::
  "('x, 's) SyncEngine \<Rightarrow> ShopifyOrder \<Rightarrow> ('x, 's) world \<Rightarrow> (exn + XeroInvoice option) \<times> ('x, 's) world" where
  "find_existing_invoice eng order w =
     (let reference = INVOICE_REFERENCE_PREFIX @ str_int (o_order_number order)
      in case xero_call (FindInvoiceByReference reference)
                (find_invoice_by_reference (xero eng) reference) w of
           (Inr found, w') \<Rightarrow> (Inr found, w')
         | (Inl e, w') \<Rightarrow>
             (case xero_api_error e of Some m \<Rightarrow> (Inr None, w') | None \<Rightarrow> (Inl e, w')))"

definition link_existing_invoice ::
  "('x, 's) SyncEngine \<Rightarrow> ShopifyOrder \<Rightarrow> string \<Rightarrow> XeroInvoice \<Rightarrow> ('x, 's) world
     \<Rightarrow> (exn + outcome) \<times> ('x, 's) world" where
  "link_existing_invoice eng order checksum existing_invoice w =
     (let shopify_id = str_int (o_id order)
      in case new_SyncMapping (interp eng) shopify_id (xv_InvoiceID existing_invoice) ''order'' (clock w)
                (o_updated_at order) checksum of
           Inl e \<Rightarrow> (Inl e, w)
         | Inr mapping \<Rightarrow> (Inr (''skipped'', None), save_mapping mapping shopify_id w))"

definition submit_invoice ::
  "('x, 's) SyncEngine \<Rightarrow> ShopifyOrder \<Rightarrow> XeroInvoice \<Rightarrow> string \<Rightarrow> ('x, 's) world
     \<Rightarrow> (exn + outcome) \<times> ('x, 's) world" where
  "submit_invoice eng order xero_invoice checksum w =
     (let shopify_id = str_int (o_id order)
      in if dry_run eng then (Inr (''created'', None), w)
         else (case xero_call (CreateInvoice xero_invoice)
                      (create_invoice (xero eng) xero_invoice) w of
                 (Inr created_invoice, w1) \<Rightarrow>
                   (case new_SyncMapping (interp eng) shopify_id (xv_InvoiceID created_invoice) ''order''
                           (clock w1) (o_updated_at order) checksum of
                      Inl e \<Rightarrow> (Inl e, w1)
                    | Inr mapping \<Rightarrow> (Inr (''created'', None), save_mapping mapping shopify_id w1))
               | (Inl e, w1) \<Rightarrow>
                   (case xero_api_error e of
                      Some m \<Rightarrow>
                        (Inr (''skipped'',
                              Some (''Failed to create invoice for order '' @ shopify_id
                                    @ '': '' @ m)), w1)
                    | None \<Rightarrow> (Inl e, w1))))"

definition create_new_invoice ::
  "('x, 's) SyncEngine \<Rightarrow> ShopifyOrder \<Rightarrow> (string \<rightharpoonup> string) \<Rightarrow> string \<Rightarrow> ('x, 's) world
     \<Rightarrow> (exn + outcome) \<times> ('x, 's) world" where
  "create_new_invoice eng order sku_to_gl_code checksum w =
     (let shopify_id = str_int (o_id order)
      in case get_customer_contact_id eng order w of
           (Inl e, w1) \<Rightarrow> (Inl e, w1)
         | (Inr contact, w1) \<Rightarrow>
             if \<not> truthy contact
             then (Inr (''skipped'', Some (''No Xero contact found for order '' @ shopify_id)), w1)
             else
               (case shopify_order_to_xero_invoice (interp eng) order (the contact) sku_to_gl_code
                       (clock w1) of
                  Inl e \<Rightarrow> (Inl e, w1)
                | Inr xero_invoice \<Rightarrow> submit_invoice eng order xero_invoice checksum w1))"

definition create_order_in_xero ::
  "('x, 's) SyncEngine \<Rightarrow> ShopifyOrder \<Rightarrow> (string \<rightharpoonup> string) \<Rightarrow> string \<Rightarrow> ('x, 's) world
     \<Rightarrow> (exn + outcome) \<times> ('x, 's) world" where
  "create_order_in_xero eng order sku_to_gl_code checksum w =
     (case find_existing_invoice eng order w of
        (Inl e, w1) \<Rightarrow> (Inl e, w1)
      | (Inr (Some existing_invoice), w1) \<Rightarrow>
          link_existing_invoice eng order checksum existing_invoice w1
      | (Inr None, w1) \<Rightarrow> create_new_invoice eng order sku_to_gl_code checksum w1)"

definition sync_single_order ::
  "('x, 's) SyncEngine \<Rightarrow> ShopifyOrder \<Rightarrow> (string \<rightharpoonup> string) \<Rightarrow> ('x, 's) world
     \<Rightarrow> (exn + outcome) \<times> ('x, 's) world" where
  "sync_single_order eng order sku_to_gl_code w =
     (let shopify_id = str_int (o_id order);
          new_checksum = calculate_order_checksum order
      in case get_mapping (db w) shopify_id of
           Some mapping \<Rightarrow>
             if \<not> has_changed (m_checksum mapping) new_checksum
             then (Inr (''skipped'', None), w)
             else (Inr (''skipped'', None),
                   w\<lparr>db := upsert_mapping (mapping\<lparr>m_checksum := Some new_checksum,
                                                     m_last_synced_at := Some (clock w)\<rparr>) (db w)\<rparr>)
         | None \<Rightarrow> create_order_in_xero eng order sku_to_gl_code new_checksum w)"

section \<open>Phases and the full run\<close>

record SyncResult =
  success :: bool
  created :: nat
  updated :: nat
  skipped :: nat
  errors :: "string list"

definition total_processed :: "SyncResult \<Rightarrow> nat" where
  "total_processed result = created result + updated result + skipped result"

definition new_SyncResult :: SyncResult where
  "new_SyncResult = \<lparr>success = True, created = 0, updated = 0, skipped = 0, errors = []\<rparr>"

definition count_action :: "string \<Rightarrow> SyncResult \<Rightarrow> SyncResult" where
  "count_action action result =
     (if action = ''created'' then result\<lparr>created := created result + 1\<rparr>
      else if action = ''updated'' then result\<lparr>updated := updated result + 1\<rparr>
      else if action = ''skipped'' then result\<lparr>skipped := skipped result + 1\<rparr>
      else result)"

text \<open>
  The loop over the fetched entities, which \<open>sync_customers\<close>, \<open>sync_products\<close> and
  \<open>sync_orders\<close> each write out: \<open>kind\<close> is the entity type recorded with an error,
  \<open>label\<close> the word that starts the message of a caught exception, \<open>ident\<close> the
  entity's id and \<open>sync_one\<close> the per-entity function.
\<close>

fun process_entities ::
  "string \<Rightarrow> string \<Rightarrow> ('e \<Rightarrow> int) \<Rightarrow> ('e \<Rightarrow> ('x, 's) world \<Rightarrow> (exn + outcome) \<times> ('x, 's) world)
     \<Rightarrow> 'e list \<Rightarrow> SyncResult \<Rightarrow> ('x, 's) world \<Rightarrow> SyncResult \<times> ('x, 's) world" where
  "process_entities kind label ident sync_one [] result w = (result, w)"
| "process_entities kind label ident sync_one (entity # rest) result w =
     (case sync_one entity w of
        (Inr (action, error), w1) \<Rightarrow>
          if truthy error
          then process_entities kind label ident sync_one rest
                 (result\<lparr>errors := errors result @ [the error]\<rparr>)
                 (w1\<lparr>db := record_error kind (str_int (ident entity)) (the error) (clock w1) (db w1)\<rparr>)
          else process_entities kind label ident sync_one rest (count_action action result) w1
      | (Inl e, w1) \<Rightarrow>
          process_entities kind label ident sync_one rest
            (result\<lparr>errors := errors result
                        @ [label @ '' '' @ str_int (ident entity) @ '': '' @ str_exn e]\<rparr>)
            (w1\<lparr>db := record_error kind (str_int (ident entity)) (str_exn e) (clock w1) (db w1)\<rparr>))"

definition updated_at_min :: "bool \<Rightarrow> Database \<Rightarrow> datetime option" where
  "updated_at_min force d =
     (if force then None
      else (case get_last_successful_sync d of
              Some last_sync \<Rightarrow> h_completed_at last_sync
            | None \<Rightarrow> None))"

definition fetch_failed :: "exn \<Rightarrow> SyncResult" where
  "fetch_failed e = new_SyncResult\<lparr>errors := [''Fetch failed: '' @ str_exn e], success := False\<rparr>"

definition sync_customers :: "('x, 's) SyncEngine \<Rightarrow> bool \<Rightarrow> ('x, 's) world \<Rightarrow> SyncResult \<times> ('x, 's) world" where
  "sync_customers eng force w =
     (let since = updated_at_min force (db w)
      in case shopify_call (FetchAllCustomers since) (fetch_all_customers (shopify eng) since) w of
           (Inl e, w1) \<Rightarrow> (fetch_failed e, w1)
         | (Inr customers, w1) \<Rightarrow>
             process_entities ''customer'' ''Customer'' c_id (sync_single_customer eng)
               customers new_SyncResult w1)"

definition sync_products :: "('x, 's) SyncEngine \<Rightarrow> bool \<Rightarrow> ('x, 's) world \<Rightarrow> SyncResult \<times> ('x, 's) world" where
  "sync_products eng force w =
     (let since = updated_at_min force (db w)
      in case shopify_call (FetchAllProducts since) (fetch_all_products (shopify eng) since) w of
           (Inl e, w1) \<Rightarrow> (fetch_failed e, w1)
         | (Inr products, w1) \<Rightarrow>
             process_entities ''product'' ''Product'' p_id (sync_single_product eng)
               products new_SyncResult w1)"

definition sync_orders :: "('x, 's) SyncEngine \<Rightarrow> bool \<Rightarrow> ('x, 's) world \<Rightarrow> SyncResult \<times> ('x, 's) world" where
  "sync_orders eng force w =
     (let since = updated_at_min force (db w);
          sku_to_gl_code = build_sku_gl_mapping (db w)
      in case shopify_call (FetchAllOrders since) (fetch_all_orders (shopify eng) since ''any'') w of
           (Inl e, w1) \<Rightarrow> (fetch_failed e, w1)
         | (Inr orders, w1) \<Rightarrow>
             process_entities ''order'' ''Order'' o_id
               (\<lambda>order. sync_single_order eng order sku_to_gl_code) orders new_SyncResult w1)"

record SyncStats =
  st_run_id :: string
  st_started_at :: datetime
  st_completed_at :: "datetime option"
  st_customers :: "SyncResult option"
  st_products :: "SyncResult option"
  st_orders :: "SyncResult option"

definition stats_total_errors :: "SyncStats \<Rightarrow> string list" where
  "stats_total_errors stats =
     (case st_customers stats of Some r \<Rightarrow> errors r | None \<Rightarrow> [])
     @ (case st_products stats of Some r \<Rightarrow> errors r | None \<Rightarrow> [])
     @ (case st_orders stats of Some r \<Rightarrow> errors r | None \<Rightarrow> [])"

definition stats_total_processed :: "SyncStats \<Rightarrow> nat" where
  "stats_total_processed stats =
     (case st_customers stats of Some r \<Rightarrow> total_processed r | None \<Rightarrow> 0)
     + (case st_products stats of Some r \<Rightarrow> total_processed r | None \<Rightarrow> 0)
     + (case st_orders stats of Some r \<Rightarrow> total_processed r | None \<Rightarrow> 0)"

definition stats_success :: "SyncStats \<Rightarrow> bool" where
  "stats_success stats = (stats_total_errors stats = [])"

text \<open>
  \<open>run_full_sync\<close>, with the run id (a fresh \<open>uuid4\<close> in the source) as an argument.  The
  insert of the run record precedes the \<open>try\<close>, so its failure leaves the function at
  once.  Each phase catches every \<open>Exception\<close> itself, so the handler of the \<open>try\<close>
  (which would write the run record as failed) is never entered and has no branch here.
\<close>

definition run_full_sync ::
  "('x, 's) SyncEngine \<Rightarrow> bool \<Rightarrow> string \<Rightarrow> ('x, 's) world \<Rightarrow> (exn + SyncStats) \<times> ('x, 's) world" where
  "run_full_sync eng force run_id w =
     (let started_at = clock w
      in case start_sync_run run_id (clock w) (db w) of
           Inl e \<Rightarrow> (Inl e, w)
         | Inr d \<Rightarrow>
             (let w0 = w\<lparr>db := d, trace := trace w @ [(StartSyncRun run_id, True)]\<rparr>
              in case sync_customers eng force w0 of
                   (customers, w1) \<Rightarrow>
                     (case sync_products eng force w1 of
                        (products, w2) \<Rightarrow>
                          (case sync_orders eng force w2 of
                             (orders, w3) \<Rightarrow>
                               (let stats = \<lparr>st_run_id = run_id, st_started_at = started_at,
                                             st_completed_at = Some (clock w3),
                                             st_customers = Some customers,
                                             st_products = Some products,
                                             st_orders = Some orders\<rparr>;
                                    status = (if stats_success stats then ''success'' else ''failed'')
                                in (Inr stats,
                                    w3\<lparr>db := complete_sync_run run_id status
                                                (stats_total_processed stats)
                                                (stats_total_errors stats) (clock w3) (db w3),
                                       trace := trace w3 @ [(CompleteSyncRun run_id status, True)]\<rparr>))))))"

section \<open>Properties stated about the error table\<close>

text \<open>The pair that identifies the entity an error row is about.\<close>

definition error_key :: "SyncError \<Rightarrow> string \<times> string" where
  "error_key row = (e_entity_type row, e_shopify_id row)"

text \<open>At most one row per (entity type, source id).\<close>

definition one_row_per_entity :: "Database \<Rightarrow> bool" where
  "one_row_per_entity d = distinct (map error_key (sync_errors d))"

text \<open>
  What the schema gives for \<open>id INTEGER PRIMARY KEY AUTOINCREMENT\<close>: row ids are
  distinct and none exceeds the counter.
\<close>

definition row_ids_valid :: "Database \<Rightarrow> bool" where
  "row_ids_valid d =
     (distinct (map e_id (sync_errors d)) \<and> list_all (\<lambda>row. e_id row \<le> error_seq d) (sync_errors d))"

text \<open>A sequence of \<open>record_error\<close> calls, each with the time it is made at.\<close>

fun record_errors :: "(string \<times> string \<times> string \<times> datetime) list \<Rightarrow> Database \<Rightarrow> Database" where
  "record_errors [] d = d"
| "record_errors ((entity_type, shopify_id, error_message, now) # calls) d =
     record_errors calls (record_error entity_type shopify_id error_message now d)"

section \<open>Properties stated about a reconciliation pass\<close>

text \<open>The calls a step adds to the log, and the log of before being kept as it was.\<close>

definition new_calls :: "('x, 's) world \<Rightarrow> ('x, 's) world \<Rightarrow> call list" where
  "new_calls w w' = drop (length (trace w)) (trace w')"

definition extends :: "('x, 's) world \<Rightarrow> ('x, 's) world \<Rightarrow> bool" where
  "extends w w' = (take (length (trace w)) (trace w') = trace w)"

text \<open>
  How the phase loop reads what a pass returns: an error (an exception, or a message in
  the second component), or a record counted as created or updated.
\<close>

definition is_error :: "exn + outcome \<Rightarrow> bool" where
  "is_error r = (case r of Inl e \<Rightarrow> True | Inr (action, error) \<Rightarrow> truthy error)"

definition is_synced :: "exn + outcome \<Rightarrow> bool" where
  "is_synced r =
     (case r of
        Inl e \<Rightarrow> False
      | Inr (action, error) \<Rightarrow> \<not> truthy error \<and> (action = ''created'' \<or> action = ''updated''))"

definition failed_create :: "call list \<Rightarrow> bool" where
  "failed_create calls = list_ex (\<lambda>c. is_create (fst c) \<and> \<not> snd c) calls"

definition run_events :: "call list \<Rightarrow> call list" where
  "run_events calls = filter (\<lambda>c. is_run_event (fst c)) calls"

text \<open>
  What a search, or any other step that does not touch the database, leaves behind: the
  database and the clock as they were, and new calls that are neither creations nor
  writes of the run record.
\<close>

definition lookup_post :: "('x, 's) world \<Rightarrow> ('x, 's) world \<Rightarrow> bool" where
  "lookup_post w w' =
     (db w' = db w \<and> clock w' = clock w \<and> extends w w'
      \<and> run_events (new_calls w w') = []
      \<and> \<not> list_ex (\<lambda>c. is_create (fst c)) (new_calls w w'))"

text \<open>
  What every pass over one entity guarantees, \<open>shopify_id\<close> being the entity's key and
  \<open>checksum\<close> its fingerprint: the run history and the clock are untouched, the log only
  grows, by calls that are not writes of the run record; if one of the new calls is a
  creation that failed, the mapping table is as before and the pass reports an error;
  and outside dry-run mode, a pass counted as created or updated has stored the
  fingerprint under the key and deleted the error rows of that source id.
\<close>

definition pass_post ::
  "bool \<Rightarrow> string \<Rightarrow> string \<Rightarrow> exn + outcome \<Rightarrow> ('x, 's) world \<Rightarrow> ('x, 's) world \<Rightarrow> bool" where
  "pass_post dry shopify_id checksum r w w' =
     (sync_history (db w') = sync_history (db w) \<and> clock w' = clock w \<and> extends w w'
      \<and> run_events (new_calls w w') = []
      \<and> (failed_create (new_calls w w')
           \<longrightarrow> sync_mappings (db w') = sync_mappings (db w) \<and> is_error r)
      \<and> (\<not> dry \<and> is_synced r
           \<longrightarrow> (\<exists>m. get_mapping (db w') shopify_id = Some m \<and> m_checksum m = Some checksum)
               \<and> sync_errors (db w') =
                   filter (\<lambda>row. e_shopify_id row \<noteq> shopify_id) (sync_errors (db w))))"

section \<open>Example adapters and entities\<close>

text \<open>
  Small scripted clients, used to run the engine on concrete inputs.  The Xero script
  answers every search with the record it holds (if any) and either accepts every write,
  giving a fixed id to what it creates, or rejects every write.
\<close>

record xero_script =
  contact_found :: "XeroContact option"
  item_found :: "XeroItem option"
  invoice_found :: "XeroInvoice option"
  writes_fail :: bool

definition scripted_xero :: "xero_script XeroClient" where
  "scripted_xero =
     \<lparr>find_contact_by_email = (\<lambda>email x. (Inr (contact_found x), x)),
      create_contact = (\<lambda>contact x.
         if writes_fail x then (Inl (XeroAPIError ''rejected''), x)
         else (Inr (contact\<lparr>xc_ContactID := Some ''contact-1''\<rparr>), x)),
      update_contact = (\<lambda>contact x.
         if writes_fail x then (Inl (XeroAPIError ''rejected''), x) else (Inr contact, x)),
      find_item_by_code = (\<lambda>code x. (Inr (item_found x), x)),
      get_item_by_id = (\<lambda>item_id x. (Inr (item_found x), x)),
      create_item = (\<lambda>item x.
         if writes_fail x then (Inl (XeroAPIError ''rejected''), x)
         else (Inr (item\<lparr>xi_ItemID := Some ''item-1''\<rparr>), x)),
      update_item = (\<lambda>item x.
         if writes_fail x then (Inl (XeroAPIError ''rejected''), x) else (Inr item, x)),
      find_invoice_by_reference = (\<lambda>reference x. (Inr (invoice_found x), x)),
      create_invoice = (\<lambda>invoice x.
         if writes_fail x then (Inl (XeroAPIError ''rejected''), x)
         else (Inr (invoice\<lparr>xv_InvoiceID := Some ''invoice-1''\<rparr>), x))\<rparr>"

definition nothing_found :: xero_script where
  "nothing_found =
     \<lparr>contact_found = None, item_found = None, invoice_found = None, writes_fail = False\<rparr>"

record shopify_script =
  customers_page :: "exn + ShopifyCustomer list"
  products_page :: "exn + ShopifyProduct list"
  orders_page :: "exn + ShopifyOrder list"

definition scripted_shopify :: "shopify_script ShopifyClient" where
  "scripted_shopify =
     \<lparr>fetch_all_customers = (\<lambda>since s. (customers_page s, s)),
      fetch_all_products = (\<lambda>since s. (products_page s, s)),
      fetch_all_orders = (\<lambda>since status s. (orders_page s, s)),
      update_customer_email_marketing = (\<lambda>customer_id accepts s. (Inr (), s))\<rparr>"

definition nothing_to_fetch :: shopify_script where
  "nothing_to_fetch = \<lparr>customers_page = Inr [], products_page = Inr [], orders_page = Inr []\<rparr>"

text \<open>
  The interpreter of the examples: a string counts as a number when it is made of digits
  with at most one decimal point, and as positive when one of its digits is not zero;
  lower-casing and stripping are the ASCII ones.
\<close>

definition example_float_valid :: "string \<Rightarrow> bool" where
  "example_float_valid s =
     (filter (\<lambda>c. c \<noteq> CHR ''.'') s \<noteq> []
      \<and> list_all (\<lambda>c. c \<in> set ''0123456789'') (filter (\<lambda>c. c \<noteq> CHR ''.'') s)
      \<and> length (filter (\<lambda>c. c = CHR ''.'') s) \<le> 1)"

definition example_float_positive :: "string \<Rightarrow> bool" where
  "example_float_positive s = list_ex (\<lambda>c. c \<in> set ''123456789'') s"

definition example_interpreter :: interpreter where
  "example_interpreter =
     \<lparr>py_float_error = (\<lambda>s. if example_float_valid s then None
                             else Some (''could not convert string to float: '' @ s)),
      py_float_positive = example_float_positive,
      py_lower = str_lower, py_strip = str_strip,
      py_validation_error = ''1 validation error for SyncMapping''\<rparr>"

definition example_engine :: "bool \<Rightarrow> bool \<Rightarrow> (xero_script, shopify_script) SyncEngine" where
  "example_engine marketing dry =
     \<lparr>enable_email_marketing = marketing, dry_run = dry, xero = scripted_xero,
      shopify = scripted_shopify, interp = example_interpreter\<rparr>"

definition example_world :: "xero_script \<Rightarrow> shopify_script \<Rightarrow> (xero_script, shopify_script) world" where
  "example_world x s =
     \<lparr>db = init_schema, xero_state = x, shopify_state = s, clock = 1000, trace = []\<rparr>"

definition customer_a :: ShopifyCustomer where
  "customer_a =
     \<lparr>c_id = 1, c_email = Some ''a@x.com'', c_first_name = Some ''A'', c_last_name = Some ''B'',
      c_phone = None, c_updated_at = Some 900, c_default_address = None\<rparr>"

definition contact_d1 :: XeroContact where
  "contact_d1 =
     \<lparr>xc_ContactID = Some ''d1'', xc_ContactStatus = ''ACTIVE'', xc_Name = ''A B'',
      xc_FirstName = Some ''A'', xc_LastName = Some ''B'', xc_EmailAddress = Some ''a@x.com'',
      xc_Addresses = [], xc_Phones = [], xc_IsCustomer = True, xc_IsSupplier = False\<rparr>"

definition product_p :: ShopifyProduct where
  "product_p =
     \<lparr>p_id = 2, p_title = ''Lavender Melt'', p_vendor = None, p_product_type = Some ''Wax Melts'',
      p_updated_at = Some 900, p_variants = [\<lparr>v_price = ''4.50'', v_sku = Some ''LAV-1''\<rparr>]\<rparr>"

definition item_p1 :: XeroItem where
  "item_p1 =
     \<lparr>xi_ItemID = Some ''p1'', xi_Code = ''LAV-1'', xi_Name = ''[ARCHIVED] Lavender Melt'',
      xi_Description = None, xi_PurchaseDetails = None, xi_SalesDetails = None,
      xi_IsSold = False, xi_IsPurchased = False\<rparr>"

definition order_o :: ShopifyOrder where
  "order_o =
     \<lparr>o_id = 3, o_order_number = 1001, o_email = Some ''a@x.com'', o_created_at = Some 800,
      o_updated_at = Some 900, o_currency = ''GBP'', o_total_price = ''9.00'',
      o_subtotal_price = ''7.50'', o_total_tax = ''1.50'', o_total_discounts = ''0.00'',
      o_financial_status = Some ''paid'', o_customer = None,
      o_line_items = [\<lparr>li_title = ''Lavender Melt'', li_quantity = 2, li_sku = Some ''LAV-1'',
                        li_price = ''4.50''\<rparr>]\<rparr>"

definition invoice_i1 :: XeroInvoice where
  "invoice_i1 =
     \<lparr>xv_InvoiceID = Some ''i1'', xv_Reference = Some ''SHOP-1001'', xv_Type = ''ACCREC'',
      xv_Status = ''AUTHORISED'', xv_ContactID = Some ''d1'', xv_LineItems = [],
      xv_Date = Some 800, xv_DueDate = Some 800, xv_CurrencyCode = ''GBP''\<rparr>"

definition stale_order_world :: "(xero_script, shopify_script) world" where
  "stale_order_world =
     (example_world nothing_found nothing_to_fetch)
       \<lparr>db := init_schema\<lparr>sync_mappings :=
          [''3'' \<mapsto> \<lparr>r_xero_id = ''i1'', r_entity_type = ''order'', r_last_synced_at = Some 5,
                    r_shopify_updated_at = Some 4, r_checksum = Some ''stale''\<rparr>]\<rparr>\<rparr>"


text \<open>A destination that finds nothing and rejects every write.\<close>

definition failing_xero :: xero_script where
  "failing_xero = nothing_found\<lparr>writes_fail := True\<rparr>"

text \<open>
  A fresh database but for three error rows: two of them, of a product and of an order,
  carry the source id \<open>1\<close>.
\<close>

definition old_errors_world :: "(xero_script, shopify_script) world" where
  "old_errors_world =
     (example_world nothing_found nothing_to_fetch)
       \<lparr>db := init_schema
          \<lparr>sync_errors :=
             [\<lparr>e_id = 1, e_entity_type = ''product'', e_shopify_id = ''1'',
               e_error_message = ''no sku'', e_occurred_at = 7, e_retry_count = 0\<rparr>,
              \<lparr>e_id = 2, e_entity_type = ''order'', e_shopify_id = ''1'',
               e_error_message = ''no contact'', e_occurred_at = 8, e_retry_count = 2\<rparr>,
              \<lparr>e_id = 3, e_entity_type = ''customer'', e_shopify_id = ''9'',
               e_error_message = ''timeout'', e_occurred_at = 9, e_retry_count = 1\<rparr>],
            error_seq := 3\<rparr>\<rparr>"

text \<open>
  A destination in which every search finds a live record, and one in which the contact
  found is archived and the item found has the form the engine gives to the items it
  archives.
\<close>

definition all_found :: xero_script where
  "all_found =
     nothing_found
       \<lparr>contact_found := Some contact_d1,
        item_found := Some (item_p1\<lparr>xi_ItemID := Some ''p2'', xi_Name := ''Lavender Melt'',
                                   xi_IsSold := True, xi_IsPurchased := True\<rparr>),
        invoice_found := Some invoice_i1\<rparr>"

definition archived_found :: xero_script where
  "archived_found =
     nothing_found
       \<lparr>contact_found := Some (contact_d1\<lparr>xc_ContactStatus := ''ARCHIVED''\<rparr>),
        item_found := Some item_p1\<rparr>"

text \<open>The engine whose search by email finds nothing, all else being the same.\<close>

definition without_contact_match :: "('x, 's) SyncEngine \<Rightarrow> ('x, 's) SyncEngine" where
  "without_contact_match eng =
     eng\<lparr>xero := (xero eng)
            \<lparr>find_contact_by_email :=
               (\<lambda>email x. (Inr None, snd (find_contact_by_email (xero eng) email x)))\<rparr>\<rparr>"

text \<open>
  What a phase leaves behind: the run history and the clock as they were, and a log that
  has only grown, by calls that are not writes of the run record.
\<close>

definition phase_post :: "('x, 's) world \<Rightarrow> ('x, 's) world \<Rightarrow> bool" where
  "phase_post w w' =
     (sync_history (db w') = sync_history (db w) \<and> clock w' = clock w \<and> extends w w'
      \<and> run_events (new_calls w w') = [])"

text \<open>
  A source whose customer fetch fails while the product fetch returns one product, and a
  source whose product and order fetches fail.
\<close>

definition failing_customers_fetch :: shopify_script where
  "failing_customers_fetch =
     \<lparr>customers_page = Inl (OtherException ''connection reset''),
      products_page = Inr [product_p], orders_page = Inr []\<rparr>"

definition failing_later_fetches :: shopify_script where
  "failing_later_fetches =
     \<lparr>customers_page = Inr [],
      products_page = Inl (OtherException ''connection reset''),
      orders_page = Inl (OtherException ''connection reset'')\<rparr>"

section \<open>The error table\<close>

lemma latest_error_None: "latest_error rows = None \<longleftrightarrow> rows = []"
  by (cases rows) (auto split: option.splits)

lemma filter_key_distinct:
  "distinct (map error_key rows) \<Longrightarrow>
   filter (\<lambda>row. error_key row = k) rows = (case find (\<lambda>row. error_key row = k) rows of None \<Rightarrow> [] | Some r \<Rightarrow> [r])"
proof (induction rows)
  case Nil
  then show ?case by simp
next
  case (Cons a rows)
  show ?case
  proof (cases "error_key a = k")
    case True
    with Cons.prems have "\<forall>r \<in> set rows. error_key r \<noteq> k" by (metis distinct.simps(2) image_eqI list.simps(9) list.set_map)
    then have "filter (\<lambda>row. error_key row = k) rows = []" by (simp add: filter_empty_conv)
    with True show ?thesis by simp
  next
    case False
    with Cons show ?thesis by simp
  qed
qed

lemma existing_row:
  assumes "one_row_per_entity d"
  shows "latest_error (filter (\<lambda>row. e_entity_type row = et \<and> e_shopify_id row = sid) (sync_errors d))
         = find (\<lambda>row. error_key row = (et, sid)) (sync_errors d)"
proof -
  have eq: "(\<lambda>row. e_entity_type row = et \<and> e_shopify_id row = sid) = (\<lambda>row. error_key row = (et, sid))"
    by (auto simp: error_key_def)
  show ?thesis
    using assms unfolding eq one_row_per_entity_def
    by (simp add: filter_key_distinct split: option.splits)
qed

lemma map_update_by_id:
  assumes "distinct (map e_id rows)" "existing \<in> set rows"
  shows "map (\<lambda>row. if e_id row = e_id existing then f row else row) rows
         = map (\<lambda>row. if row = existing then f row else row) rows"
proof (rule map_cong[OF refl])
  fix x assume "x \<in> set rows"
  with assms have "e_id x = e_id existing \<longleftrightarrow> x = existing"
    by (auto simp: distinct_map inj_on_def)
  then show "(if e_id x = e_id existing then f x else x) = (if x = existing then f x else x)"
    by simp
qed

lemma record_error_existing:
  assumes "row_ids_valid d" "one_row_per_entity d"
    and "find (\<lambda>row. error_key row = (et, sid)) (sync_errors d) = Some existing"
  shows "record_error et sid msg now d =
         d\<lparr>sync_errors := map (\<lambda>row. if row = existing
              then row\<lparr>e_error_message := msg, e_occurred_at := now, e_retry_count := e_retry_count row + 1\<rparr>
              else row) (sync_errors d)\<rparr>"
proof -
  from assms(3) have mem: "existing \<in> set (sync_errors d)"
    by (auto simp: find_Some_iff)
  from assms(1) have dist: "distinct (map e_id (sync_errors d))" by (simp add: row_ids_valid_def)
  show ?thesis
    unfolding record_error_def existing_row[OF assms(2)] assms(3)
    by (simp add: map_update_by_id[OF dist mem])
qed

lemma record_error_fresh:
  assumes "one_row_per_entity d"
    and "find (\<lambda>row. error_key row = (et, sid)) (sync_errors d) = None"
  shows "record_error et sid msg now d =
         d\<lparr>sync_errors := sync_errors d @
               [\<lparr>e_id = error_seq d + 1, e_entity_type = et, e_shopify_id = sid,
                 e_error_message = msg, e_occurred_at = now, e_retry_count = 0\<rparr>],
            error_seq := error_seq d + 1\<rparr>"
  unfolding record_error_def existing_row[OF assms(1)] assms(2) by simp

lemma record_error_valid:
  assumes "row_ids_valid d" "one_row_per_entity d"
  shows "row_ids_valid (record_error et sid msg now d) \<and> one_row_per_entity (record_error et sid msg now d)"
proof (cases "find (\<lambda>row. error_key row = (et, sid)) (sync_errors d)")
  case None
  then have nokey: "(et, sid) \<notin> set (map error_key (sync_errors d))"
    by (auto simp: find_None_iff)
  have noid: "error_seq d + 1 \<notin> set (map e_id (sync_errors d))"
    using assms(1) by (auto simp: row_ids_valid_def list_all_iff)
  show ?thesis
    unfolding record_error_fresh[OF assms(2) None]
    using assms nokey noid
    by (auto simp: row_ids_valid_def one_row_per_entity_def list_all_iff error_key_def)
next
  case (Some existing)
  have ids: "map e_id (map (\<lambda>row. if row = existing
              then row\<lparr>e_error_message := msg, e_occurred_at := now, e_retry_count := e_retry_count row + 1\<rparr>
              else row) rows) = map e_id rows" for rows
    by (induction rows) auto
  have keys: "map error_key (map (\<lambda>row. if row = existing
              then row\<lparr>e_error_message := msg, e_occurred_at := now, e_retry_count := e_retry_count row + 1\<rparr>
              else row) rows) = map error_key rows" for rows
    by (induction rows) (auto simp: error_key_def)
  have bound: "list_all (\<lambda>row. e_id row \<le> n) (map (\<lambda>row. if row = existing
              then row\<lparr>e_error_message := msg, e_occurred_at := now, e_retry_count := e_retry_count row + 1\<rparr>
              else row) rows) = list_all (\<lambda>row. e_id row \<le> n) rows" for rows n
    by (induction rows) auto
  show ?thesis
    unfolding record_error_existing[OF assms Some]
    using assms ids[of "sync_errors d"] keys[of "sync_errors d"] bound[of "error_seq d" "sync_errors d"]
    by (simp add: row_ids_valid_def one_row_per_entity_def del: map_map list.map_comp)
qed

lemma record_errors_valid:
  "row_ids_valid d \<Longrightarrow> one_row_per_entity d \<Longrightarrow>
   row_ids_valid (record_errors calls d) \<and> one_row_per_entity (record_errors calls d)"
proof (induction calls arbitrary: d)
  case Nil
  then show ?case by simp
next
  case (Cons c calls)
  obtain et sid msg now where c: "c = (et, sid, msg, now)" by (cases c) auto
  from Cons.prems record_error_valid[of d et sid msg now]
  have "row_ids_valid (record_error et sid msg now d)" "one_row_per_entity (record_error et sid msg now d)"
    by auto
  from Cons.IH[OF this] show ?case by (simp add: c)
qed

lemma init_schema_valid: "row_ids_valid init_schema \<and> one_row_per_entity init_schema"
  by (simp add: init_schema_def row_ids_valid_def one_row_per_entity_def)


text \<open>
  C7.  The error table keeps at most one row per (entity type, source id) under any
  sequence of \<open>record_error\<close> calls, from any state that has at most one row per pair
  (the empty table of \<open>init_schema\<close> is one).  A call for a pair that already has a row
  adds one to its \<open>retry_count\<close> and replaces its message and time, in place; a call for
  a pair without a row appends one row with \<open>retry_count\<close> 0.
\<close>

theorem record_error_one_row_per_entity:
  assumes "row_ids_valid d" and "one_row_per_entity d"
  shows "one_row_per_entity (record_errors calls d)
       \<and> row_ids_valid (record_errors calls d)
       \<and> sync_errors (record_error entity_type shopify_id error_message now d) =
           (case find (\<lambda>row. error_key row = (entity_type, shopify_id)) (sync_errors d) of
              Some existing \<Rightarrow>
                map (\<lambda>row. if row = existing
                           then row\<lparr>e_error_message := error_message, e_occurred_at := now,
                                    e_retry_count := e_retry_count existing + 1\<rparr>
                           else row)
                    (sync_errors d)
            | None \<Rightarrow>
                sync_errors d @
                  [\<lparr>e_id = error_seq d + 1, e_entity_type = entity_type, e_shopify_id = shopify_id,
                    e_error_message = error_message, e_occurred_at = now, e_retry_count = 0\<rparr>])"
proof -
  have step: "sync_errors (record_error entity_type shopify_id error_message now d) =
           (case find (\<lambda>row. error_key row = (entity_type, shopify_id)) (sync_errors d) of
              Some existing \<Rightarrow>
                map (\<lambda>row. if row = existing
                           then row\<lparr>e_error_message := error_message, e_occurred_at := now,
                                    e_retry_count := e_retry_count existing + 1\<rparr>
                           else row)
                    (sync_errors d)
            | None \<Rightarrow>
                sync_errors d @
                  [\<lparr>e_id = error_seq d + 1, e_entity_type = entity_type, e_shopify_id = shopify_id,
                    e_error_message = error_message, e_occurred_at = now, e_retry_count = 0\<rparr>])"
  proof (cases "find (\<lambda>row. error_key row = (entity_type, shopify_id)) (sync_errors d)")
    case None
    then show ?thesis by (simp add: record_error_fresh[OF assms(2) None])
  next
    case (Some existing)
    have "map (\<lambda>row. if row = existing
                           then row\<lparr>e_error_message := error_message, e_occurred_at := now,
                                    e_retry_count := e_retry_count row + 1\<rparr>
                           else row) rows
        = map (\<lambda>row. if row = existing
                           then row\<lparr>e_error_message := error_message, e_occurred_at := now,
                                    e_retry_count := e_retry_count existing + 1\<rparr>
                           else row) rows" for rows
      by (rule map_cong) auto
    then show ?thesis by (simp add: record_error_existing[OF assms Some] Some)
  qed
  from record_errors_valid[OF assms] step show ?thesis by blast
qed

theorem record_error_one_row_per_entity_witness:
  "row_ids_valid (record_error ''customer'' ''7'' ''timeout'' 10 init_schema)
   \<and> one_row_per_entity (record_error ''customer'' ''7'' ''timeout'' 10 init_schema)
   \<and> sync_errors (record_error ''customer'' ''7'' ''timeout'' 10 init_schema) =
        [\<lparr>e_id = 1, e_entity_type = ''customer'', e_shopify_id = ''7'',
          e_error_message = ''timeout'', e_occurred_at = 10, e_retry_count = 0\<rparr>]
   \<and> one_row_per_entity
        (record_errors [(''customer'', ''7'', ''again'', 11), (''product'', ''7'', ''no sku'', 12)]
           (record_error ''customer'' ''7'' ''timeout'' 10 init_schema))
   \<and> sync_errors (record_error ''customer'' ''7'' ''again'' 11
                     (record_error ''customer'' ''7'' ''timeout'' 10 init_schema)) =
        [\<lparr>e_id = 1, e_entity_type = ''customer'', e_shopify_id = ''7'',
          e_error_message = ''again'', e_occurred_at = 11, e_retry_count = 1\<rparr>]"
proof -
  let ?d = "record_error ''customer'' ''7'' ''timeout'' 10 init_schema"
  have d: "?d = \<lparr>sync_mappings = Map.empty, sync_history = [],
                  sync_errors = [\<lparr>e_id = 1, e_entity_type = ''customer'', e_shopify_id = ''7'',
                                  e_error_message = ''timeout'', e_occurred_at = 10, e_retry_count = 0\<rparr>],
                  error_seq = 1\<rparr>"
    by (simp add: record_error_def init_schema_def)
  have h1: "row_ids_valid ?d" unfolding d by (simp add: row_ids_valid_def)
  have h2: "one_row_per_entity ?d" unfolding d by (simp add: one_row_per_entity_def)
  from record_error_one_row_per_entity[OF h1 h2,
      of "[(''customer'', ''7'', ''again'', 11), (''product'', ''7'', ''no sku'', 12)]"
         "''customer''" "''7''" "''again''" 11]
  show ?thesis using h1 h2 unfolding d by (simp add: error_key_def)
qed

section \<open>What every pass guarantees\<close>

section \<open>The store\<close>

lemma not_changed_iff: "\<not> has_changed old new \<longleftrightarrow> old = Some new"
  by (auto simp: has_changed_def split: option.splits)

lemma get_mapping_shopify_id: "get_mapping d k = Some m \<Longrightarrow> m_shopify_id m = k"
  by (auto simp: get_mapping_def split: option.splits)

lemma get_mapping_None: "get_mapping d k = None \<longleftrightarrow> sync_mappings d k = None"
  by (auto simp: get_mapping_def split: option.splits)

lemma save_mapping_frame [simp]:
  "sync_history (db (save_mapping mapping k w)) = sync_history (db w)"
  "clock (save_mapping mapping k w) = clock w"
  "trace (save_mapping mapping k w) = trace w"
  "xero_state (save_mapping mapping k w) = xero_state w"
  "shopify_state (save_mapping mapping k w) = shopify_state w"
  "sync_errors (db (save_mapping mapping k w)) =
     filter (\<lambda>row. e_shopify_id row \<noteq> k) (sync_errors (db w))"
  by (simp_all add: save_mapping_def clear_error_def upsert_mapping_def split: option.splits)

lemma save_mapping_stored:
  "\<exists>m. get_mapping (db (save_mapping mapping k w)) (m_shopify_id mapping) = Some m
       \<and> m_checksum m = m_checksum mapping \<and> m_xero_id m = m_xero_id mapping
       \<and> m_last_synced_at m = m_last_synced_at mapping
       \<and> m_shopify_updated_at m = m_shopify_updated_at mapping"
  by (simp add: save_mapping_def clear_error_def upsert_mapping_def get_mapping_def
      split: option.splits)

section \<open>The log\<close>

lemma extends_refl [simp]: "extends w w" "new_calls w w = []"
  by (simp_all add: extends_def new_calls_def)

lemma extendsD:
  assumes "extends w w'"
  obtains calls where "trace w' = trace w @ calls" "new_calls w w' = calls"
proof -
  from assms have "trace w' = trace w @ drop (length (trace w)) (trace w')"
    unfolding extends_def by (metis append_take_drop_id)
  then show ?thesis using that by (simp add: new_calls_def)
qed

lemma extends_append:
  "trace w' = trace w @ calls \<Longrightarrow> extends w w' \<and> new_calls w w' = calls"
  by (simp add: extends_def new_calls_def)

lemma extends_trans:
  assumes "extends w w1" "extends w1 w2"
  shows "extends w w2 \<and> new_calls w w2 = new_calls w w1 @ new_calls w1 w2"
proof -
  from assms(1) obtain c1 where c1: "trace w1 = trace w @ c1" "new_calls w w1 = c1"
    by (rule extendsD)
  from assms(2) obtain c2 where c2: "trace w2 = trace w1 @ c2" "new_calls w1 w2 = c2"
    by (rule extendsD)
  have "trace w2 = trace w @ (c1 @ c2)" using c1 c2 by simp
  from extends_append[OF this] show ?thesis using c1 c2 by simp
qed

lemma lookup_post_refl [simp]: "lookup_post w w"
  by (simp add: lookup_post_def run_events_def)

lemma lookup_post_trans:
  assumes "lookup_post w w1" "lookup_post w1 w2"
  shows "lookup_post w w2"
proof -
  from assms have e: "extends w w1" "extends w1 w2" by (simp_all add: lookup_post_def)
  from extends_trans[OF e] assms show ?thesis
    by (simp add: lookup_post_def run_events_def)
qed

lemma lookup_then_pass:
  assumes "lookup_post w w1" "pass_post dry k fp r w1 w'"
  shows "pass_post dry k fp r w w'"
proof -
  from assms have e: "extends w w1" "extends w1 w'"
    by (simp_all add: lookup_post_def pass_post_def)
  note nc = extends_trans[OF e]
  from assms(1) have nocreate: "\<not> failed_create (new_calls w w1)"
    by (auto simp: lookup_post_def failed_create_def list_ex_iff)
  from assms(1) have same: "db w1 = db w" "clock w1 = clock w" "run_events (new_calls w w1) = []"
    by (simp_all add: lookup_post_def)
  have fc: "failed_create (new_calls w w') = failed_create (new_calls w1 w')"
    using nc nocreate by (simp add: failed_create_def)
  have re: "run_events (new_calls w w') = run_events (new_calls w1 w')"
    using nc same by (simp add: run_events_def)
  show ?thesis
    using assms(2) unfolding pass_post_def fc re same using nc by simp
qed

lemma xero_call_lookup:
  assumes "xero_call ev f w = (r, w1)" "\<not> is_create ev" "\<not> is_run_event ev"
  shows "lookup_post w w1" "xero_state w1 = snd (f (xero_state w))" "r = fst (f (xero_state w))"
    "shopify_state w1 = shopify_state w"
proof -
  obtain r' x' where f: "f (xero_state w) = (r', x')" by (cases "f (xero_state w)")
  with assms(1) have w1: "w1 = w\<lparr>xero_state := x', trace := trace w @ [(ev, \<not> isl r')]\<rparr>" and r: "r = r'"
    by (auto simp: xero_call_def)
  show "lookup_post w w1" using assms(2,3)
    by (simp add: w1 lookup_post_def extends_def new_calls_def run_events_def)
  show "xero_state w1 = snd (f (xero_state w))" "r = fst (f (xero_state w))"
    "shopify_state w1 = shopify_state w"
    by (simp_all add: w1 r f)
qed


lemma save_mapping_checksum:
  "m_shopify_id mapping = k \<Longrightarrow> m_checksum mapping = Some fp \<Longrightarrow>
   \<exists>m. get_mapping (db (save_mapping mapping k w)) k = Some m \<and> m_checksum m = Some fp"
  using save_mapping_stored[of mapping k w] by auto

lemmas post_defs =
  pass_post_def extends_def new_calls_def run_events_def failed_create_def is_error_def
  is_synced_def truthy_def

section \<open>Customers\<close>

lemma update_email_marketing_post:
  "lookup_post w (update_email_marketing eng customer_id w)"
  "xero_state (update_email_marketing eng customer_id w) = xero_state w"
  "destination_writes (trace (update_email_marketing eng customer_id w)) = destination_writes (trace w)"
  by (auto simp: update_email_marketing_def shopify_call_def lookup_post_def extends_def
      new_calls_def run_events_def destination_writes_def split: prod.splits)

lemma find_existing_contact_post:
  "find_existing_contact eng customer w = (r, w1) \<Longrightarrow> lookup_post w w1"
  by (auto simp: find_existing_contact_def split: if_splits prod.splits sum.splits option.splits
      dest: xero_call_lookup(1))

lemma create_new_contact_post:
  "create_new_contact eng customer fp w = (r, w') \<Longrightarrow>
   pass_post (dry_run eng) (str_int (c_id customer)) fp r w w'"
  by (auto simp: create_new_contact_def xero_call_def new_SyncMapping_def post_defs Let_def
      split: if_splits prod.splits sum.splits option.splits
      intro!: save_mapping_checksum)

lemma link_existing_contact_post:
  "link_existing_contact eng customer fp existing w = (r, w') \<Longrightarrow>
   pass_post (dry_run eng) (str_int (c_id customer)) fp r w w'"
  by (auto simp: link_existing_contact_def xero_call_def new_SyncMapping_def post_defs Let_def
      split: if_splits prod.splits sum.splits option.splits
      intro!: save_mapping_checksum)

lemma update_customer_in_xero_post:
  "update_customer_in_xero eng customer mapping fp w = (r, w') \<Longrightarrow>
   m_shopify_id mapping = str_int (c_id customer) \<Longrightarrow>
   pass_post (dry_run eng) (str_int (c_id customer)) fp r w w'"
  by (auto simp: update_customer_in_xero_def xero_call_def post_defs Let_def
      split: if_splits prod.splits sum.splits option.splits
      intro!: save_mapping_checksum)

lemma skipped_post: "pass_post dry k fp (Inr (''skipped'', None)) w w"
  by (simp add: post_defs)

lemma pass_post_same [simp]: "\<not> is_synced r \<Longrightarrow> pass_post dry k fp r w w"
  by (simp add: pass_post_def failed_create_def run_events_def)

lemma lookup_is_pass:
  "lookup_post w w' \<Longrightarrow> \<not> is_synced r \<Longrightarrow> pass_post dry k fp r w w'"
  by (auto simp: lookup_post_def pass_post_def failed_create_def list_ex_iff)

lemma not_synced [simp]:
  "\<not> is_synced (Inl e)" "\<not> is_synced (Inr (''skipped'', err))" "\<not> is_synced (Inr (action, Some (c # cs)))"
  by (simp_all add: is_synced_def truthy_def)

lemma create_customer_in_xero_post:
  "create_customer_in_xero eng customer fp w = (r, w') \<Longrightarrow>
   pass_post (dry_run eng) (str_int (c_id customer)) fp r w w'"
  by (auto simp: create_customer_in_xero_def
      split: if_splits prod.splits sum.splits option.splits
      dest!: find_existing_contact_post create_new_contact_post link_existing_contact_post
      intro: lookup_then_pass lookup_is_pass)

lemma sync_single_customer_post:
  assumes "sync_single_customer eng customer w = (r, w')"
  shows "pass_post (dry_run eng) (str_int (c_id customer)) (calculate_customer_checksum customer) r w w'"
proof -
  let ?w1 = "if enable_email_marketing eng then update_email_marketing eng (c_id customer) w else w"
  have l: "lookup_post w ?w1" by (simp add: update_email_marketing_post)
  have "pass_post (dry_run eng) (str_int (c_id customer)) (calculate_customer_checksum customer) r ?w1 w'"
    using assms
    by (auto simp: sync_single_customer_def Let_def skipped_post
        split: option.splits if_splits
        dest: create_customer_in_xero_post get_mapping_shopify_id
        intro: update_customer_in_xero_post)
  with l show ?thesis by (rule lookup_then_pass)
qed



section \<open>Products\<close>

lemma find_existing_item_post:
  "find_existing_item eng xero_item w = (r, w1) \<Longrightarrow> lookup_post w w1"
  by (auto simp: find_existing_item_def split: if_splits prod.splits sum.splits option.splits
      dest: xero_call_lookup(1))

lemma create_new_item_post:
  "create_new_item eng product xero_item fp w = (r, w') \<Longrightarrow>
   pass_post (dry_run eng) (str_int (p_id product)) fp r w w'"
  by (auto simp: create_new_item_def xero_call_def new_SyncMapping_def post_defs Let_def
      split: if_splits prod.splits sum.splits option.splits
      intro!: save_mapping_checksum)

lemma link_existing_item_post:
  "link_existing_item eng product xero_item fp existing w = (r, w') \<Longrightarrow>
   pass_post (dry_run eng) (str_int (p_id product)) fp r w w'"
  by (auto simp: link_existing_item_def xero_call_def new_SyncMapping_def post_defs Let_def
      split: if_splits prod.splits sum.splits option.splits
      intro!: save_mapping_checksum)

lemma create_product_in_xero_post:
  "create_product_in_xero eng product xero_item fp w = (r, w') \<Longrightarrow>
   pass_post (dry_run eng) (str_int (p_id product)) fp r w w'"
  by (auto simp: create_product_in_xero_def
      split: if_splits prod.splits sum.splits option.splits
      dest!: find_existing_item_post create_new_item_post link_existing_item_post
      intro: lookup_then_pass lookup_is_pass)

lemma normal_item_update_post:
  "normal_item_update eng product xero_item mapping fp w = (r, w') \<Longrightarrow>
   m_shopify_id mapping = str_int (p_id product) \<Longrightarrow>
   pass_post (dry_run eng) (str_int (p_id product)) fp r w w'"
  by (auto simp: normal_item_update_def xero_call_def post_defs Let_def
      split: if_splits prod.splits sum.splits option.splits
      intro!: save_mapping_checksum)

lemma create_item_after_sku_change_post:
  "create_item_after_sku_change eng product xero_item mapping fp w = (r, w') \<Longrightarrow>
   m_shopify_id mapping = str_int (p_id product) \<Longrightarrow>
   pass_post dry (str_int (p_id product)) fp r w w'"
  by (auto simp: create_item_after_sku_change_def xero_call_def post_defs Let_def
      split: if_splits prod.splits sum.splits option.splits
      intro!: save_mapping_checksum)

lemma sku_changed_post:
  assumes "sku_changed eng product xero_item mapping fp current w = (r, w')"
    and k: "m_shopify_id mapping = str_int (p_id product)"
  shows "pass_post (dry_run eng) (str_int (p_id product)) fp r w w'"
proof (cases "dry_run eng")
  case True
  with assms show ?thesis by (simp add: sku_changed_def post_defs)
next
  case False
  let ?archived = "current\<lparr>xi_IsSold := False, xi_IsPurchased := False,
                xi_Name := ''[ARCHIVED] '' @ xi_Name current\<rparr>"
  obtain ar w1 where call: "xero_call (UpdateItem ?archived) (update_item (xero eng) ?archived) w = (ar, w1)"
    by (cases "xero_call (UpdateItem ?archived) (update_item (xero eng) ?archived) w")
  then have l: "lookup_post w w1" by (rule xero_call_lookup(1)) simp_all
  show ?thesis
  proof (cases "case ar of Inr _ \<Rightarrow> True | Inl e \<Rightarrow> xero_api_error e \<noteq> None")
    case True
    with assms(1) False call
    have "create_item_after_sku_change eng product xero_item mapping fp w1 = (r, w')"
      by (auto simp: sku_changed_def Let_def split: sum.splits option.splits)
    from create_item_after_sku_change_post[OF this k] l show ?thesis
      by (rule lookup_then_pass[rotated])
  next
    case f: False
    with assms(1) False call have "w' = w1" "\<not> is_synced r"
      by (auto simp: sku_changed_def Let_def split: sum.splits option.splits)
    with l show ?thesis by (simp add: lookup_is_pass)
  qed
qed

lemma update_product_in_xero_post:
  "update_product_in_xero eng product xero_item mapping fp w = (r, w') \<Longrightarrow>
   m_shopify_id mapping = str_int (p_id product) \<Longrightarrow>
   pass_post (dry_run eng) (str_int (p_id product)) fp r w w'"
  by (auto simp: update_product_in_xero_def
      split: if_splits prod.splits sum.splits option.splits
      dest!: xero_call_lookup(1) sku_changed_post normal_item_update_post
      intro: lookup_then_pass lookup_is_pass)

lemma sync_single_product_post:
  "sync_single_product eng product w = (r, w') \<Longrightarrow>
   pass_post (dry_run eng) (str_int (p_id product)) (calculate_product_checksum product) r w w'"
  by (auto simp: sync_single_product_def Let_def skipped_post
      split: option.splits if_splits sum.splits
      dest: create_product_in_xero_post get_mapping_shopify_id
      intro: update_product_in_xero_post lookup_is_pass)



section \<open>Orders\<close>

lemma get_customer_contact_id_post:
  "get_customer_contact_id eng order w = (r, w1) \<Longrightarrow> lookup_post w w1"
  by (auto simp: get_customer_contact_id_def Let_def
      split: if_splits prod.splits sum.splits option.splits
      dest: xero_call_lookup(1))

lemma find_existing_invoice_post:
  "find_existing_invoice eng order w = (r, w1) \<Longrightarrow> lookup_post w w1"
  by (auto simp: find_existing_invoice_def Let_def
      split: if_splits prod.splits sum.splits option.splits
      dest: xero_call_lookup(1))

lemma link_existing_invoice_post:
  "link_existing_invoice eng order fp existing w = (r, w') \<Longrightarrow>
   pass_post dry (str_int (o_id order)) fp r w w'"
  by (auto simp: link_existing_invoice_def new_SyncMapping_def post_defs Let_def
      split: if_splits prod.splits sum.splits option.splits)

lemma submit_invoice_post:
  "submit_invoice eng order xero_invoice fp w = (r, w') \<Longrightarrow>
   pass_post (dry_run eng) (str_int (o_id order)) fp r w w'"
  by (auto simp: submit_invoice_def xero_call_def new_SyncMapping_def post_defs Let_def
      split: if_splits prod.splits sum.splits option.splits
      intro!: save_mapping_checksum)

lemma create_new_invoice_post:
  "create_new_invoice eng order gl fp w = (r, w') \<Longrightarrow>
   pass_post (dry_run eng) (str_int (o_id order)) fp r w w'"
  by (auto simp: create_new_invoice_def Let_def
      split: if_splits prod.splits sum.splits option.splits
      dest!: get_customer_contact_id_post submit_invoice_post
      intro: lookup_then_pass lookup_is_pass)

lemma create_order_in_xero_post:
  "create_order_in_xero eng order gl fp w = (r, w') \<Longrightarrow>
   pass_post (dry_run eng) (str_int (o_id order)) fp r w w'"
  by (auto simp: create_order_in_xero_def
      split: if_splits prod.splits sum.splits option.splits
      dest!: find_existing_invoice_post create_new_invoice_post link_existing_invoice_post
      intro: lookup_then_pass lookup_is_pass)

lemma order_fingerprint_update_post:
  "pass_post dry k fp (Inr (''skipped'', None)) w (w\<lparr>db := upsert_mapping mapping (db w)\<rparr>)"
  by (simp add: post_defs upsert_mapping_def split: option.splits)

lemma sync_single_order_post:
  "sync_single_order eng order gl w = (r, w') \<Longrightarrow>
   pass_post (dry_run eng) (str_int (o_id order)) (calculate_order_checksum order) r w w'"
  by (auto simp: sync_single_order_def Let_def skipped_post order_fingerprint_update_post
      split: option.splits if_splits
      dest: create_order_in_xero_post)

section \<open>The digest\<close>

lemma length_sha256_words: "length (sha256_words bs) = 8"
  by (simp add: sha256_words_def Let_def split: prod.splits)

lemma length_hex_words: "length (concat (map hex_word ws)) = 8 * length ws"
  by (induction ws) (simp_all add: hex_word_def)

lemma length_sha256_hexdigest: "length (sha256_hexdigest s) = 64"
  by (simp add: sha256_hexdigest_def length_hex_words length_sha256_words)

lemma sha256_hexdigest_not_short: "length t \<noteq> 64 \<Longrightarrow> sha256_hexdigest s \<noteq> t"
  using length_sha256_hexdigest by blast

section \<open>Unchanged entities are skipped\<close>





lemma marketing_only_adds_source_calls:
  "db (if enable_email_marketing eng then update_email_marketing eng i w else w) = db w"
  "xero_state (if enable_email_marketing eng then update_email_marketing eng i w else w) = xero_state w"
  "destination_writes (trace (if enable_email_marketing eng then update_email_marketing eng i w else w))
     = destination_writes (trace w)"
  "\<not> enable_email_marketing eng \<or> dry_run eng \<Longrightarrow>
     (if enable_email_marketing eng then update_email_marketing eng i w else w) = w"
  using update_email_marketing_post[where w=w and eng=eng and customer_id=i]
  by (auto simp: lookup_post_def update_email_marketing_def)

lemma marketing_new_calls:
  "new_calls w (if enable_email_marketing eng then update_email_marketing eng i w else w) =
     (if enable_email_marketing eng \<and> \<not> dry_run eng
      then [(UpdateCustomerEmailMarketing i,
             \<not> isl (fst (update_customer_email_marketing (shopify eng) i True (shopify_state w))))]
      else [])"
  by (auto simp: update_email_marketing_def shopify_call_def new_calls_def split: prod.splits)


section \<open>Running the engine on the examples\<close>

lemma str_int_small [simp]:
  "str_int 1 = ''1''" "str_int 2 = ''2''" "str_int 3 = ''3''" "str_int 1001 = ''1001''"
  by (simp_all add: str_int_def str_nat.simps digit_char_def)

lemmas example_defs =
  example_engine_def example_world_def scripted_xero_def scripted_shopify_def nothing_found_def
  nothing_to_fetch_def init_schema_def

lemmas engine_defs =
  sync_single_customer_def create_customer_in_xero_def find_existing_contact_def
  link_existing_contact_def create_new_contact_def update_customer_in_xero_def
  update_email_marketing_def
  sync_single_product_def create_product_in_xero_def find_existing_item_def
  link_existing_item_def create_new_item_def update_product_in_xero_def
  normal_item_update_def sku_changed_def create_item_after_sku_change_def
  sync_single_order_def create_order_in_xero_def find_existing_invoice_def
  link_existing_invoice_def create_new_invoice_def submit_invoice_def get_customer_contact_id_def
  xero_call_def shopify_call_def save_mapping_def clear_error_def upsert_mapping_def
  new_SyncMapping_def get_mapping_def has_changed_def truthy_def Let_def






text \<open>
  C2.  For an order that already has a mapping whose stored fingerprint is not the one
  just computed, the pass writes the new fingerprint and the time of the pass into that
  row and nothing else (the destination id, the entity type and the source time stay, as
  does every other row and table), returns \<open>skipped\<close> with no error, and makes no call
  at all, so no update call to the destination.
\<close>

theorem mapped_order_change_updates_only_fingerprint:
  assumes "get_mapping (db w) (str_int (o_id order)) = Some mapping"
    and "m_checksum mapping \<noteq> Some (calculate_order_checksum order)"
  shows "\<exists>row. sync_mappings (db w) (str_int (o_id order)) = Some row
       \<and> sync_single_order eng order sku_to_gl_code w =
           (Inr (''skipped'', None),
            w\<lparr>db := (db w)\<lparr>sync_mappings := (sync_mappings (db w))(str_int (o_id order) \<mapsto>
                  row\<lparr>r_last_synced_at := Some (clock w),
                      r_checksum := Some (calculate_order_checksum order)\<rparr>)\<rparr>\<rparr>)
       \<and> new_calls w (snd (sync_single_order eng order sku_to_gl_code w)) = []"
proof -
  from assms(1) obtain row where row: "sync_mappings (db w) (str_int (o_id order)) = Some row"
    by (auto simp: get_mapping_def split: option.splits)
  from assms(2) have ch: "has_changed (m_checksum mapping) (calculate_order_checksum order)"
    using not_changed_iff by blast
  have "sync_single_order eng order sku_to_gl_code w =
           (Inr (''skipped'', None),
            w\<lparr>db := (db w)\<lparr>sync_mappings := (sync_mappings (db w))(str_int (o_id order) \<mapsto>
                  row\<lparr>r_last_synced_at := Some (clock w),
                      r_checksum := Some (calculate_order_checksum order)\<rparr>)\<rparr>\<rparr>)"
    using assms(1) ch row get_mapping_shopify_id[OF assms(1)]
    by (auto simp: sync_single_order_def Let_def upsert_mapping_def get_mapping_def)
  with row show ?thesis by (simp add: new_calls_def)
qed

theorem mapped_order_change_updates_only_fingerprint_witness:
  "get_mapping (db stale_order_world) (str_int (o_id order_o)) =
     Some \<lparr>m_shopify_id = ''3'', m_xero_id = ''i1'', m_entity_type = ''order'',
           m_last_synced_at = Some 5, m_shopify_updated_at = Some 4, m_checksum = Some ''stale''\<rparr>
   \<and> Some ''stale'' \<noteq> Some (calculate_order_checksum order_o)
   \<and> fst (sync_single_order (example_engine False False) order_o Map.empty stale_order_world)
       = Inr (''skipped'', None)
   \<and> get_mapping (db (snd (sync_single_order (example_engine False False) order_o Map.empty
                              stale_order_world))) ''3'' =
     Some \<lparr>m_shopify_id = ''3'', m_xero_id = ''i1'', m_entity_type = ''order'',
           m_last_synced_at = Some 1000, m_shopify_updated_at = Some 4,
           m_checksum = Some (calculate_order_checksum order_o)\<rparr>
   \<and> trace (snd (sync_single_order (example_engine False False) order_o Map.empty
                    stale_order_world)) = []"
proof -
  have m: "get_mapping (db stale_order_world) (str_int (o_id order_o)) =
     Some \<lparr>m_shopify_id = ''3'', m_xero_id = ''i1'', m_entity_type = ''order'',
           m_last_synced_at = Some 5, m_shopify_updated_at = Some 4, m_checksum = Some ''stale''\<rparr>"
    by (simp add: stale_order_world_def example_defs get_mapping_def order_o_def)
  have n: "m_checksum \<lparr>m_shopify_id = ''3'', m_xero_id = ''i1'', m_entity_type = ''order'',
           m_last_synced_at = Some 5, m_shopify_updated_at = Some 4, m_checksum = Some ''stale''\<rparr>
           \<noteq> Some (calculate_order_checksum order_o)"
    using sha256_hexdigest_not_short[of "''stale''" "order_checksum_data order_o"]
    by (auto simp: calculate_order_checksum_def)
  from mapped_order_change_updates_only_fingerprint[OF m n,
      of "example_engine False False" Map.empty]
  show ?thesis using m n
    by (auto simp: get_mapping_def stale_order_world_def example_defs order_o_def)
qed

section \<open>A failed creation\<close>

lemma latest_error_mem: "latest_error rows = Some row \<Longrightarrow> row \<in> set rows"
  by (induction rows arbitrary: row) (auto split: option.splits if_splits)

lemma record_error_has_row:
  "\<exists>row \<in> set (sync_errors (record_error k sid msg now d)).
      e_entity_type row = k \<and> e_shopify_id row = sid \<and> e_error_message row = msg"
proof (cases "latest_error (filter (\<lambda>row. e_entity_type row = k \<and> e_shopify_id row = sid) (sync_errors d))")
  case None
  then show ?thesis by (simp add: record_error_def)
next
  case (Some existing)
  from latest_error_mem[OF Some]
  have mem: "existing \<in> set (sync_errors d)" and key: "e_entity_type existing = k" "e_shopify_id existing = sid"
    by auto
  let ?f = "\<lambda>row. if e_id row = e_id existing
                         then row\<lparr>e_error_message := msg, e_occurred_at := now,
                                  e_retry_count := e_retry_count row + 1\<rparr>
                         else row"
  from mem Some have inside: "?f existing \<in> set (sync_errors (record_error k sid msg now d))"
    by (simp add: record_error_def)
  have "e_entity_type (?f existing) = k \<and> e_shopify_id (?f existing) = sid
        \<and> e_error_message (?f existing) = msg"
    using key by simp
  with inside show ?thesis by blast
qed

lemma record_error_frame [simp]:
  "sync_mappings (record_error k sid msg now d) = sync_mappings d"
  "sync_history (record_error k sid msg now d) = sync_history d"
  by (simp_all add: record_error_def split: option.splits)

lemma process_single_error:
  assumes "sync_one entity w = (r, wa)" "is_error r"
  shows "\<exists>message recorded.
           process_entities kind label ident sync_one [entity] result w =
             (result\<lparr>errors := errors result @ [message]\<rparr>,
              wa\<lparr>db := record_error kind (str_int (ident entity)) recorded (clock wa) (db wa)\<rparr>)"
  using assms by (cases r) (auto simp: is_error_def)

lemma failed_create_in_loop:
  assumes post: "\<And>r w'. sync_one entity w = (r, w') \<Longrightarrow> pass_post dry sid fp r w w'"
    and sid: "sid = str_int (ident entity)"
    and new: "get_mapping (db w) sid = None"
    and failed: "failed_create (new_calls w (snd (sync_one entity w)))"
  shows "(case process_entities kind label ident sync_one [entity] result w of
            (result', w') \<Rightarrow>
              sync_mappings (db w') = sync_mappings (db w)
              \<and> get_mapping (db w') sid = None
              \<and> (\<exists>message. errors result' = errors result @ [message])
              \<and> created result' = created result \<and> updated result' = updated result
              \<and> skipped result' = skipped result
              \<and> (\<exists>row \<in> set (sync_errors (db w')). e_entity_type row = kind \<and> e_shopify_id row = sid))"
proof -
  obtain r w1 where p: "sync_one entity w = (r, w1)" by (cases "sync_one entity w")
  from post[OF p] failed p have same: "sync_mappings (db w1) = sync_mappings (db w)" and err: "is_error r"
    by (simp_all add: pass_post_def)
  from process_single_error[where sync_one=sync_one and entity=entity and w=w and r=r and wa=w1
      and kind=kind and label=label and ident=ident and result=result, OF p err]
  obtain message recorded where
    run: "process_entities kind label ident sync_one [entity] result w =
             (result\<lparr>errors := errors result @ [message]\<rparr>,
              w1\<lparr>db := record_error kind (str_int (ident entity)) recorded (clock w1) (db w1)\<rparr>)"
    by blast
  from record_error_has_row[of kind "str_int (ident entity)" recorded "clock w1" "db w1"]
  have row: "\<exists>row \<in> set (sync_errors (record_error kind (str_int (ident entity)) recorded (clock w1) (db w1))).
      e_entity_type row = kind \<and> e_shopify_id row = sid"
    by (auto simp: sid)
  from new same have none: "sync_mappings (db w1) sid = None" by (simp add: get_mapping_None)
  show ?thesis
    unfolding run using same row none by (simp add: get_mapping_None)
qed

text \<open>
  C4. A customer, a product or an order that has no mapping, and for which the pass makes
  a creation call to the destination that fails: the phase loop, run over that entity,
  appends one message to the errors of the phase and counts nothing as created, updated
  or skipped; it leaves an error row of that entity type and source id in the error
  table; and the mapping table is exactly as it was before, so that there is still no
  row under the source id: the lookup of the next run finds none and takes the creation
  branch again.
\<close>

theorem failed_create_records_error_and_writes_no_mapping:
  "(get_mapping (db w) (str_int (c_id customer)) = None
      \<and> failed_create (new_calls w (snd (sync_single_customer eng customer w)))
    \<longrightarrow> (case process_entities ''customer'' ''Customer'' c_id (sync_single_customer eng)
                 [customer] result w of
           (result', w') \<Rightarrow>
             sync_mappings (db w') = sync_mappings (db w)
             \<and> get_mapping (db w') (str_int (c_id customer)) = None
             \<and> (\<exists>message. errors result' = errors result @ [message])
             \<and> created result' = created result \<and> updated result' = updated result
             \<and> skipped result' = skipped result
             \<and> (\<exists>row \<in> set (sync_errors (db w')).
                    e_entity_type row = ''customer'' \<and> e_shopify_id row = str_int (c_id customer))))
   \<and> (get_mapping (db w) (str_int (p_id product)) = None
      \<and> failed_create (new_calls w (snd (sync_single_product eng product w)))
    \<longrightarrow> (case process_entities ''product'' ''Product'' p_id (sync_single_product eng)
                 [product] result w of
           (result', w') \<Rightarrow>
             sync_mappings (db w') = sync_mappings (db w)
             \<and> get_mapping (db w') (str_int (p_id product)) = None
             \<and> (\<exists>message. errors result' = errors result @ [message])
             \<and> created result' = created result \<and> updated result' = updated result
             \<and> skipped result' = skipped result
             \<and> (\<exists>row \<in> set (sync_errors (db w')).
                    e_entity_type row = ''product'' \<and> e_shopify_id row = str_int (p_id product))))
   \<and> (get_mapping (db w) (str_int (o_id order)) = None
      \<and> failed_create (new_calls w (snd (sync_single_order eng order gl w)))
    \<longrightarrow> (case process_entities ''order'' ''Order'' o_id (\<lambda>order. sync_single_order eng order gl)
                 [order] result w of
           (result', w') \<Rightarrow>
             sync_mappings (db w') = sync_mappings (db w)
             \<and> get_mapping (db w') (str_int (o_id order)) = None
             \<and> (\<exists>message. errors result' = errors result @ [message])
             \<and> created result' = created result \<and> updated result' = updated result
             \<and> skipped result' = skipped result
             \<and> (\<exists>row \<in> set (sync_errors (db w')).
                    e_entity_type row = ''order'' \<and> e_shopify_id row = str_int (o_id order))))"
proof (intro conjI impI)
  assume a: "get_mapping (db w) (str_int (c_id customer)) = None
      \<and> failed_create (new_calls w (snd (sync_single_customer eng customer w)))"
  show "case process_entities ''customer'' ''Customer'' c_id (sync_single_customer eng)
                 [customer] result w of
           (result', w') \<Rightarrow>
             sync_mappings (db w') = sync_mappings (db w)
             \<and> get_mapping (db w') (str_int (c_id customer)) = None
             \<and> (\<exists>message. errors result' = errors result @ [message])
             \<and> created result' = created result \<and> updated result' = updated result
             \<and> skipped result' = skipped result
             \<and> (\<exists>row \<in> set (sync_errors (db w')).
                    e_entity_type row = ''customer'' \<and> e_shopify_id row = str_int (c_id customer))"
    by (rule failed_create_in_loop[where sync_one="sync_single_customer eng" and ident=c_id,
          OF sync_single_customer_post refl conjunct1[OF a] conjunct2[OF a]])
next
  assume a: "get_mapping (db w) (str_int (p_id product)) = None
      \<and> failed_create (new_calls w (snd (sync_single_product eng product w)))"
  show "case process_entities ''product'' ''Product'' p_id (sync_single_product eng)
                 [product] result w of
           (result', w') \<Rightarrow>
             sync_mappings (db w') = sync_mappings (db w)
             \<and> get_mapping (db w') (str_int (p_id product)) = None
             \<and> (\<exists>message. errors result' = errors result @ [message])
             \<and> created result' = created result \<and> updated result' = updated result
             \<and> skipped result' = skipped result
             \<and> (\<exists>row \<in> set (sync_errors (db w')).
                    e_entity_type row = ''product'' \<and> e_shopify_id row = str_int (p_id product))"
    by (rule failed_create_in_loop[where sync_one="sync_single_product eng" and ident=p_id,
          OF sync_single_product_post refl conjunct1[OF a] conjunct2[OF a]])
next
  assume a: "get_mapping (db w) (str_int (o_id order)) = None
      \<and> failed_create (new_calls w (snd (sync_single_order eng order gl w)))"
  show "case process_entities ''order'' ''Order'' o_id (\<lambda>order. sync_single_order eng order gl)
                 [order] result w of
           (result', w') \<Rightarrow>
             sync_mappings (db w') = sync_mappings (db w)
             \<and> get_mapping (db w') (str_int (o_id order)) = None
             \<and> (\<exists>message. errors result' = errors result @ [message])
             \<and> created result' = created result \<and> updated result' = updated result
             \<and> skipped result' = skipped result
             \<and> (\<exists>row \<in> set (sync_errors (db w')).
                    e_entity_type row = ''order'' \<and> e_shopify_id row = str_int (o_id order))"
    by (rule failed_create_in_loop[where sync_one="\<lambda>order. sync_single_order eng order gl" and ident=o_id,
          OF sync_single_order_post refl conjunct1[OF a] conjunct2[OF a]])
qed

theorem failed_create_records_error_and_writes_no_mapping_witness:
  "get_mapping (db (example_world failing_xero nothing_to_fetch)) (str_int (c_id customer_a)) = None
   \<and> failed_create (new_calls (example_world failing_xero nothing_to_fetch)
         (snd (sync_single_customer (example_engine False False) customer_a
                 (example_world failing_xero nothing_to_fetch))))
   \<and> get_mapping (db (snd (process_entities ''customer'' ''Customer'' c_id
          (sync_single_customer (example_engine False False)) [customer_a] new_SyncResult
          (example_world failing_xero nothing_to_fetch)))) ''1'' = None
   \<and> errors (fst (process_entities ''customer'' ''Customer'' c_id
          (sync_single_customer (example_engine False False)) [customer_a] new_SyncResult
          (example_world failing_xero nothing_to_fetch)))
       = [''Failed to create contact for customer 1: rejected'']
   \<and> sync_errors (db (snd (process_entities ''customer'' ''Customer'' c_id
          (sync_single_customer (example_engine False False)) [customer_a] new_SyncResult
          (example_world failing_xero nothing_to_fetch))))
       = [\<lparr>e_id = 1, e_entity_type = ''customer'', e_shopify_id = ''1'',
           e_error_message = ''Failed to create contact for customer 1: rejected'',
           e_occurred_at = 1000, e_retry_count = 0\<rparr>]
   \<and> failed_create (new_calls (example_world failing_xero nothing_to_fetch)
         (snd (sync_single_product (example_engine False False) product_p
                 (example_world failing_xero nothing_to_fetch))))
   \<and> get_mapping (db (snd (process_entities ''product'' ''Product'' p_id
          (sync_single_product (example_engine False False)) [product_p] new_SyncResult
          (example_world failing_xero nothing_to_fetch)))) ''2'' = None
   \<and> failed_create (new_calls (example_world (failing_xero\<lparr>contact_found := Some contact_d1\<rparr>) nothing_to_fetch)
         (snd (sync_single_order (example_engine False False) order_o Map.empty
                 (example_world (failing_xero\<lparr>contact_found := Some contact_d1\<rparr>) nothing_to_fetch))))
   \<and> get_mapping (db (snd (process_entities ''order'' ''Order'' o_id
          (\<lambda>order. sync_single_order (example_engine False False) order Map.empty) [order_o]
          new_SyncResult
          (example_world (failing_xero\<lparr>contact_found := Some contact_d1\<rparr>) nothing_to_fetch)))) ''3'' = None"
proof -
  let ?E = "example_engine False False"
  let ?W = "example_world failing_xero nothing_to_fetch"
  let ?V = "example_world (failing_xero\<lparr>contact_found := Some contact_d1\<rparr>) nothing_to_fetch"
  have c1: "get_mapping (db ?W) (str_int (c_id customer_a)) = None"
    by (simp add: example_defs get_mapping_def)
  have c2: "failed_create (new_calls ?W (snd (sync_single_customer ?E customer_a ?W)))"
    by (simp add: engine_defs example_defs failing_xero_def customer_a_def new_calls_def
        failed_create_def)
  have p1: "get_mapping (db ?W) (str_int (p_id product_p)) = None"
    by (simp add: example_defs get_mapping_def)
  have p2: "failed_create (new_calls ?W (snd (sync_single_product ?E product_p ?W)))"
    by (simp add: engine_defs example_defs failing_xero_def product_p_def new_calls_def
        failed_create_def shopify_product_to_xero_item_def primary_variant_def
        example_float_valid_def example_interpreter_def get_gl_codes_for_category_def)
  have o1: "get_mapping (db ?V) (str_int (o_id order_o)) = None"
    by (simp add: example_defs get_mapping_def)
  have o2: "failed_create (new_calls ?V (snd (sync_single_order ?E order_o Map.empty ?V)))"
    by (simp add: engine_defs example_defs failing_xero_def order_o_def contact_d1_def
        new_calls_def failed_create_def shopify_order_to_xero_invoice_def
        example_float_valid_def example_float_positive_def example_interpreter_def
        INVOICE_REFERENCE_PREFIX_def float_of_int_overflows_def)
  have run: "process_entities ''customer'' ''Customer'' c_id (sync_single_customer ?E)
               [customer_a] new_SyncResult ?W =
             (new_SyncResult\<lparr>errors := [''Failed to create contact for customer 1: rejected'']\<rparr>,
              ?W\<lparr>db := init_schema\<lparr>sync_errors :=
                     [\<lparr>e_id = 1, e_entity_type = ''customer'', e_shopify_id = ''1'',
                       e_error_message = ''Failed to create contact for customer 1: rejected'',
                       e_occurred_at = 1000, e_retry_count = 0\<rparr>], error_seq := 1\<rparr>,
                  trace := [(FindContactByEmail ''a@x.com'', True),
                            (CreateContact (shopify_customer_to_xero_contact customer_a), False)]\<rparr>)"
    by (simp add: engine_defs example_defs failing_xero_def customer_a_def record_error_def
        new_SyncResult_def)
  from failed_create_records_error_and_writes_no_mapping[of ?W customer_a ?E new_SyncResult
        product_p] c1 c2 p1 p2
  have a: "get_mapping (db (snd (process_entities ''customer'' ''Customer'' c_id
              (sync_single_customer ?E) [customer_a] new_SyncResult ?W))) ''1'' = None"
    and b: "get_mapping (db (snd (process_entities ''product'' ''Product'' p_id
              (sync_single_product ?E) [product_p] new_SyncResult ?W))) ''2'' = None"
    by (simp_all del: process_entities.simps add: case_prod_unfold customer_a_def product_p_def)
  from failed_create_records_error_and_writes_no_mapping[of ?V _ ?E new_SyncResult
        _ order_o Map.empty] o1 o2
  have c: "get_mapping (db (snd (process_entities ''order'' ''Order'' o_id
              (\<lambda>order. sync_single_order ?E order Map.empty) [order_o] new_SyncResult ?V))) ''3'' = None"
    by (simp del: process_entities.simps add: case_prod_unfold order_o_def)
  have r1: "errors (fst (process_entities ''customer'' ''Customer'' c_id
              (sync_single_customer ?E) [customer_a] new_SyncResult ?W))
            = [''Failed to create contact for customer 1: rejected'']"
    by (simp only: run fst_conv) simp
  have r2: "sync_errors (db (snd (process_entities ''customer'' ''Customer'' c_id
              (sync_single_customer ?E) [customer_a] new_SyncResult ?W)))
            = [\<lparr>e_id = 1, e_entity_type = ''customer'', e_shopify_id = ''1'',
                e_error_message = ''Failed to create contact for customer 1: rejected'',
                e_occurred_at = 1000, e_retry_count = 0\<rparr>]"
    by (simp only: run snd_conv) simp
  show ?thesis
    by (intro conjI) (rule c1 c2 a r1 r2 p2 b o2 c)+
qed

section \<open>Clearing errors\<close>

text \<open>
  C10. \<open>clear_error\<close> deletes the rows whose source id is the one given, whatever their
  entity type; and outside dry-run mode, a pass over a customer, a product or an order
  that is counted as created or updated leaves in the error table exactly the rows of
  before whose source id differs from the entity's: the rows of any other entity type
  with that source id are gone too.
\<close>

theorem successful_sync_clears_errors_of_every_type:
  "sync_errors (snd (clear_error shopify_id d)) =
     filter (\<lambda>row. e_shopify_id row \<noteq> shopify_id) (sync_errors d)
   \<and> (\<not> dry_run eng \<and> is_synced (fst (sync_single_customer eng customer w))
      \<longrightarrow> sync_errors (db (snd (sync_single_customer eng customer w))) =
            filter (\<lambda>row. e_shopify_id row \<noteq> str_int (c_id customer)) (sync_errors (db w)))
   \<and> (\<not> dry_run eng \<and> is_synced (fst (sync_single_product eng product w))
      \<longrightarrow> sync_errors (db (snd (sync_single_product eng product w))) =
            filter (\<lambda>row. e_shopify_id row \<noteq> str_int (p_id product)) (sync_errors (db w)))
   \<and> (\<not> dry_run eng \<and> is_synced (fst (sync_single_order eng order gl w))
      \<longrightarrow> sync_errors (db (snd (sync_single_order eng order gl w))) =
            filter (\<lambda>row. e_shopify_id row \<noteq> str_int (o_id order)) (sync_errors (db w)))"
proof (intro conjI impI)
  show "sync_errors (snd (clear_error shopify_id d)) =
     filter (\<lambda>row. e_shopify_id row \<noteq> shopify_id) (sync_errors d)"
    by (simp add: clear_error_def)
next
  assume a: "\<not> dry_run eng \<and> is_synced (fst (sync_single_customer eng customer w))"
  obtain r w' where p: "sync_single_customer eng customer w = (r, w')"
    by (cases "sync_single_customer eng customer w")
  from sync_single_customer_post[OF p] a p
  show "sync_errors (db (snd (sync_single_customer eng customer w))) =
            filter (\<lambda>row. e_shopify_id row \<noteq> str_int (c_id customer)) (sync_errors (db w))"
    by (simp add: pass_post_def)
next
  assume a: "\<not> dry_run eng \<and> is_synced (fst (sync_single_product eng product w))"
  obtain r w' where p: "sync_single_product eng product w = (r, w')"
    by (cases "sync_single_product eng product w")
  from sync_single_product_post[OF p] a p
  show "sync_errors (db (snd (sync_single_product eng product w))) =
            filter (\<lambda>row. e_shopify_id row \<noteq> str_int (p_id product)) (sync_errors (db w))"
    by (simp add: pass_post_def)
next
  assume a: "\<not> dry_run eng \<and> is_synced (fst (sync_single_order eng order gl w))"
  obtain r w' where p: "sync_single_order eng order gl w = (r, w')"
    by (cases "sync_single_order eng order gl w")
  from sync_single_order_post[OF p] a p
  show "sync_errors (db (snd (sync_single_order eng order gl w))) =
            filter (\<lambda>row. e_shopify_id row \<noteq> str_int (o_id order)) (sync_errors (db w))"
    by (simp add: pass_post_def)
qed

theorem successful_sync_clears_errors_of_every_type_witness:
  "\<not> dry_run (example_engine False False)
   \<and> fst (sync_single_customer (example_engine False False) customer_a old_errors_world)
       = Inr (''created'', None)
   \<and> sync_errors (db old_errors_world) =
       [\<lparr>e_id = 1, e_entity_type = ''product'', e_shopify_id = ''1'',
         e_error_message = ''no sku'', e_occurred_at = 7, e_retry_count = 0\<rparr>,
        \<lparr>e_id = 2, e_entity_type = ''order'', e_shopify_id = ''1'',
         e_error_message = ''no contact'', e_occurred_at = 8, e_retry_count = 2\<rparr>,
        \<lparr>e_id = 3, e_entity_type = ''customer'', e_shopify_id = ''9'',
         e_error_message = ''timeout'', e_occurred_at = 9, e_retry_count = 1\<rparr>]
   \<and> sync_errors (db (snd (sync_single_customer (example_engine False False) customer_a
                               old_errors_world))) =
       [\<lparr>e_id = 3, e_entity_type = ''customer'', e_shopify_id = ''9'',
         e_error_message = ''timeout'', e_occurred_at = 9, e_retry_count = 1\<rparr>]"
proof -
  let ?E = "example_engine False False"
  have d: "\<not> dry_run ?E" by (simp add: example_engine_def)
  have f: "fst (sync_single_customer ?E customer_a old_errors_world) = Inr (''created'', None)"
    by (simp add: engine_defs example_defs old_errors_world_def customer_a_def)
  then have s: "is_synced (fst (sync_single_customer ?E customer_a old_errors_world))"
    by (simp add: is_synced_def truthy_def)
  have e: "sync_errors (db old_errors_world) =
       [\<lparr>e_id = 1, e_entity_type = ''product'', e_shopify_id = ''1'',
         e_error_message = ''no sku'', e_occurred_at = 7, e_retry_count = 0\<rparr>,
        \<lparr>e_id = 2, e_entity_type = ''order'', e_shopify_id = ''1'',
         e_error_message = ''no contact'', e_occurred_at = 8, e_retry_count = 2\<rparr>,
        \<lparr>e_id = 3, e_entity_type = ''customer'', e_shopify_id = ''9'',
         e_error_message = ''timeout'', e_occurred_at = 9, e_retry_count = 1\<rparr>]"
    by (simp add: old_errors_world_def)
  from successful_sync_clears_errors_of_every_type[of _ _ ?E customer_a old_errors_world] d s
  have "sync_errors (db (snd (sync_single_customer ?E customer_a old_errors_world))) =
            filter (\<lambda>row. e_shopify_id row \<noteq> str_int (c_id customer_a)) (sync_errors (db old_errors_world))"
    by blast
  then show ?thesis using d f e by (simp add: customer_a_def)
qed

section \<open>A new entity that has a match in the destination\<close>

lemma truthy_Some [simp]: "truthy (Some s) = (s \<noteq> [])" "\<not> truthy None"
  by (simp_all add: truthy_def)

lemma get_mapping_save_new:
  assumes "get_mapping (db w) k = None" "m_shopify_id mapping = k"
  shows "get_mapping (db (save_mapping mapping k w)) k = Some mapping"
  using assms
  by (simp add: save_mapping_def clear_error_def upsert_mapping_def get_mapping_def
      split: option.splits)

lemma new_calls_append:
  "extends w w0 \<Longrightarrow> trace w' = trace w0 @ calls \<Longrightarrow> new_calls w w' = new_calls w w0 @ calls"
proof -
  assume e: "extends w w0" and t: "trace w' = trace w0 @ calls"
  from e obtain c0 where c0: "trace w0 = trace w @ c0" "new_calls w w0 = c0" by (rule extendsD)
  from t c0 have "trace w' = trace w @ (c0 @ calls)" by simp
  from extends_append[OF this] c0 show ?thesis by simp
qed

lemma customer_new:
  assumes "get_mapping (db w) (str_int (c_id customer)) = None"
  shows "sync_single_customer eng customer w =
           create_customer_in_xero eng customer (calculate_customer_checksum customer)
             (if enable_email_marketing eng then update_email_marketing eng (c_id customer) w else w)"
  using assms marketing_only_adds_source_calls(1)[of eng "c_id customer" w]
  by (simp add: sync_single_customer_def Let_def)

lemma find_existing_contact_found:
  assumes "c_email customer = Some email" "email \<noteq> []"
    and "find_contact_by_email (xero eng) email (xero_state w) = (Inr found, x1)"
  shows "find_existing_contact eng customer w =
           (Inr found, w\<lparr>xero_state := x1, trace := trace w @ [(FindContactByEmail email, True)]\<rparr>)"
  using assms by (simp add: find_existing_contact_def xero_call_def)


lemma link_existing_contact_run:
  assumes new: "get_mapping (db w) (str_int (c_id customer)) = None"
    and id: "xc_ContactID existing = Some did"
  shows "link_existing_contact eng customer fp existing w =
     (let payload = (shopify_customer_to_xero_contact customer)\<lparr>xc_ContactID := Some did\<rparr>;
          w1 = save_mapping
                 \<lparr>m_shopify_id = str_int (c_id customer), m_xero_id = did,
                  m_entity_type = ''customer'', m_last_synced_at = Some (clock w),
                  m_shopify_updated_at = c_updated_at customer, m_checksum = Some fp\<rparr>
                 (str_int (c_id customer)) w
      in if dry_run eng then (Inr (''updated'', None), w1)
         else (case update_contact (xero eng) payload (xero_state w) of
                 (pushed, x2) \<Rightarrow>
                   (case pushed of
                      Inr c \<Rightarrow> Inr (''updated'', None)
                    | Inl e \<Rightarrow>
                        (case xero_api_error e of
                           Some m \<Rightarrow>
                             Inr (''skipped'',
                                  Some (''Failed to update existing contact for customer ''
                                        @ str_int (c_id customer) @ '': '' @ m))
                         | None \<Rightarrow> Inl e),
                    w1\<lparr>xero_state := x2,
                       trace := trace w @ [(UpdateContact payload, \<not> isl pushed)]\<rparr>)))"
  using id
  by (simp add: link_existing_contact_def new_SyncMapping_def Let_def xero_call_def
      split: prod.splits sum.splits option.splits)


lemma marketing_writes_nothing:
  "destination_writes
     (new_calls w (if enable_email_marketing eng then update_email_marketing eng i w else w)) = []"
  "extends w (if enable_email_marketing eng then update_email_marketing eng i w else w)"
  "clock (if enable_email_marketing eng then update_email_marketing eng i w else w) = clock w"
  using update_email_marketing_post(1)[of w eng i]
  by (simp_all add: marketing_new_calls destination_writes_def lookup_post_def)

lemma customer_link:
  assumes new: "get_mapping (db w) (str_int (c_id customer)) = None"
    and email: "c_email customer = Some email" "email \<noteq> []"
    and find: "find_contact_by_email (xero eng) email (xero_state w) = (Inr (Some existing), x1)"
    and status: "xc_ContactStatus existing \<noteq> ''ARCHIVED''"
  shows "sync_single_customer eng customer w =
           link_existing_contact eng customer (calculate_customer_checksum customer) existing
             ((if enable_email_marketing eng then update_email_marketing eng (c_id customer) w else w)
                \<lparr>xero_state := x1,
                 trace := trace (if enable_email_marketing eng
                                 then update_email_marketing eng (c_id customer) w else w)
                          @ [(FindContactByEmail email, True)]\<rparr>)"
proof -
  let ?w0 = "if enable_email_marketing eng then update_email_marketing eng (c_id customer) w else w"
  have x: "xero_state ?w0 = xero_state w" by (rule marketing_only_adds_source_calls(2))
  from find have "find_contact_by_email (xero eng) email (xero_state ?w0) = (Inr (Some existing), x1)"
    by (simp only: x)
  from find_existing_contact_found[OF email this]
  show ?thesis using status
    by (simp only: customer_new[OF new] create_customer_in_xero_def) simp
qed

lemma customer_archived:
  assumes new: "get_mapping (db w) (str_int (c_id customer)) = None"
    and email: "c_email customer = Some email" "email \<noteq> []"
    and find: "find_contact_by_email (xero eng) email (xero_state w) = (Inr (Some existing), x1)"
    and status: "xc_ContactStatus existing = ''ARCHIVED''"
  shows "sync_single_customer eng customer w =
           create_new_contact eng customer (calculate_customer_checksum customer)
             ((if enable_email_marketing eng then update_email_marketing eng (c_id customer) w else w)
                \<lparr>xero_state := x1,
                 trace := trace (if enable_email_marketing eng
                                 then update_email_marketing eng (c_id customer) w else w)
                          @ [(FindContactByEmail email, True)]\<rparr>)"
proof -
  let ?w0 = "if enable_email_marketing eng then update_email_marketing eng (c_id customer) w else w"
  have x: "xero_state ?w0 = xero_state w" by (rule marketing_only_adds_source_calls(2))
  from find have "find_contact_by_email (xero eng) email (xero_state ?w0) = (Inr (Some existing), x1)"
    by (simp only: x)
  from find_existing_contact_found[OF email this]
  show ?thesis using status
    by (simp only: customer_new[OF new] create_customer_in_xero_def) simp
qed

lemma customer_not_found:
  assumes new: "get_mapping (db w) (str_int (c_id customer)) = None"
    and email: "c_email customer = Some email" "email \<noteq> []"
    and find: "find_contact_by_email (xero eng) email (xero_state w) = (Inr None, x1)"
  shows "sync_single_customer eng customer w =
           create_new_contact eng customer (calculate_customer_checksum customer)
             ((if enable_email_marketing eng then update_email_marketing eng (c_id customer) w else w)
                \<lparr>xero_state := x1,
                 trace := trace (if enable_email_marketing eng
                                 then update_email_marketing eng (c_id customer) w else w)
                          @ [(FindContactByEmail email, True)]\<rparr>)"
proof -
  let ?w0 = "if enable_email_marketing eng then update_email_marketing eng (c_id customer) w else w"
  have x: "xero_state ?w0 = xero_state w" by (rule marketing_only_adds_source_calls(2))
  from find have "find_contact_by_email (xero eng) email (xero_state ?w0) = (Inr None, x1)"
    by (simp only: x)
  from find_existing_contact_found[OF email this]
  show ?thesis
    by (simp only: customer_new[OF new] create_customer_in_xero_def) simp
qed


lemma destination_writes_simps [simp]:
  "destination_writes [] = []"
  "destination_writes (xs @ ys) = destination_writes xs @ destination_writes ys"
  "destination_writes ((ev, ok) # xs) =
     (if is_create ev \<or> is_update ev then (ev, ok) # destination_writes xs
      else destination_writes xs)"
  by (simp_all add: destination_writes_def)

lemma customer_link_outcome:
  assumes new: "get_mapping (db w) (str_int (c_id customer)) = None"
    and email: "c_email customer = Some email" "email \<noteq> []"
    and find: "find_contact_by_email (xero eng) email (xero_state w) = (Inr (Some existing), x1)"
    and status: "xc_ContactStatus existing \<noteq> ''ARCHIVED''"
    and id: "xc_ContactID existing = Some did"
    and payload: "payload = (shopify_customer_to_xero_contact customer)\<lparr>xc_ContactID := Some did\<rparr>"
    and run: "sync_single_customer eng customer w = (r, w')"
  shows "get_mapping (db w') (str_int (c_id customer)) =
           Some \<lparr>m_shopify_id = str_int (c_id customer), m_xero_id = did,
                 m_entity_type = ''customer'', m_last_synced_at = Some (clock w),
                 m_shopify_updated_at = c_updated_at customer,
                 m_checksum = Some (calculate_customer_checksum customer)\<rparr>"
    and "destination_writes (new_calls w w') =
           (if dry_run eng then []
            else [(UpdateContact payload, \<not> isl (fst (update_contact (xero eng) payload x1)))])"
    and "xero_state w' = (if dry_run eng then x1 else snd (update_contact (xero eng) payload x1))"
    and "dry_run eng \<or> \<not> isl (fst (update_contact (xero eng) payload x1))
           \<Longrightarrow> r = Inr (''updated'', None)"
    and "\<not> dry_run eng \<Longrightarrow> isl (fst (update_contact (xero eng) payload x1)) \<Longrightarrow> is_error r"
proof -
  let ?w0 = "if enable_email_marketing eng then update_email_marketing eng (c_id customer) w else w"
  let ?w1 = "?w0\<lparr>xero_state := x1, trace := trace ?w0 @ [(FindContactByEmail email, True)]\<rparr>"
  let ?fp = "calculate_customer_checksum customer"
  let ?m = "\<lparr>m_shopify_id = str_int (c_id customer), m_xero_id = did,
                 m_entity_type = ''customer'', m_last_synced_at = Some (clock w),
                 m_shopify_updated_at = c_updated_at customer,
                 m_checksum = Some ?fp\<rparr>"
  have d: "db ?w1 = db w" using marketing_only_adds_source_calls(1)[of eng "c_id customer" w] by simp
  have c: "clock ?w1 = clock w" using marketing_writes_nothing(3)[of eng "c_id customer" w] by simp
  from new have new1: "get_mapping (db ?w1) (str_int (c_id customer)) = None" by (simp only: d)
  note eq = customer_link[OF new email find status]
  note lk = link_existing_contact_run[OF new1 id, where eng=eng and fp="?fp"]
  have saved: "get_mapping (db (save_mapping ?m (str_int (c_id customer)) ?w1)) (str_int (c_id customer)) = Some ?m"
    by (rule get_mapping_save_new[OF new1]) simp
  from run have run': "link_existing_contact eng customer ?fp existing ?w1 = (r, w')"
    by (simp only: eq)
  obtain pushed x2 where u: "update_contact (xero eng) payload x1 = (pushed, x2)"
    by (cases "update_contact (xero eng) payload x1")
  have w': "w' = (if dry_run eng then save_mapping ?m (str_int (c_id customer)) ?w1
                  else (save_mapping ?m (str_int (c_id customer)) ?w1)
                         \<lparr>xero_state := x2,
                          trace := trace ?w1 @ [(UpdateContact payload, \<not> isl pushed)]\<rparr>)"
    using run' u unfolding lk Let_def c payload by (auto split: if_splits)
  show "get_mapping (db w') (str_int (c_id customer)) = Some ?m"
    using saved by (simp add: w')
  have tr: "trace w' = trace ?w0 @ ((FindContactByEmail email, True) #
               (if dry_run eng then [] else [(UpdateContact payload, \<not> isl pushed)]))"
    by (simp add: w')
  from new_calls_append[OF marketing_writes_nothing(2) tr]
  show "destination_writes (new_calls w w') =
           (if dry_run eng then []
            else [(UpdateContact payload, \<not> isl (fst (update_contact (xero eng) payload x1)))])"
    by (simp add: marketing_writes_nothing(1) u)
  show "xero_state w' = (if dry_run eng then x1 else snd (update_contact (xero eng) payload x1))"
    by (simp add: w' u)
  show "dry_run eng \<or> \<not> isl (fst (update_contact (xero eng) payload x1))
           \<Longrightarrow> r = Inr (''updated'', None)"
    using run' u unfolding lk Let_def c payload by (auto split: if_splits sum.splits)
  show "\<not> dry_run eng \<Longrightarrow> isl (fst (update_contact (xero eng) payload x1)) \<Longrightarrow> is_error r"
    using run' u unfolding lk Let_def c payload
    by (auto simp: is_error_def split: if_splits sum.splits option.splits)
qed


lemma customer_archived_outcome:
  assumes new: "get_mapping (db w) (str_int (c_id customer)) = None"
    and email: "c_email customer = Some email" "email \<noteq> []"
    and find: "find_contact_by_email (xero eng) email (xero_state w) = (Inr (Some existing), x1)"
    and status: "xc_ContactStatus existing = ''ARCHIVED''"
    and run: "sync_single_customer eng customer w = (r, w')"
    and made: "create_contact (xero eng) (shopify_customer_to_xero_contact customer) x1 = (made, x2)"
  shows "destination_writes (new_calls w w') =
           (if dry_run eng then []
            else [(CreateContact (shopify_customer_to_xero_contact customer), \<not> isl made)])"
    and "get_mapping (db w') (str_int (c_id customer)) =
           (if dry_run eng then None
            else case made of
                   Inl e \<Rightarrow> None
                 | Inr created_contact \<Rightarrow>
                     (case xc_ContactID created_contact of
                        None \<Rightarrow> None
                      | Some cid \<Rightarrow>
                          Some \<lparr>m_shopify_id = str_int (c_id customer), m_xero_id = cid,
                                m_entity_type = ''customer'', m_last_synced_at = Some (clock w),
                                m_shopify_updated_at = c_updated_at customer,
                                m_checksum = Some (calculate_customer_checksum customer)\<rparr>))"
    and "r = (if dry_run eng then Inr (''created'', None)
              else case made of
                     Inl e \<Rightarrow>
                       (case xero_api_error e of
                          Some m \<Rightarrow>
                            Inr (''skipped'',
                                 Some (''Failed to create contact for customer ''
                                       @ str_int (c_id customer) @ '': '' @ m))
                        | None \<Rightarrow> Inl e)
                   | Inr created_contact \<Rightarrow>
                       (case xc_ContactID created_contact of
                          None \<Rightarrow> Inl (ValidationError (py_validation_error (interp eng)))
                        | Some cid \<Rightarrow> Inr (''created'', None)))"
proof -
  let ?w0 = "if enable_email_marketing eng then update_email_marketing eng (c_id customer) w else w"
  let ?w1 = "?w0\<lparr>xero_state := x1, trace := trace ?w0 @ [(FindContactByEmail email, True)]\<rparr>"
  let ?fp = "calculate_customer_checksum customer"
  let ?k = "str_int (c_id customer)"
  let ?p = "shopify_customer_to_xero_contact customer"
  let ?w2 = "?w1\<lparr>xero_state := x2, trace := trace ?w1 @ [(CreateContact ?p, \<not> isl made)]\<rparr>"
  have d: "db ?w1 = db w" using marketing_only_adds_source_calls(1)[of eng "c_id customer" w] by simp
  have c: "clock ?w1 = clock w" using marketing_writes_nothing(3)[of eng "c_id customer" w] by simp
  from new have new2: "get_mapping (db ?w2) ?k = None" using d by simp
  have c2: "clock ?w2 = clock w" using c by simp
  from run have run': "create_new_contact eng customer ?fp ?w1 = (r, w')"
    by (simp only: customer_archived[OF new email find status])
  have call: "xero_call (CreateContact ?p) (create_contact (xero eng) ?p) ?w1 = (made, ?w2)"
    using made by (simp add: xero_call_def)
  have shape: "\<exists>calls. trace w' = trace ?w0 @ (FindContactByEmail email, True) # calls
                 \<and> calls = (if dry_run eng then [] else [(CreateContact ?p, \<not> isl made)])"
    using run' unfolding create_new_contact_def Let_def call
    by (auto simp: new_SyncMapping_def split: if_splits sum.splits option.splits)
  then have tr: "trace w' = trace ?w0 @ ((FindContactByEmail email, True) #
                   (if dry_run eng then [] else [(CreateContact ?p, \<not> isl made)]))"
    by blast
  from new_calls_append[OF marketing_writes_nothing(2) tr]
  show "destination_writes (new_calls w w') =
           (if dry_run eng then [] else [(CreateContact ?p, \<not> isl made)])"
    by (simp add: marketing_writes_nothing(1))
  show "get_mapping (db w') ?k =
           (if dry_run eng then None
            else case made of
                   Inl e \<Rightarrow> None
                 | Inr created_contact \<Rightarrow>
                     (case xc_ContactID created_contact of
                        None \<Rightarrow> None
                      | Some cid \<Rightarrow>
                          Some \<lparr>m_shopify_id = ?k, m_xero_id = cid,
                                m_entity_type = ''customer'', m_last_synced_at = Some (clock w),
                                m_shopify_updated_at = c_updated_at customer,
                                m_checksum = Some ?fp\<rparr>))"
    using run' new2 c2 d new unfolding create_new_contact_def Let_def call
    by (auto simp: new_SyncMapping_def get_mapping_save_new
        split: if_splits sum.splits option.splits)
  show "r = (if dry_run eng then Inr (''created'', None)
              else case made of
                     Inl e \<Rightarrow>
                       (case xero_api_error e of
                          Some m \<Rightarrow>
                            Inr (''skipped'',
                                 Some (''Failed to create contact for customer ''
                                       @ ?k @ '': '' @ m))
                        | None \<Rightarrow> Inl e)
                   | Inr created_contact \<Rightarrow>
                       (case xc_ContactID created_contact of
                          None \<Rightarrow> Inl (ValidationError (py_validation_error (interp eng)))
                        | Some cid \<Rightarrow> Inr (''created'', None)))"
    using run' unfolding create_new_contact_def Let_def call
    by (auto simp: new_SyncMapping_def split: if_splits sum.splits option.splits)
qed


lemma product_link_outcome:
  assumes new: "get_mapping (db w) (str_int (p_id product)) = None"
    and conv: "shopify_product_to_xero_item (interp eng) product = Inr (Some item)"
    and find: "find_item_by_code (xero eng) (xi_Code item) (xero_state w) = (Inr (Some existing), x1)"
    and id: "xi_ItemID existing = Some did"
    and payload: "payload = item\<lparr>xi_ItemID := Some did\<rparr>"
    and run: "sync_single_product eng product w = (r, w')"
  shows "get_mapping (db w') (str_int (p_id product)) =
           Some \<lparr>m_shopify_id = str_int (p_id product), m_xero_id = did,
                 m_entity_type = ''product'', m_last_synced_at = Some (clock w),
                 m_shopify_updated_at = p_updated_at product,
                 m_checksum = Some (calculate_product_checksum product)\<rparr>"
    and "new_calls w w' =
           (FindItemByCode (xi_Code item), True) #
           (if dry_run eng then []
            else [(UpdateItem payload, \<not> isl (fst (update_item (xero eng) payload x1)))])"
    and "xero_state w' = (if dry_run eng then x1 else snd (update_item (xero eng) payload x1))"
    and "dry_run eng \<or> \<not> isl (fst (update_item (xero eng) payload x1))
           \<Longrightarrow> r = Inr (''updated'', None)"
    and "\<not> dry_run eng \<Longrightarrow> isl (fst (update_item (xero eng) payload x1)) \<Longrightarrow> is_error r"
proof -
  let ?w1 = "w\<lparr>xero_state := x1, trace := trace w @ [(FindItemByCode (xi_Code item), True)]\<rparr>"
  let ?fp = "calculate_product_checksum product"
  let ?k = "str_int (p_id product)"
  let ?m = "\<lparr>m_shopify_id = ?k, m_xero_id = did,
                 m_entity_type = ''product'', m_last_synced_at = Some (clock w),
                 m_shopify_updated_at = p_updated_at product,
                 m_checksum = Some ?fp\<rparr>"
  from new have new1: "get_mapping (db ?w1) ?k = None" by simp
  have saved: "get_mapping (db (save_mapping ?m ?k ?w1)) ?k = Some ?m"
    by (rule get_mapping_save_new[OF new1]) simp
  obtain pushed x2 where u: "update_item (xero eng) payload x1 = (pushed, x2)"
    by (cases "update_item (xero eng) payload x1")
  have f: "find_existing_item eng item w = (Inr (Some existing), ?w1)"
    using find by (simp add: find_existing_item_def xero_call_def)
  from run new conv have run': "link_existing_item eng product item ?fp existing ?w1 = (r, w')"
    by (simp add: sync_single_product_def create_product_in_xero_def f)
  have w': "w' = (if dry_run eng then save_mapping ?m ?k ?w1
                  else (save_mapping ?m ?k ?w1)
                         \<lparr>xero_state := x2,
                          trace := trace ?w1 @ [(UpdateItem payload, \<not> isl pushed)]\<rparr>)"
    using run' u id unfolding link_existing_item_def Let_def payload
    by (auto simp: new_SyncMapping_def xero_call_def split: if_splits sum.splits option.splits)
  show "get_mapping (db w') ?k = Some ?m"
    using saved by (simp add: w')
  have tr: "trace w' = trace w @ ((FindItemByCode (xi_Code item), True) #
               (if dry_run eng then [] else [(UpdateItem payload, \<not> isl pushed)]))"
    by (simp add: w')
  from extends_append[OF tr]
  show "new_calls w w' =
           (FindItemByCode (xi_Code item), True) #
           (if dry_run eng then []
            else [(UpdateItem payload, \<not> isl (fst (update_item (xero eng) payload x1)))])"
    by (simp add: u)
  show "xero_state w' = (if dry_run eng then x1 else snd (update_item (xero eng) payload x1))"
    by (simp add: w' u)
  show "dry_run eng \<or> \<not> isl (fst (update_item (xero eng) payload x1))
           \<Longrightarrow> r = Inr (''updated'', None)"
    using run' u id unfolding link_existing_item_def Let_def payload
    by (auto simp: new_SyncMapping_def xero_call_def split: if_splits sum.splits option.splits)
  show "\<not> dry_run eng \<Longrightarrow> isl (fst (update_item (xero eng) payload x1)) \<Longrightarrow> is_error r"
    using run' u id unfolding link_existing_item_def Let_def payload
    by (auto simp: new_SyncMapping_def xero_call_def is_error_def
        split: if_splits sum.splits option.splits)
qed

lemma order_link_outcome:
  assumes new: "get_mapping (db w) (str_int (o_id order)) = None"
    and find: "find_invoice_by_reference (xero eng)
                 (INVOICE_REFERENCE_PREFIX @ str_int (o_order_number order)) (xero_state w)
               = (Inr (Some existing), x1)"
    and id: "xv_InvoiceID existing = Some did"
  shows "sync_single_order eng order gl w =
           (Inr (''skipped'', None),
            save_mapping
              \<lparr>m_shopify_id = str_int (o_id order), m_xero_id = did,
               m_entity_type = ''order'', m_last_synced_at = Some (clock w),
               m_shopify_updated_at = o_updated_at order,
               m_checksum = Some (calculate_order_checksum order)\<rparr>
              (str_int (o_id order))
              (w\<lparr>xero_state := x1,
                 trace := trace w @
                   [(FindInvoiceByReference
                       (INVOICE_REFERENCE_PREFIX @ str_int (o_order_number order)), True)]\<rparr>))"
  using assms
  by (simp add: sync_single_order_def create_order_in_xero_def find_existing_invoice_def
      link_existing_invoice_def new_SyncMapping_def xero_call_def Let_def)

lemma ex_product_converts:
  "\<exists>item. shopify_product_to_xero_item (interp (example_engine m d)) product_p = Inr (Some item)
          \<and> xi_Code item = ''LAV-1''"
  by (simp add: product_p_def shopify_product_to_xero_item_def primary_variant_def
      example_float_valid_def example_interpreter_def example_engine_def Let_def)

text \<open>
  C3, as amended.  Outside dry-run mode, a customer or a product that has no mapping and
  whose search (by email, by SKU) returns a match carrying an id (for a contact: one
  whose status is not \<open>ARCHIVED\<close>) is linked: the mapping row written points at the
  id of the match and holds the fingerprint of the entity; the pass makes exactly one
  write to the destination, the update of the matched record with the data of the
  source under the id of the match, and no creation; it reports \<open>updated\<close> when that
  call succeeds and an error when it fails (the mapping stays written).  An order that
  has no mapping and whose search by reference returns an invoice carrying an id is
  linked too, but nothing is pushed: the mapping row is written, the search is the only
  call made, and the pass reports \<open>skipped\<close>.
\<close>

theorem new_entity_with_active_match_is_linked:
  "(\<not> dry_run eng
      \<and> get_mapping (db w) (str_int (c_id customer)) = None
      \<and> c_email customer = Some email \<and> email \<noteq> []
      \<and> find_contact_by_email (xero eng) email (xero_state w) = (Inr (Some contact), x1)
      \<and> xc_ContactStatus contact \<noteq> ''ARCHIVED'' \<and> xc_ContactID contact = Some cid
    \<longrightarrow> (let payload = (shopify_customer_to_xero_contact customer)\<lparr>xc_ContactID := Some cid\<rparr>;
             pushed = \<not> isl (fst (update_contact (xero eng) payload x1));
             r = fst (sync_single_customer eng customer w);
             w' = snd (sync_single_customer eng customer w)
         in get_mapping (db w') (str_int (c_id customer)) =
              Some \<lparr>m_shopify_id = str_int (c_id customer), m_xero_id = cid,
                    m_entity_type = ''customer'', m_last_synced_at = Some (clock w),
                    m_shopify_updated_at = c_updated_at customer,
                    m_checksum = Some (calculate_customer_checksum customer)\<rparr>
            \<and> destination_writes (new_calls w w') = [(UpdateContact payload, pushed)]
            \<and> (if pushed then r = Inr (''updated'', None) else is_error r)))
   \<and> (\<not> dry_run eng
      \<and> get_mapping (db w) (str_int (p_id product)) = None
      \<and> shopify_product_to_xero_item (interp eng) product = Inr (Some item)
      \<and> find_item_by_code (xero eng) (xi_Code item) (xero_state w) = (Inr (Some existing), x2)
      \<and> xi_ItemID existing = Some pid
    \<longrightarrow> (let payload = item\<lparr>xi_ItemID := Some pid\<rparr>;
             pushed = \<not> isl (fst (update_item (xero eng) payload x2));
             r = fst (sync_single_product eng product w);
             w' = snd (sync_single_product eng product w)
         in get_mapping (db w') (str_int (p_id product)) =
              Some \<lparr>m_shopify_id = str_int (p_id product), m_xero_id = pid,
                    m_entity_type = ''product'', m_last_synced_at = Some (clock w),
                    m_shopify_updated_at = p_updated_at product,
                    m_checksum = Some (calculate_product_checksum product)\<rparr>
            \<and> new_calls w w' = [(FindItemByCode (xi_Code item), True), (UpdateItem payload, pushed)]
            \<and> (if pushed then r = Inr (''updated'', None) else is_error r)))
   \<and> (get_mapping (db w) (str_int (o_id order)) = None
      \<and> find_invoice_by_reference (xero eng)
            (INVOICE_REFERENCE_PREFIX @ str_int (o_order_number order)) (xero_state w)
          = (Inr (Some invoice), x3)
      \<and> xv_InvoiceID invoice = Some iid
    \<longrightarrow> (let r = fst (sync_single_order eng order gl w);
             w' = snd (sync_single_order eng order gl w)
         in get_mapping (db w') (str_int (o_id order)) =
              Some \<lparr>m_shopify_id = str_int (o_id order), m_xero_id = iid,
                    m_entity_type = ''order'', m_last_synced_at = Some (clock w),
                    m_shopify_updated_at = o_updated_at order,
                    m_checksum = Some (calculate_order_checksum order)\<rparr>
            \<and> new_calls w w' =
                [(FindInvoiceByReference
                    (INVOICE_REFERENCE_PREFIX @ str_int (o_order_number order)), True)]
            \<and> xero_state w' = x3
            \<and> r = Inr (''skipped'', None)))"
proof (intro conjI impI)
  assume a: "\<not> dry_run eng
      \<and> get_mapping (db w) (str_int (c_id customer)) = None
      \<and> c_email customer = Some email \<and> email \<noteq> []
      \<and> find_contact_by_email (xero eng) email (xero_state w) = (Inr (Some contact), x1)
      \<and> xc_ContactStatus contact \<noteq> ''ARCHIVED'' \<and> xc_ContactID contact = Some cid"
  obtain r w' where run: "sync_single_customer eng customer w = (r, w')"
    by (cases "sync_single_customer eng customer w")
  from a have h: "get_mapping (db w) (str_int (c_id customer)) = None"
    "c_email customer = Some email" "email \<noteq> []"
    "find_contact_by_email (xero eng) email (xero_state w) = (Inr (Some contact), x1)"
    "xc_ContactStatus contact \<noteq> ''ARCHIVED''" "xc_ContactID contact = Some cid"
    and d: "\<not> dry_run eng"
    by simp_all
  note o = customer_link_outcome[OF h refl run]
  show "let payload = (shopify_customer_to_xero_contact customer)\<lparr>xc_ContactID := Some cid\<rparr>;
             pushed = \<not> isl (fst (update_contact (xero eng) payload x1));
             r = fst (sync_single_customer eng customer w);
             w' = snd (sync_single_customer eng customer w)
         in get_mapping (db w') (str_int (c_id customer)) =
              Some \<lparr>m_shopify_id = str_int (c_id customer), m_xero_id = cid,
                    m_entity_type = ''customer'', m_last_synced_at = Some (clock w),
                    m_shopify_updated_at = c_updated_at customer,
                    m_checksum = Some (calculate_customer_checksum customer)\<rparr>
            \<and> destination_writes (new_calls w w') = [(UpdateContact payload, pushed)]
            \<and> (if pushed then r = Inr (''updated'', None) else is_error r)"
    unfolding Let_def run fst_conv snd_conv using o d by simp
next
  assume a: "\<not> dry_run eng
      \<and> get_mapping (db w) (str_int (p_id product)) = None
      \<and> shopify_product_to_xero_item (interp eng) product = Inr (Some item)
      \<and> find_item_by_code (xero eng) (xi_Code item) (xero_state w) = (Inr (Some existing), x2)
      \<and> xi_ItemID existing = Some pid"
  obtain r w' where run: "sync_single_product eng product w = (r, w')"
    by (cases "sync_single_product eng product w")
  from a have h: "get_mapping (db w) (str_int (p_id product)) = None"
    "shopify_product_to_xero_item (interp eng) product = Inr (Some item)"
    "find_item_by_code (xero eng) (xi_Code item) (xero_state w) = (Inr (Some existing), x2)"
    "xi_ItemID existing = Some pid"
    and d: "\<not> dry_run eng"
    by simp_all
  note o = product_link_outcome[OF h refl run]
  show "let payload = item\<lparr>xi_ItemID := Some pid\<rparr>;
             pushed = \<not> isl (fst (update_item (xero eng) payload x2));
             r = fst (sync_single_product eng product w);
             w' = snd (sync_single_product eng product w)
         in get_mapping (db w') (str_int (p_id product)) =
              Some \<lparr>m_shopify_id = str_int (p_id product), m_xero_id = pid,
                    m_entity_type = ''product'', m_last_synced_at = Some (clock w),
                    m_shopify_updated_at = p_updated_at product,
                    m_checksum = Some (calculate_product_checksum product)\<rparr>
            \<and> new_calls w w' = [(FindItemByCode (xi_Code item), True), (UpdateItem payload, pushed)]
            \<and> (if pushed then r = Inr (''updated'', None) else is_error r)"
    unfolding Let_def run fst_conv snd_conv using o d by simp
next
  assume a: "get_mapping (db w) (str_int (o_id order)) = None
      \<and> find_invoice_by_reference (xero eng)
            (INVOICE_REFERENCE_PREFIX @ str_int (o_order_number order)) (xero_state w)
          = (Inr (Some invoice), x3)
      \<and> xv_InvoiceID invoice = Some iid"
  then have h: "get_mapping (db w) (str_int (o_id order)) = None"
    "find_invoice_by_reference (xero eng)
            (INVOICE_REFERENCE_PREFIX @ str_int (o_order_number order)) (xero_state w)
          = (Inr (Some invoice), x3)"
    "xv_InvoiceID invoice = Some iid"
    by simp_all
  let ?w1 = "w\<lparr>xero_state := x3,
                 trace := trace w @
                   [(FindInvoiceByReference
                       (INVOICE_REFERENCE_PREFIX @ str_int (o_order_number order)), True)]\<rparr>"
  from h(1) have n: "get_mapping (db ?w1) (str_int (o_id order)) = None" by simp
  show "let r = fst (sync_single_order eng order gl w);
             w' = snd (sync_single_order eng order gl w)
         in get_mapping (db w') (str_int (o_id order)) =
              Some \<lparr>m_shopify_id = str_int (o_id order), m_xero_id = iid,
                    m_entity_type = ''order'', m_last_synced_at = Some (clock w),
                    m_shopify_updated_at = o_updated_at order,
                    m_checksum = Some (calculate_order_checksum order)\<rparr>
            \<and> new_calls w w' =
                [(FindInvoiceByReference
                    (INVOICE_REFERENCE_PREFIX @ str_int (o_order_number order)), True)]
            \<and> xero_state w' = x3
            \<and> r = Inr (''skipped'', None)"
    unfolding Let_def order_link_outcome[OF h] fst_conv snd_conv
    using get_mapping_save_new[OF n, of "\<lparr>m_shopify_id = str_int (o_id order), m_xero_id = iid,
                    m_entity_type = ''order'', m_last_synced_at = Some (clock w),
                    m_shopify_updated_at = o_updated_at order,
                    m_checksum = Some (calculate_order_checksum order)\<rparr>"]
    by (simp add: new_calls_def)
qed

theorem new_entity_with_active_match_is_linked_witness:
  "\<not> dry_run (example_engine False False)
   \<and> get_mapping (db (example_world all_found nothing_to_fetch)) (str_int (c_id customer_a)) = None
   \<and> find_contact_by_email (xero (example_engine False False)) ''a@x.com''
        (xero_state (example_world all_found nothing_to_fetch)) = (Inr (Some contact_d1), all_found)
   \<and> xc_ContactStatus contact_d1 = ''ACTIVE''
   \<and> get_mapping (db (snd (sync_single_customer (example_engine False False) customer_a
                             (example_world all_found nothing_to_fetch)))) ''1'' =
       Some \<lparr>m_shopify_id = ''1'', m_xero_id = ''d1'', m_entity_type = ''customer'',
             m_last_synced_at = Some 1000, m_shopify_updated_at = Some 900,
             m_checksum = Some (calculate_customer_checksum customer_a)\<rparr>
   \<and> destination_writes
        (new_calls (example_world all_found nothing_to_fetch)
           (snd (sync_single_customer (example_engine False False) customer_a
                   (example_world all_found nothing_to_fetch)))) =
       [(UpdateContact ((shopify_customer_to_xero_contact customer_a)\<lparr>xc_ContactID := Some ''d1''\<rparr>),
         True)]
   \<and> fst (sync_single_customer (example_engine False False) customer_a
            (example_world all_found nothing_to_fetch)) = Inr (''updated'', None)
   \<and> get_mapping (db (example_world all_found nothing_to_fetch)) (str_int (p_id product_p)) = None
   \<and> get_mapping (db (snd (sync_single_product (example_engine False False) product_p
                             (example_world all_found nothing_to_fetch)))) ''2'' =
       Some \<lparr>m_shopify_id = ''2'', m_xero_id = ''p2'', m_entity_type = ''product'',
             m_last_synced_at = Some 1000, m_shopify_updated_at = Some 900,
             m_checksum = Some (calculate_product_checksum product_p)\<rparr>
   \<and> fst (sync_single_product (example_engine False False) product_p
            (example_world all_found nothing_to_fetch)) = Inr (''updated'', None)
   \<and> get_mapping (db (example_world all_found nothing_to_fetch)) (str_int (o_id order_o)) = None
   \<and> get_mapping (db (snd (sync_single_order (example_engine False False) order_o Map.empty
                             (example_world all_found nothing_to_fetch)))) ''3'' =
       Some \<lparr>m_shopify_id = ''3'', m_xero_id = ''i1'', m_entity_type = ''order'',
             m_last_synced_at = Some 1000, m_shopify_updated_at = Some 900,
             m_checksum = Some (calculate_order_checksum order_o)\<rparr>
   \<and> fst (sync_single_order (example_engine False False) order_o Map.empty
            (example_world all_found nothing_to_fetch)) = Inr (''skipped'', None)"
proof -
  let ?E = "example_engine False False"
  let ?W = "example_world all_found nothing_to_fetch"
  have d: "\<not> dry_run ?E" by (simp add: example_engine_def)
  have c1: "get_mapping (db ?W) (str_int (c_id customer_a)) = None"
    and p1: "get_mapping (db ?W) (str_int (p_id product_p)) = None"
    and o1: "get_mapping (db ?W) (str_int (o_id order_o)) = None"
    by (simp_all add: example_defs get_mapping_def)
  have c2: "c_email customer_a = Some ''a@x.com''" "''a@x.com'' \<noteq> []"
    by (simp_all add: customer_a_def)
  have c3: "find_contact_by_email (xero ?E) ''a@x.com'' (xero_state ?W) = (Inr (Some contact_d1), all_found)"
    by (simp add: example_defs all_found_def)
  have c4: "xc_ContactStatus contact_d1 = ''ACTIVE''" "xc_ContactStatus contact_d1 \<noteq> ''ARCHIVED''"
    "xc_ContactID contact_d1 = Some ''d1''"
    by (simp_all add: contact_d1_def)
  obtain item where p2: "shopify_product_to_xero_item (interp ?E) product_p = Inr (Some item)"
    and code: "xi_Code item = ''LAV-1''"
    using ex_product_converts by blast
  have p3: "find_item_by_code (xero ?E) (xi_Code item) (xero_state ?W) =
              (Inr (Some (item_p1\<lparr>xi_ItemID := Some ''p2'', xi_Name := ''Lavender Melt'',
                                   xi_IsSold := True, xi_IsPurchased := True\<rparr>)), all_found)"
    by (simp add: example_defs all_found_def)
  have p4: "xi_ItemID (item_p1\<lparr>xi_ItemID := Some ''p2'', xi_Name := ''Lavender Melt'',
                                   xi_IsSold := True, xi_IsPurchased := True\<rparr>) = Some ''p2''"
    by simp
  have o2: "find_invoice_by_reference (xero ?E)
              (INVOICE_REFERENCE_PREFIX @ str_int (o_order_number order_o)) (xero_state ?W)
            = (Inr (Some invoice_i1), all_found)"
    by (simp add: example_defs all_found_def)
  have o3: "xv_InvoiceID invoice_i1 = Some ''i1''" by (simp add: invoice_i1_def)
  have ok: "\<And>payload. \<not> isl (fst (update_contact (xero ?E) payload all_found))"
    "\<And>payload. \<not> isl (fst (update_item (xero ?E) payload all_found))"
    by (simp_all add: example_defs all_found_def)
  have vals: "clock ?W = 1000" "str_int (c_id customer_a) = ''1''" "c_updated_at customer_a = Some 900"
    "str_int (p_id product_p) = ''2''" "p_updated_at product_p = Some 900"
    "str_int (o_id order_o) = ''3''" "o_updated_at order_o = Some 900"
    by (simp_all add: example_world_def customer_a_def product_p_def order_o_def)
  note t = new_entity_with_active_match_is_linked[where eng="?E" and w="?W"
      and customer=customer_a and email="''a@x.com''" and contact=contact_d1 and ?x1.0=all_found
      and cid="''d1''" and product=product_p and item=item
      and existing="item_p1\<lparr>xi_ItemID := Some ''p2'', xi_Name := ''Lavender Melt'',
                                   xi_IsSold := True, xi_IsPurchased := True\<rparr>"
      and ?x2.0=all_found and pid="''p2''" and order=order_o and invoice=invoice_i1
      and ?x3.0=all_found and iid="''i1''" and gl=Map.empty]
  from t d c1 c2 c3 c4
  have a: "get_mapping (db (snd (sync_single_customer ?E customer_a ?W))) ''1'' =
       Some \<lparr>m_shopify_id = ''1'', m_xero_id = ''d1'', m_entity_type = ''customer'',
             m_last_synced_at = Some 1000, m_shopify_updated_at = Some 900,
             m_checksum = Some (calculate_customer_checksum customer_a)\<rparr>
     \<and> destination_writes (new_calls ?W (snd (sync_single_customer ?E customer_a ?W))) =
       [(UpdateContact ((shopify_customer_to_xero_contact customer_a)\<lparr>xc_ContactID := Some ''d1''\<rparr>),
         True)]
     \<and> fst (sync_single_customer ?E customer_a ?W) = Inr (''updated'', None)"
    by (simp add: Let_def ok vals)
  from t d p1 p2 p3 p4
  have b: "get_mapping (db (snd (sync_single_product ?E product_p ?W))) ''2'' =
       Some \<lparr>m_shopify_id = ''2'', m_xero_id = ''p2'', m_entity_type = ''product'',
             m_last_synced_at = Some 1000, m_shopify_updated_at = Some 900,
             m_checksum = Some (calculate_product_checksum product_p)\<rparr>
     \<and> fst (sync_single_product ?E product_p ?W) = Inr (''updated'', None)"
    by (simp add: Let_def ok vals)
  from t o1 o2 o3
  have c: "get_mapping (db (snd (sync_single_order ?E order_o Map.empty ?W))) ''3'' =
       Some \<lparr>m_shopify_id = ''3'', m_xero_id = ''i1'', m_entity_type = ''order'',
             m_last_synced_at = Some 1000, m_shopify_updated_at = Some 900,
             m_checksum = Some (calculate_order_checksum order_o)\<rparr>
     \<and> fst (sync_single_order ?E order_o Map.empty ?W) = Inr (''skipped'', None)"
    by (simp add: Let_def vals)
  from d c1 c3 c4(1) a p1 b o1 c show ?thesis by blast
qed

text \<open>
  The claim C3 as it was stated fails for orders: an order with no mapping whose invoice
  is found in the destination is linked, but the pass reports \<open>skipped\<close>, not
  \<open>updated\<close>, and makes no update call.
\<close>

theorem matched_order_is_skipped_without_update:
  "get_mapping (db (example_world all_found nothing_to_fetch)) (str_int (o_id order_o)) = None
   \<and> find_invoice_by_reference (xero (example_engine False False))
        (INVOICE_REFERENCE_PREFIX @ str_int (o_order_number order_o))
        (xero_state (example_world all_found nothing_to_fetch)) = (Inr (Some invoice_i1), all_found)
   \<and> xv_Status invoice_i1 = ''AUTHORISED''
   \<and> fst (sync_single_order (example_engine False False) order_o Map.empty
            (example_world all_found nothing_to_fetch)) = Inr (''skipped'', None)
   \<and> new_calls (example_world all_found nothing_to_fetch)
        (snd (sync_single_order (example_engine False False) order_o Map.empty
                (example_world all_found nothing_to_fetch))) =
       [(FindInvoiceByReference ''SHOP-1001'', True)]
   \<and> get_mapping (db (snd (sync_single_order (example_engine False False) order_o Map.empty
                             (example_world all_found nothing_to_fetch)))) ''3'' =
       Some \<lparr>m_shopify_id = ''3'', m_xero_id = ''i1'', m_entity_type = ''order'',
             m_last_synced_at = Some 1000, m_shopify_updated_at = Some 900,
             m_checksum = Some (calculate_order_checksum order_o)\<rparr>"
  by (simp add: engine_defs example_defs all_found_def order_o_def invoice_i1_def
      INVOICE_REFERENCE_PREFIX_def new_calls_def)

section \<open>A new entity whose match is archived\<close>

lemma create_new_contact_without_match:
  "create_new_contact (without_contact_match eng) customer fp w = create_new_contact eng customer fp w"
  by (simp add: create_new_contact_def without_contact_match_def Let_def
      split: prod.splits sum.splits)

lemma marketing_without_match:
  "(if enable_email_marketing (without_contact_match eng)
    then update_email_marketing (without_contact_match eng) i w else w) =
   (if enable_email_marketing eng then update_email_marketing eng i w else w)"
  by (simp add: update_email_marketing_def without_contact_match_def)

lemma archived_as_not_found:
  assumes new: "get_mapping (db w) (str_int (c_id customer)) = None"
    and email: "c_email customer = Some email" "email \<noteq> []"
    and find: "find_contact_by_email (xero eng) email (xero_state w) = (Inr (Some existing), x1)"
    and status: "xc_ContactStatus existing = ''ARCHIVED''"
  shows "sync_single_customer eng customer w =
           sync_single_customer (without_contact_match eng) customer w"
proof -
  from find have "find_contact_by_email (xero (without_contact_match eng)) email (xero_state w)
                    = (Inr None, x1)"
    by (simp add: without_contact_match_def)
  from customer_not_found[OF new email this] customer_archived[OF new email find status]
  show ?thesis
    by (simp only: create_new_contact_without_match marketing_without_match)
qed

text \<open>
  C6, as amended.  A customer that has no mapping and whose search by email returns a
  contact with status \<open>ARCHIVED\<close> is handled exactly as if the search had found
  nothing: outside dry-run mode the pass makes one write to the destination, the
  creation of a new contact from the data of the source; the mapping written, if any,
  points at the id of the contact created, and the pass reports \<open>created\<close> when the
  creation succeeds and an error when it fails, leaving no mapping; in dry-run mode it
  reports \<open>created\<close> and makes no write.  For products no status is examined (an
  item has none): outside dry-run mode a product with no mapping is linked to whatever
  item the search by SKU returns, with one update of that item and no creation.
\<close>

theorem archived_contact_is_treated_as_not_found:
  "(get_mapping (db w) (str_int (c_id customer)) = None
      \<and> c_email customer = Some email \<and> email \<noteq> []
      \<and> find_contact_by_email (xero eng) email (xero_state w) = (Inr (Some contact), x1)
      \<and> xc_ContactStatus contact = ''ARCHIVED''
    \<longrightarrow> (let payload = shopify_customer_to_xero_contact customer;
             made = fst (create_contact (xero eng) payload x1);
             r = fst (sync_single_customer eng customer w);
             w' = snd (sync_single_customer eng customer w)
         in sync_single_customer eng customer w =
              sync_single_customer (without_contact_match eng) customer w
            \<and> destination_writes (new_calls w w') =
                (if dry_run eng then [] else [(CreateContact payload, \<not> isl made)])
            \<and> get_mapping (db w') (str_int (c_id customer)) =
                (if dry_run eng then None
                 else case made of
                        Inl e \<Rightarrow> None
                      | Inr created_contact \<Rightarrow>
                          (case xc_ContactID created_contact of
                             None \<Rightarrow> None
                           | Some new_id \<Rightarrow>
                               Some \<lparr>m_shopify_id = str_int (c_id customer), m_xero_id = new_id,
                                     m_entity_type = ''customer'',
                                     m_last_synced_at = Some (clock w),
                                     m_shopify_updated_at = c_updated_at customer,
                                     m_checksum = Some (calculate_customer_checksum customer)\<rparr>))
            \<and> (if dry_run eng then r = Inr (''created'', None)
                else case made of
                       Inl e \<Rightarrow> is_error r
                     | Inr created_contact \<Rightarrow>
                         (case xc_ContactID created_contact of
                            None \<Rightarrow> isl r
                          | Some new_id \<Rightarrow> r = Inr (''created'', None)))))
   \<and> (\<not> dry_run eng
      \<and> get_mapping (db w) (str_int (p_id product)) = None
      \<and> shopify_product_to_xero_item (interp eng) product = Inr (Some item)
      \<and> find_item_by_code (xero eng) (xi_Code item) (xero_state w) = (Inr (Some existing), x2)
      \<and> xi_ItemID existing = Some pid
    \<longrightarrow> (let w' = snd (sync_single_product eng product w)
         in (\<exists>m. get_mapping (db w') (str_int (p_id product)) = Some m \<and> m_xero_id m = pid)
            \<and> filter (\<lambda>c. is_create (fst c)) (new_calls w w') = []
            \<and> map fst (filter (\<lambda>c. is_update (fst c)) (new_calls w w')) =
                [UpdateItem (item\<lparr>xi_ItemID := Some pid\<rparr>)]))"
proof (intro conjI impI)
  assume a: "get_mapping (db w) (str_int (c_id customer)) = None
      \<and> c_email customer = Some email \<and> email \<noteq> []
      \<and> find_contact_by_email (xero eng) email (xero_state w) = (Inr (Some contact), x1)
      \<and> xc_ContactStatus contact = ''ARCHIVED''"
  then have h: "get_mapping (db w) (str_int (c_id customer)) = None"
    "c_email customer = Some email" "email \<noteq> []"
    "find_contact_by_email (xero eng) email (xero_state w) = (Inr (Some contact), x1)"
    "xc_ContactStatus contact = ''ARCHIVED''"
    by simp_all
  obtain r w' where run: "sync_single_customer eng customer w = (r, w')"
    by (cases "sync_single_customer eng customer w")
  obtain made x2 where made: "create_contact (xero eng) (shopify_customer_to_xero_contact customer) x1 = (made, x2)"
    by (cases "create_contact (xero eng) (shopify_customer_to_xero_contact customer) x1")
  note o = customer_archived_outcome[OF h run made]
  have e: "is_error r" if "\<not> dry_run eng" "made = Inl e" for e
    using o(3) that by (cases "xero_api_error e") (simp_all add: is_error_def)
  have same: "sync_single_customer (without_contact_match eng) customer w = (r, w')"
    using archived_as_not_found[OF h] run by simp
  show "let payload = shopify_customer_to_xero_contact customer;
             made = fst (create_contact (xero eng) payload x1);
             r = fst (sync_single_customer eng customer w);
             w' = snd (sync_single_customer eng customer w)
         in sync_single_customer eng customer w =
              sync_single_customer (without_contact_match eng) customer w
            \<and> destination_writes (new_calls w w') =
                (if dry_run eng then [] else [(CreateContact payload, \<not> isl made)])
            \<and> get_mapping (db w') (str_int (c_id customer)) =
                (if dry_run eng then None
                 else case made of
                        Inl e \<Rightarrow> None
                      | Inr created_contact \<Rightarrow>
                          (case xc_ContactID created_contact of
                             None \<Rightarrow> None
                           | Some new_id \<Rightarrow>
                               Some \<lparr>m_shopify_id = str_int (c_id customer), m_xero_id = new_id,
                                     m_entity_type = ''customer'',
                                     m_last_synced_at = Some (clock w),
                                     m_shopify_updated_at = c_updated_at customer,
                                     m_checksum = Some (calculate_customer_checksum customer)\<rparr>))
            \<and> (if dry_run eng then r = Inr (''created'', None)
                else case made of
                       Inl e \<Rightarrow> is_error r
                     | Inr created_contact \<Rightarrow>
                         (case xc_ContactID created_contact of
                            None \<Rightarrow> isl r
                          | Some new_id \<Rightarrow> r = Inr (''created'', None)))"
    unfolding Let_def same run made fst_conv snd_conv
    using o e by (auto split: sum.splits option.splits)
next
  assume a: "\<not> dry_run eng
      \<and> get_mapping (db w) (str_int (p_id product)) = None
      \<and> shopify_product_to_xero_item (interp eng) product = Inr (Some item)
      \<and> find_item_by_code (xero eng) (xi_Code item) (xero_state w) = (Inr (Some existing), x2)
      \<and> xi_ItemID existing = Some pid"
  obtain r w' where run: "sync_single_product eng product w = (r, w')"
    by (cases "sync_single_product eng product w")
  from a have h: "get_mapping (db w) (str_int (p_id product)) = None"
    "shopify_product_to_xero_item (interp eng) product = Inr (Some item)"
    "find_item_by_code (xero eng) (xi_Code item) (xero_state w) = (Inr (Some existing), x2)"
    "xi_ItemID existing = Some pid"
    and d: "\<not> dry_run eng"
    by simp_all
  note o = product_link_outcome[OF h refl run]
  show "let w' = snd (sync_single_product eng product w)
         in (\<exists>m. get_mapping (db w') (str_int (p_id product)) = Some m \<and> m_xero_id m = pid)
            \<and> filter (\<lambda>c. is_create (fst c)) (new_calls w w') = []
            \<and> map fst (filter (\<lambda>c. is_update (fst c)) (new_calls w w')) =
                [UpdateItem (item\<lparr>xi_ItemID := Some pid\<rparr>)]"
    unfolding Let_def run snd_conv using o(1,2) d by simp
qed

theorem archived_contact_is_treated_as_not_found_witness:
  "get_mapping (db (example_world archived_found nothing_to_fetch)) (str_int (c_id customer_a)) = None
   \<and> find_contact_by_email (xero (example_engine False False)) ''a@x.com''
        (xero_state (example_world archived_found nothing_to_fetch))
       = (Inr (Some (contact_d1\<lparr>xc_ContactStatus := ''ARCHIVED''\<rparr>)), archived_found)
   \<and> destination_writes
        (new_calls (example_world archived_found nothing_to_fetch)
           (snd (sync_single_customer (example_engine False False) customer_a
                   (example_world archived_found nothing_to_fetch)))) =
       [(CreateContact (shopify_customer_to_xero_contact customer_a), True)]
   \<and> get_mapping (db (snd (sync_single_customer (example_engine False False) customer_a
                             (example_world archived_found nothing_to_fetch)))) ''1'' =
       Some \<lparr>m_shopify_id = ''1'', m_xero_id = ''contact-1'', m_entity_type = ''customer'',
             m_last_synced_at = Some 1000, m_shopify_updated_at = Some 900,
             m_checksum = Some (calculate_customer_checksum customer_a)\<rparr>
   \<and> fst (sync_single_customer (example_engine False False) customer_a
            (example_world archived_found nothing_to_fetch)) = Inr (''created'', None)
   \<and> get_mapping (db (example_world archived_found nothing_to_fetch)) (str_int (p_id product_p)) = None
   \<and> filter (\<lambda>c. is_create (fst c))
        (new_calls (example_world archived_found nothing_to_fetch)
           (snd (sync_single_product (example_engine False False) product_p
                   (example_world archived_found nothing_to_fetch)))) = []"
proof -
  let ?E = "example_engine False False"
  let ?W = "example_world archived_found nothing_to_fetch"
  let ?c = "contact_d1\<lparr>xc_ContactStatus := ''ARCHIVED''\<rparr>"
  have d: "\<not> dry_run ?E" by (simp add: example_engine_def)
  have c1: "get_mapping (db ?W) (str_int (c_id customer_a)) = None"
    and p1: "get_mapping (db ?W) (str_int (p_id product_p)) = None"
    by (simp_all add: example_defs get_mapping_def)
  have c2: "c_email customer_a = Some ''a@x.com''" "''a@x.com'' \<noteq> []"
    by (simp_all add: customer_a_def)
  have c3: "find_contact_by_email (xero ?E) ''a@x.com'' (xero_state ?W) = (Inr (Some ?c), archived_found)"
    by (simp add: example_defs archived_found_def)
  have c4: "xc_ContactStatus ?c = ''ARCHIVED''" by simp
  obtain item where p2: "shopify_product_to_xero_item (interp ?E) product_p = Inr (Some item)"
    and code: "xi_Code item = ''LAV-1''"
    using ex_product_converts by blast
  have p3: "find_item_by_code (xero ?E) (xi_Code item) (xero_state ?W) =
              (Inr (Some item_p1), archived_found)"
    by (simp add: example_defs archived_found_def)
  have p4: "xi_ItemID item_p1 = Some ''p1''" by (simp add: item_p1_def)
  have made: "create_contact (xero ?E) (shopify_customer_to_xero_contact customer_a) archived_found =
      (Inr ((shopify_customer_to_xero_contact customer_a)\<lparr>xc_ContactID := Some ''contact-1''\<rparr>),
       archived_found)"
    by (simp add: example_defs archived_found_def)
  have vals: "clock ?W = 1000" "str_int (c_id customer_a) = ''1''" "c_updated_at customer_a = Some 900"
    by (simp_all add: example_world_def customer_a_def)
  note t = archived_contact_is_treated_as_not_found[where eng="?E" and w="?W"
      and customer=customer_a and email="''a@x.com''" and contact="?c" and ?x1.0=archived_found
      and product=product_p and item=item and existing=item_p1
      and ?x2.0=archived_found and pid="''p1''"]
  note k = t[THEN conjunct1, THEN mp,
      OF conjI[OF c1 conjI[OF c2(1) conjI[OF c2(2) conjI[OF c3 c4]]]],
      unfolded Let_def, THEN conjunct2]
  from k
  have a: "destination_writes (new_calls ?W (snd (sync_single_customer ?E customer_a ?W))) =
       [(CreateContact (shopify_customer_to_xero_contact customer_a), True)]
     \<and> get_mapping (db (snd (sync_single_customer ?E customer_a ?W))) ''1'' =
       Some \<lparr>m_shopify_id = ''1'', m_xero_id = ''contact-1'', m_entity_type = ''customer'',
             m_last_synced_at = Some 1000, m_shopify_updated_at = Some 900,
             m_checksum = Some (calculate_customer_checksum customer_a)\<rparr>
     \<and> fst (sync_single_customer ?E customer_a ?W) = Inr (''created'', None)"
    by (simp add: made vals d)
  from t[THEN conjunct2] d p1 p2 p3 p4
  have b: "filter (\<lambda>c. is_create (fst c))
             (new_calls ?W (snd (sync_single_product ?E product_p ?W))) = []"
    by (simp add: Let_def)
  from c1 c3 a p1 b show ?thesis by blast
qed

text \<open>
  The claim C6 as it was stated fails for products: an item in the form the engine gives
  to the items it archives (not sold, not purchased, the name prefixed) that is found by
  SKU is linked and updated; no item is created.
\<close>

theorem archived_item_is_linked:
  "get_mapping (db (example_world archived_found nothing_to_fetch)) (str_int (p_id product_p)) = None
   \<and> item_found (xero_state (example_world archived_found nothing_to_fetch)) =
       Some \<lparr>xi_ItemID = Some ''p1'', xi_Code = ''LAV-1'', xi_Name = ''[ARCHIVED] Lavender Melt'',
             xi_Description = None, xi_PurchaseDetails = None, xi_SalesDetails = None,
             xi_IsSold = False, xi_IsPurchased = False\<rparr>
   \<and> fst (sync_single_product (example_engine False False) product_p
            (example_world archived_found nothing_to_fetch)) = Inr (''updated'', None)
   \<and> map (is_create \<circ> fst)
        (new_calls (example_world archived_found nothing_to_fetch)
           (snd (sync_single_product (example_engine False False) product_p
                   (example_world archived_found nothing_to_fetch)))) = [False, False]
   \<and> get_mapping (db (snd (sync_single_product (example_engine False False) product_p
                             (example_world archived_found nothing_to_fetch)))) ''2'' =
       Some \<lparr>m_shopify_id = ''2'', m_xero_id = ''p1'', m_entity_type = ''product'',
             m_last_synced_at = Some 1000, m_shopify_updated_at = Some 900,
             m_checksum = Some (calculate_product_checksum product_p)\<rparr>"
  by (simp add: engine_defs example_defs archived_found_def product_p_def item_p1_def
      shopify_product_to_xero_item_def primary_variant_def example_float_valid_def
      example_interpreter_def new_calls_def)

section \<open>Dry runs\<close>

text \<open>
  C5.  What a dry run does on a customer with no mapping whose contact is found in the
  destination: it reports \<open>updated\<close> and writes the mapping row, fingerprint
  included, so that the same dry run made again reports \<open>skipped\<close>.  Likewise a dry
  run over a mapped order whose stored fingerprint is stale writes the new fingerprint.
\<close>

theorem dry_run_link_writes_fingerprint:
  "dry_run (example_engine False True)
   \<and> get_mapping (db (example_world all_found nothing_to_fetch)) ''1'' = None
   \<and> fst (sync_single_customer (example_engine False True) customer_a
            (example_world all_found nothing_to_fetch)) = Inr (''updated'', None)
   \<and> get_mapping (db (snd (sync_single_customer (example_engine False True) customer_a
                             (example_world all_found nothing_to_fetch)))) ''1'' =
       Some \<lparr>m_shopify_id = ''1'', m_xero_id = ''d1'', m_entity_type = ''customer'',
             m_last_synced_at = Some 1000, m_shopify_updated_at = Some 900,
             m_checksum = Some (calculate_customer_checksum customer_a)\<rparr>
   \<and> fst (sync_single_customer (example_engine False True) customer_a
            (snd (sync_single_customer (example_engine False True) customer_a
                    (example_world all_found nothing_to_fetch)))) = Inr (''skipped'', None)
   \<and> m_checksum (the (get_mapping (db stale_order_world) ''3'')) = Some ''stale''
   \<and> m_checksum (the (get_mapping
        (db (snd (sync_single_order (example_engine False True) order_o Map.empty
                    stale_order_world))) ''3'')) = Some (calculate_order_checksum order_o)"
  by (simp add: engine_defs example_defs all_found_def customer_a_def contact_d1_def order_o_def
      stale_order_world_def sha256_hexdigest_not_short calculate_order_checksum_def)

section \<open>A fetch that fails\<close>

lemma phase_post_refl: "phase_post w w"
  by (simp add: phase_post_def run_events_def)

lemma phase_post_trans:
  assumes "phase_post w w1" "phase_post w1 w2"
  shows "phase_post w w2"
proof -
  from assms have e: "extends w w1" "extends w1 w2" by (simp_all add: phase_post_def)
  from extends_trans[OF e] assms show ?thesis
    by (simp add: phase_post_def run_events_def)
qed

lemma pass_is_phase: "pass_post dry k fp r w w' \<Longrightarrow> phase_post w w'"
  by (simp add: pass_post_def phase_post_def)

lemma record_error_phase:
  "phase_post w (w\<lparr>db := record_error kind k msg now (db w)\<rparr>)"
  by (simp add: phase_post_def extends_def new_calls_def run_events_def)

lemma process_entities_phase:
  assumes pass: "\<And>entity w r w'. sync_one entity w = (r, w') \<Longrightarrow> phase_post w w'"
  shows "process_entities kind label ident sync_one entities result w = (result', w')
         \<Longrightarrow> phase_post w w'"
proof (induction entities arbitrary: result w)
  case Nil
  then show ?case by (simp add: phase_post_refl)
next
  case (Cons entity rest)
  obtain r w1 where one: "sync_one entity w = (r, w1)" by (cases "sync_one entity w")
  from pass[OF one] have p1: "phase_post w w1" .
  show ?case
  proof (cases r)
    case (Inl e)
    with Cons.prems one
    have "process_entities kind label ident sync_one rest
            (result\<lparr>errors := errors result
                        @ [label @ '' '' @ str_int (ident entity) @ '': '' @ str_exn e]\<rparr>)
            (w1\<lparr>db := record_error kind (str_int (ident entity)) (str_exn e) (clock w1) (db w1)\<rparr>)
          = (result', w')"
      by simp
    from Cons.IH[OF this] record_error_phase p1 show ?thesis
      by (blast intro: phase_post_trans)
  next
    case (Inr outcome)
    obtain action error where o: "outcome = (action, error)" by (cases outcome)
    show ?thesis
    proof (cases "truthy error")
      case True
      with Cons.prems one Inr o
      have "process_entities kind label ident sync_one rest
              (result\<lparr>errors := errors result @ [the error]\<rparr>)
              (w1\<lparr>db := record_error kind (str_int (ident entity)) (the error) (clock w1) (db w1)\<rparr>)
            = (result', w')"
        by simp
      from Cons.IH[OF this] record_error_phase p1 show ?thesis
        by (blast intro: phase_post_trans)
    next
      case False
      with Cons.prems one Inr o
      have "process_entities kind label ident sync_one rest (count_action action result) w1
            = (result', w')"
        by simp
      from Cons.IH[OF this] p1 show ?thesis
        by (blast intro: phase_post_trans)
    qed
  qed
qed

lemma shopify_call_phase:
  assumes "shopify_call ev f w = (r, w1)" "\<not> is_run_event ev"
  shows "phase_post w w1" "new_calls w w1 = [(ev, \<not> isl r)]" "db w1 = db w"
  using assms
  by (auto simp: shopify_call_def phase_post_def extends_def new_calls_def run_events_def
      split: prod.splits)

lemma first_call_stays:
  assumes "new_calls w w1 = [c]" "extends w w1" "extends w1 w'"
  shows "c \<in> set (new_calls w w')"
  using extends_trans[OF assms(2,3)] assms(1) by simp

lemma fetch_failed_fields:
  "\<not> success (fetch_failed e)" "errors (fetch_failed e) = [''Fetch failed: '' @ str_exn e]"
  "total_processed (fetch_failed e) = 0"
  by (simp_all add: fetch_failed_def new_SyncResult_def total_processed_def)

lemma sync_products_phase:
  assumes "sync_products eng force w = (r, w')"
  shows "phase_post w w'"
    and "FetchAllProducts (updated_at_min force (db w)) \<in> set (map fst (new_calls w w'))"
proof -
  let ?since = "updated_at_min force (db w)"
  obtain fetched w1 where f: "shopify_call (FetchAllProducts ?since)
      (fetch_all_products (shopify eng) ?since) w = (fetched, w1)"
    by (cases "shopify_call (FetchAllProducts ?since) (fetch_all_products (shopify eng) ?since) w")
  note c = shopify_call_phase[OF f]
  have rest: "phase_post w1 w'"
  proof (cases fetched)
    case (Inl e)
    with assms f show ?thesis by (simp add: sync_products_def phase_post_refl)
  next
    case (Inr products)
    with assms f have "process_entities ''product'' ''Product'' p_id (sync_single_product eng)
               products new_SyncResult w1 = (r, w')"
      by (simp add: sync_products_def)
    then show ?thesis
      by (rule process_entities_phase[rotated]) (blast intro: pass_is_phase sync_single_product_post)
  qed
  from c(1) rest show "phase_post w w'" by (simp add: phase_post_trans)
  from first_call_stays[OF c(2)] c(1) rest
  have "(FetchAllProducts ?since, \<not> isl fetched) \<in> set (new_calls w w')"
    by (simp add: phase_post_def)
  then show "FetchAllProducts ?since \<in> set (map fst (new_calls w w'))"
    by force
qed

lemma sync_orders_phase:
  assumes "sync_orders eng force w = (r, w')"
  shows "phase_post w w'"
    and "FetchAllOrders (updated_at_min force (db w)) \<in> set (map fst (new_calls w w'))"
proof -
  let ?since = "updated_at_min force (db w)"
  obtain fetched w1 where f: "shopify_call (FetchAllOrders ?since)
      (fetch_all_orders (shopify eng) ?since ''any'') w = (fetched, w1)"
    by (cases "shopify_call (FetchAllOrders ?since) (fetch_all_orders (shopify eng) ?since ''any'') w")
  note c = shopify_call_phase[OF f]
  have rest: "phase_post w1 w'"
  proof (cases fetched)
    case (Inl e)
    with assms f show ?thesis by (simp add: sync_orders_def phase_post_refl)
  next
    case (Inr orders)
    with assms f have "process_entities ''order'' ''Order'' o_id
               (\<lambda>order. sync_single_order eng order (build_sku_gl_mapping (db w)))
               orders new_SyncResult w1 = (r, w')"
      by (simp add: sync_orders_def)
    then show ?thesis
      by (rule process_entities_phase[rotated]) (blast intro: pass_is_phase sync_single_order_post)
  qed
  from c(1) rest show "phase_post w w'" by (simp add: phase_post_trans)
  from first_call_stays[OF c(2)] c(1) rest
  have "(FetchAllOrders ?since, \<not> isl fetched) \<in> set (new_calls w w')"
    by (simp add: phase_post_def)
  then show "FetchAllOrders ?since \<in> set (map fst (new_calls w w'))"
    by force
qed

lemma updated_at_min_history:
  "sync_history d' = sync_history d \<Longrightarrow> updated_at_min force d' = updated_at_min force d"
  by (simp add: updated_at_min_def get_last_successful_sync_def)

lemma updated_at_min_running:
  "updated_at_min force
     (d\<lparr>sync_history := sync_history d @
          [\<lparr>h_run_id = run_id, h_started_at = now, h_completed_at = None,
            h_status = ''running'', h_entities_processed = 0, h_errors = []\<rparr>]\<rparr>)
   = updated_at_min force d"
  by (simp add: updated_at_min_def get_last_successful_sync_def)

lemma complete_new_run:
  assumes "run_id \<notin> set (map h_run_id rows)"
  shows "map (\<lambda>row. if h_run_id row = run_id
                    then row\<lparr>h_completed_at := Some now, h_status := status,
                             h_entities_processed := n, h_errors := errs\<rparr>
                    else row)
             (rows @ [\<lparr>h_run_id = run_id, h_started_at = t, h_completed_at = None,
                       h_status = ''running'', h_entities_processed = 0, h_errors = []\<rparr>])
         = rows @ [\<lparr>h_run_id = run_id, h_started_at = t, h_completed_at = Some now,
                     h_status = status, h_entities_processed = n, h_errors = errs\<rparr>]"
  using assms by (induction rows) auto

lemma sync_customers_fetch_failed:
  assumes "fetch_all_customers (shopify eng) (updated_at_min force (db w)) (shopify_state w) = (Inl e, s1)"
  shows "sync_customers eng force w =
           (fetch_failed e,
            w\<lparr>shopify_state := s1,
              trace := trace w @ [(FetchAllCustomers (updated_at_min force (db w)), False)]\<rparr>)"
  using assms by (simp add: sync_customers_def shopify_call_def)

lemma sync_products_fetch_failed:
  assumes "fetch_all_products (shopify eng) (updated_at_min force (db w)) (shopify_state w) = (Inl e, s1)"
  shows "sync_products eng force w =
           (fetch_failed e,
            w\<lparr>shopify_state := s1,
              trace := trace w @ [(FetchAllProducts (updated_at_min force (db w)), False)]\<rparr>)"
  using assms by (simp add: sync_products_def shopify_call_def)

lemma sync_orders_fetch_failed:
  assumes "fetch_all_orders (shopify eng) (updated_at_min force (db w)) ''any'' (shopify_state w) = (Inl e, s1)"
  shows "sync_orders eng force w =
           (fetch_failed e,
            w\<lparr>shopify_state := s1,
              trace := trace w @ [(FetchAllOrders (updated_at_min force (db w)), False)]\<rparr>)"
  using assms by (simp add: sync_orders_def shopify_call_def)

lemma failed_stats:
  "\<not> stats_success \<lparr>st_run_id = i, st_started_at = t, st_completed_at = c,
                     st_customers = Some (fetch_failed e), st_products = p, st_orders = q\<rparr>"
  by (simp add: stats_success_def stats_total_errors_def fetch_failed_fields)

text \<open>
  C9.  A phase whose fetch raises returns a result with \<open>success\<close> false and the one
  error \<open>Fetch failed: ...\<close>.  And a run (with a run id not yet in the history) whose
  customer fetch raises still returns its statistics: the customer result is that failed
  result, and the product phase and then the order phase are run in the world the
  customer phase left, each making its fetch call; the run record is written exactly
  twice, once when the run starts and once when it is completed, and the history ends
  with the one row of this run, completed with status \<open>failed\<close>.
\<close>

theorem fetch_failure_does_not_stop_the_run:
  "(fetch_all_products (shopify eng) (updated_at_min force (db w)) (shopify_state w) = (Inl e, s1)
      \<longrightarrow> fst (sync_products eng force w) = fetch_failed e)
   \<and> (fetch_all_orders (shopify eng) (updated_at_min force (db w)) ''any'' (shopify_state w)
        = (Inl e, s1)
      \<longrightarrow> fst (sync_orders eng force w) = fetch_failed e)
   \<and> \<not> success (fetch_failed e)
   \<and> errors (fetch_failed e) = [''Fetch failed: '' @ str_exn e]
   \<and> (run_id \<notin> set (map h_run_id (sync_history (db w)))
      \<and> fetch_all_customers (shopify eng) (updated_at_min force (db w)) (shopify_state w)
          = (Inl e, s1)
      \<longrightarrow> (let since = updated_at_min force (db w);
               w1 = w\<lparr>db := (db w)\<lparr>sync_history := sync_history (db w) @
                               [\<lparr>h_run_id = run_id, h_started_at = clock w,
                                 h_completed_at = None, h_status = ''running'',
                                 h_entities_processed = 0, h_errors = []\<rparr>]\<rparr>,
                       shopify_state := s1,
                       trace := trace w @ [(StartSyncRun run_id, True),
                                           (FetchAllCustomers since, False)]\<rparr>;
               products = sync_products eng force w1;
               orders = sync_orders eng force (snd products);
               stats = \<lparr>st_run_id = run_id, st_started_at = clock w,
                        st_completed_at = Some (clock w),
                        st_customers = Some (fetch_failed e),
                        st_products = Some (fst products), st_orders = Some (fst orders)\<rparr>;
               w' = snd (run_full_sync eng force run_id w)
           in fst (run_full_sync eng force run_id w) = Inr stats
              \<and> FetchAllProducts since \<in> set (map fst (new_calls w w'))
              \<and> FetchAllOrders since \<in> set (map fst (new_calls w w'))
              \<and> run_events (new_calls w w') =
                  [(StartSyncRun run_id, True), (CompleteSyncRun run_id ''failed'', True)]
              \<and> sync_history (db w') =
                  sync_history (db w) @
                  [\<lparr>h_run_id = run_id, h_started_at = clock w,
                    h_completed_at = Some (clock w), h_status = ''failed'',
                    h_entities_processed = stats_total_processed stats,
                    h_errors = stats_total_errors stats\<rparr>]))"
proof (intro conjI impI)
  assume "fetch_all_products (shopify eng) (updated_at_min force (db w)) (shopify_state w) = (Inl e, s1)"
  from sync_products_fetch_failed[OF this]
  show "fst (sync_products eng force w) = fetch_failed e" by simp
next
  assume "fetch_all_orders (shopify eng) (updated_at_min force (db w)) ''any'' (shopify_state w)
            = (Inl e, s1)"
  from sync_orders_fetch_failed[OF this]
  show "fst (sync_orders eng force w) = fetch_failed e" by simp
next
  show "\<not> success (fetch_failed e)" by (rule fetch_failed_fields)
next
  show "errors (fetch_failed e) = [''Fetch failed: '' @ str_exn e]" by (rule fetch_failed_fields)
next
  assume a: "run_id \<notin> set (map h_run_id (sync_history (db w)))
      \<and> fetch_all_customers (shopify eng) (updated_at_min force (db w)) (shopify_state w)
          = (Inl e, s1)"
  let ?since = "updated_at_min force (db w)"
  let ?running = "\<lparr>h_run_id = run_id, h_started_at = clock w, h_completed_at = None,
                    h_status = ''running'', h_entities_processed = 0, h_errors = []\<rparr>"
  let ?d = "(db w)\<lparr>sync_history := sync_history (db w) @ [?running]\<rparr>"
  let ?w0 = "w\<lparr>db := ?d, trace := trace w @ [(StartSyncRun run_id, True)]\<rparr>"
  let ?w1 = "w\<lparr>db := ?d, shopify_state := s1,
               trace := trace w @ [(StartSyncRun run_id, True), (FetchAllCustomers ?since, False)]\<rparr>"
  from a have fresh: "run_id \<notin> set (map h_run_id (sync_history (db w)))"
    and fail: "fetch_all_customers (shopify eng) ?since (shopify_state w) = (Inl e, s1)"
    by simp_all
  have start: "start_sync_run run_id (clock w) (db w) = Inr ?d"
    using fresh by (simp add: start_sync_run_def)
  have since0: "updated_at_min force (db ?w0) = ?since"
    by (simp add: updated_at_min_running)
  from fail have "fetch_all_customers (shopify eng) (updated_at_min force (db ?w0)) (shopify_state ?w0)
                    = (Inl e, s1)"
    by (simp only: since0) simp
  from sync_customers_fetch_failed[OF this]
  have customers: "sync_customers eng force ?w0 = (fetch_failed e, ?w1)"
    by (simp add: updated_at_min_running)
  obtain products w2 where p: "sync_products eng force ?w1 = (products, w2)"
    by (cases "sync_products eng force ?w1")
  obtain orders w3 where o: "sync_orders eng force w2 = (orders, w3)"
    by (cases "sync_orders eng force w2")
  let ?stats = "\<lparr>st_run_id = run_id, st_started_at = clock w, st_completed_at = Some (clock w),
                  st_customers = Some (fetch_failed e), st_products = Some products,
                  st_orders = Some orders\<rparr>"
  note pp = sync_products_phase[OF p]
  note op = sync_orders_phase[OF o]
  have since1: "updated_at_min force (db ?w1) = ?since"
    by (simp add: updated_at_min_running)
  have h2: "sync_history (db w2) = sync_history (db ?w1)" and c2: "clock w2 = clock w"
    and e12: "extends ?w1 w2" and r12: "run_events (new_calls ?w1 w2) = []"
    using pp(1) by (simp_all add: phase_post_def)
  have since2: "updated_at_min force (db w2) = ?since"
    using updated_at_min_history[OF h2, of force] since1 by simp
  have h3: "sync_history (db w3) = sync_history (db w2)" and c3: "clock w3 = clock w"
    and e23: "extends w2 w3" and r23: "run_events (new_calls w2 w3) = []"
    using op(1) c2 by (simp_all add: phase_post_def)
  have e01: "extends w ?w1"
    and n01: "new_calls w ?w1 = [(StartSyncRun run_id, True), (FetchAllCustomers ?since, False)]"
    by (simp_all add: extends_def new_calls_def)
  note t12 = extends_trans[OF e12 e23]
  note t03 = extends_trans[OF e01 conjunct1[OF t12]]
  have n03: "new_calls w w3 = [(StartSyncRun run_id, True), (FetchAllCustomers ?since, False)]
                @ new_calls ?w1 w2 @ new_calls w2 w3"
    using t03 t12 n01 by simp
  from t03 obtain calls where tr3: "trace w3 = trace w @ calls" and calls: "new_calls w w3 = calls"
    by (auto elim: extendsD)
  let ?w' = "w3\<lparr>db := complete_sync_run run_id ''failed'' (stats_total_processed ?stats)
                          (stats_total_errors ?stats) (clock w3) (db w3),
                trace := trace w3 @ [(CompleteSyncRun run_id ''failed'', True)]\<rparr>"
  have run: "run_full_sync eng force run_id w = (Inr ?stats, ?w')"
    unfolding run_full_sync_def Let_def start
    by (simp add: customers p o c3 failed_stats)
  have tr': "trace ?w' = trace w @ (calls @ [(CompleteSyncRun run_id ''failed'', True)])"
    by (simp add: tr3)
  from extends_append[OF tr']
  have nw: "new_calls w ?w' = new_calls w w3 @ [(CompleteSyncRun run_id ''failed'', True)]"
    by (simp add: calls)
  have fp: "FetchAllProducts ?since \<in> set (map fst (new_calls w ?w'))"
    using pp(2) unfolding since1 nw n03 by auto
  have fo: "FetchAllOrders ?since \<in> set (map fst (new_calls w ?w'))"
    using op(2) unfolding since2 nw n03 by auto
  have re: "run_events (new_calls w ?w') =
              [(StartSyncRun run_id, True), (CompleteSyncRun run_id ''failed'', True)]"
    using r12 r23 unfolding nw n03 by (simp add: run_events_def)
  have hist: "sync_history (db ?w') =
                sync_history (db w) @
                  [\<lparr>h_run_id = run_id, h_started_at = clock w,
                    h_completed_at = Some (clock w), h_status = ''failed'',
                    h_entities_processed = stats_total_processed ?stats,
                    h_errors = stats_total_errors ?stats\<rparr>]"
    using complete_new_run[OF fresh] by (simp add: complete_sync_run_def h3 h2 c3)
  show "let since = updated_at_min force (db w);
               w1 = w\<lparr>db := (db w)\<lparr>sync_history := sync_history (db w) @
                               [\<lparr>h_run_id = run_id, h_started_at = clock w,
                                 h_completed_at = None, h_status = ''running'',
                                 h_entities_processed = 0, h_errors = []\<rparr>]\<rparr>,
                       shopify_state := s1,
                       trace := trace w @ [(StartSyncRun run_id, True),
                                           (FetchAllCustomers since, False)]\<rparr>;
               products = sync_products eng force w1;
               orders = sync_orders eng force (snd products);
               stats = \<lparr>st_run_id = run_id, st_started_at = clock w,
                        st_completed_at = Some (clock w),
                        st_customers = Some (fetch_failed e),
                        st_products = Some (fst products), st_orders = Some (fst orders)\<rparr>;
               w' = snd (run_full_sync eng force run_id w)
           in fst (run_full_sync eng force run_id w) = Inr stats
              \<and> FetchAllProducts since \<in> set (map fst (new_calls w w'))
              \<and> FetchAllOrders since \<in> set (map fst (new_calls w w'))
              \<and> run_events (new_calls w w') =
                  [(StartSyncRun run_id, True), (CompleteSyncRun run_id ''failed'', True)]
              \<and> sync_history (db w') =
                  sync_history (db w) @
                  [\<lparr>h_run_id = run_id, h_started_at = clock w,
                    h_completed_at = Some (clock w), h_status = ''failed'',
                    h_entities_processed = stats_total_processed stats,
                    h_errors = stats_total_errors stats\<rparr>]"
    unfolding Let_def p snd_conv fst_conv o run
    using fp fo re hist by blast
qed

theorem fetch_failure_does_not_stop_the_run_witness:
  "''run-1'' \<notin> set (map h_run_id (sync_history (db (example_world nothing_found failing_customers_fetch))))
   \<and> fetch_all_customers (shopify (example_engine False False))
        (updated_at_min False (db (example_world nothing_found failing_customers_fetch)))
        (shopify_state (example_world nothing_found failing_customers_fetch))
       = (Inl (OtherException ''connection reset''), failing_customers_fetch)
   \<and> fst (run_full_sync (example_engine False False) False ''run-1''
            (example_world nothing_found failing_customers_fetch)) =
       Inr \<lparr>st_run_id = ''run-1'', st_started_at = 1000, st_completed_at = Some 1000,
            st_customers = Some \<lparr>success = False, created = 0, updated = 0, skipped = 0,
                                 errors = [''Fetch failed: connection reset'']\<rparr>,
            st_products = Some \<lparr>success = True, created = 1, updated = 0, skipped = 0,
                                errors = []\<rparr>,
            st_orders = Some \<lparr>success = True, created = 0, updated = 0, skipped = 0,
                              errors = []\<rparr>\<rparr>
   \<and> run_events (new_calls (example_world nothing_found failing_customers_fetch)
        (snd (run_full_sync (example_engine False False) False ''run-1''
                (example_world nothing_found failing_customers_fetch)))) =
       [(StartSyncRun ''run-1'', True), (CompleteSyncRun ''run-1'' ''failed'', True)]
   \<and> sync_history (db (snd (run_full_sync (example_engine False False) False ''run-1''
                              (example_world nothing_found failing_customers_fetch)))) =
       [\<lparr>h_run_id = ''run-1'', h_started_at = 1000, h_completed_at = Some 1000,
         h_status = ''failed'', h_entities_processed = 1,
         h_errors = [''Fetch failed: connection reset'']\<rparr>]
   \<and> fetch_all_products (shopify (example_engine False False))
        (updated_at_min False (db (example_world nothing_found failing_later_fetches)))
        (shopify_state (example_world nothing_found failing_later_fetches))
       = (Inl (OtherException ''connection reset''), failing_later_fetches)
   \<and> fst (sync_products (example_engine False False) False
            (example_world nothing_found failing_later_fetches)) =
       \<lparr>success = False, created = 0, updated = 0, skipped = 0,
        errors = [''Fetch failed: connection reset'']\<rparr>
   \<and> fst (sync_orders (example_engine False False) False
            (example_world nothing_found failing_later_fetches)) =
       \<lparr>success = False, created = 0, updated = 0, skipped = 0,
        errors = [''Fetch failed: connection reset'']\<rparr>"
proof -
  let ?E = "example_engine False False"
  let ?W = "example_world nothing_found failing_customers_fetch"
  let ?V = "example_world nothing_found failing_later_fetches"
  let ?e = "OtherException ''connection reset''"
  have since: "updated_at_min False (db ?W) = None" "updated_at_min False (db ?V) = None"
    by (simp_all add: updated_at_min_def get_last_successful_sync_def example_world_def
        init_schema_def)
  have fresh: "''run-1'' \<notin> set (map h_run_id (sync_history (db ?W)))"
    by (simp add: example_world_def init_schema_def)
  have fail: "fetch_all_customers (shopify ?E) (updated_at_min False (db ?W)) (shopify_state ?W)
                = (Inl ?e, failing_customers_fetch)"
    by (simp add: example_defs failing_customers_fetch_def)
  have pfail: "fetch_all_products (shopify ?E) (updated_at_min False (db ?V)) (shopify_state ?V)
                = (Inl ?e, failing_later_fetches)"
    and ofail: "fetch_all_orders (shopify ?E) (updated_at_min False (db ?V)) ''any'' (shopify_state ?V)
                = (Inl ?e, failing_later_fetches)"
    by (simp_all add: example_defs failing_later_fetches_def)
  have ff: "fetch_failed ?e = \<lparr>success = False, created = 0, updated = 0, skipped = 0,
                               errors = [''Fetch failed: connection reset'']\<rparr>"
    by (simp add: fetch_failed_def new_SyncResult_def)
  let ?w1 = "?W\<lparr>db := (db ?W)\<lparr>sync_history := sync_history (db ?W) @
                               [\<lparr>h_run_id = ''run-1'', h_started_at = clock ?W,
                                 h_completed_at = None, h_status = ''running'',
                                 h_entities_processed = 0, h_errors = []\<rparr>]\<rparr>,
                    shopify_state := failing_customers_fetch,
                    trace := trace ?W @ [(StartSyncRun ''run-1'', True),
                                         (FetchAllCustomers (updated_at_min False (db ?W)), False)]\<rparr>"
  have products: "fst (sync_products ?E False ?w1) =
                    \<lparr>success = True, created = 1, updated = 0, skipped = 0, errors = []\<rparr>"
    by (simp add: sync_products_def shopify_call_def updated_at_min_def
        get_last_successful_sync_def engine_defs example_defs failing_customers_fetch_def
        product_p_def shopify_product_to_xero_item_def primary_variant_def
        example_float_valid_def example_interpreter_def new_SyncResult_def count_action_def)
  have orders: "fst (sync_orders ?E False (snd (sync_products ?E False ?w1))) =
                    \<lparr>success = True, created = 0, updated = 0, skipped = 0, errors = []\<rparr>"
    by (simp add: sync_products_def sync_orders_def shopify_call_def updated_at_min_def
        get_last_successful_sync_def engine_defs example_defs failing_customers_fetch_def
        product_p_def shopify_product_to_xero_item_def primary_variant_def
        example_float_valid_def example_interpreter_def new_SyncResult_def count_action_def)
  have clk: "clock ?W = 1000" "sync_history (db ?W) = []"
    by (simp_all add: example_world_def init_schema_def)
  note t = fetch_failure_does_not_stop_the_run[where eng="?E" and force=False
      and e="?e" and run_id="''run-1''"]
  from t[where w="?W" and ?s1.0=failing_customers_fetch, THEN conjunct2, THEN conjunct2,
         THEN conjunct2, THEN conjunct2, THEN mp, OF conjI[OF fresh fail], unfolded Let_def,
         unfolded products orders]
  have run: "fst (run_full_sync ?E False ''run-1'' ?W) =
       Inr \<lparr>st_run_id = ''run-1'', st_started_at = 1000, st_completed_at = Some 1000,
            st_customers = Some \<lparr>success = False, created = 0, updated = 0, skipped = 0,
                                 errors = [''Fetch failed: connection reset'']\<rparr>,
            st_products = Some \<lparr>success = True, created = 1, updated = 0, skipped = 0,
                                errors = []\<rparr>,
            st_orders = Some \<lparr>success = True, created = 0, updated = 0, skipped = 0,
                              errors = []\<rparr>\<rparr>
     \<and> run_events (new_calls ?W (snd (run_full_sync ?E False ''run-1'' ?W))) =
       [(StartSyncRun ''run-1'', True), (CompleteSyncRun ''run-1'' ''failed'', True)]
     \<and> sync_history (db (snd (run_full_sync ?E False ''run-1'' ?W))) =
       [\<lparr>h_run_id = ''run-1'', h_started_at = 1000, h_completed_at = Some 1000,
         h_status = ''failed'', h_entities_processed = 1,
         h_errors = [''Fetch failed: connection reset'']\<rparr>]"
    by (simp add: ff clk stats_total_processed_def stats_total_errors_def total_processed_def)
  from t[where w="?V" and ?s1.0=failing_later_fetches, THEN conjunct1] pfail
  have ph: "fst (sync_products ?E False ?V) =
       \<lparr>success = False, created = 0, updated = 0, skipped = 0,
        errors = [''Fetch failed: connection reset'']\<rparr>"
    by (simp add: ff)
  from t[where w="?V" and ?s1.0=failing_later_fetches, THEN conjunct2, THEN conjunct1] ofail
  have oh: "fst (sync_orders ?E False ?V) =
       \<lparr>success = False, created = 0, updated = 0, skipped = 0,
        errors = [''Fetch failed: connection reset'']\<rparr>"
    by (simp add: ff)
  from fresh fail run pfail ph oh show ?thesis by blast
qed

end
